theory Spec2Isabelle
  imports Complex_Main
begin

section \<open>Conventions\<close>

text \<open>
  The C++ sources compute with \<^verbatim>\<open>double\<close>; here every \<^verbatim>\<open>double\<close> is a \<^typ>\<open>real\<close> and
  the arithmetic is exact.  A multi-dimensional \<^verbatim>\<open>DataMatrix\<close> is a curried function of
  its indices, a \<^verbatim>\<open>DataVector\<close> that is only read is a list or a function of its
  index.  The macros \<^verbatim>\<open>_EXCEPTIONT\<close> and \<^verbatim>\<open>_EXCEPTION1\<close> become values of
  \<open>exception\<close>, returned on the left of a sum.  A \<^verbatim>\<open>for\<close> loop over \<open>0 \<le> k < n\<close> is a
  \<^const>\<open>fold\<close> over \<open>[0..<n]\<close>.
\<close>

datatype exception =
    ExceptionT string
  | Exception1 string real

datatype VerticalStaggering =
    VerticalStaggering_Levels
  | VerticalStaggering_Interfaces
  | VerticalStaggering_CharneyPhillips

subsection \<open>Arrays\<close>

text \<open>
  \<^verbatim>\<open>m[i][j] = v\<close> and its relatives with three, four and five indices: the array with one
  entry replaced.
\<close>

definition set2 :: "(nat \<Rightarrow> nat \<Rightarrow> 'a) \<Rightarrow> nat \<Rightarrow> nat \<Rightarrow> 'a \<Rightarrow> nat \<Rightarrow> nat \<Rightarrow> 'a" where
  "set2 m i j v = m(i := (m i)(j := v))"

definition set3 :: "(nat \<Rightarrow> nat \<Rightarrow> nat \<Rightarrow> 'a) \<Rightarrow> nat \<Rightarrow> nat \<Rightarrow> nat \<Rightarrow> 'a \<Rightarrow> nat \<Rightarrow> nat \<Rightarrow> nat \<Rightarrow> 'a" where
  "set3 m k i j v = m(k := set2 (m k) i j v)"

definition set4 ::
  "(nat \<Rightarrow> nat \<Rightarrow> nat \<Rightarrow> nat \<Rightarrow> 'a) \<Rightarrow> nat \<Rightarrow> nat \<Rightarrow> nat \<Rightarrow> nat \<Rightarrow> 'a \<Rightarrow> nat \<Rightarrow> nat \<Rightarrow> nat \<Rightarrow> nat \<Rightarrow> 'a" where
  "set4 m k i j c v = m(k := set3 (m k) i j c v)"

definition set5 ::
  "(nat \<Rightarrow> nat \<Rightarrow> nat \<Rightarrow> nat \<Rightarrow> nat \<Rightarrow> 'a) \<Rightarrow> nat \<Rightarrow> nat \<Rightarrow> nat \<Rightarrow> nat \<Rightarrow> nat \<Rightarrow> 'a \<Rightarrow>
     nat \<Rightarrow> nat \<Rightarrow> nat \<Rightarrow> nat \<Rightarrow> nat \<Rightarrow> 'a" where
  "set5 m d c k i j v = m(d := set4 (m d) c k i j v)"

lemma set2_apply [simp]: "set2 m i j v i' j' = (if i' = i \<and> j' = j then v else m i' j')"
  by (simp add: set2_def)

lemma set3_apply [simp]:
  "set3 m k i j v k' i' j' = (if k' = k \<and> i' = i \<and> j' = j then v else m k' i' j')"
  by (simp add: set3_def)

lemma set4_apply [simp]:
  "set4 m k i j c v k' i' j' c' =
     (if k' = k \<and> i' = i \<and> j' = j \<and> c' = c then v else m k' i' j' c')"
  by (simp add: set4_def)

lemma set5_apply [simp]:
  "set5 m d c k i j v d' c' k' i' j' =
     (if d' = d \<and> c' = c \<and> k' = k \<and> i' = i \<and> j' = j then v else m d' c' k' i' j')"
  by (simp add: set5_def)

section \<open>The grid and the Cartesian grid patch\<close>

text \<open>
  What \<^verbatim>\<open>GridPatchCartesianGLL\<close> reads from its grid \<^verbatim>\<open>m_grid\<close>: the model top, the
  number of levels, the reference coordinate of the levels and of the interfaces, the
  vertical stretch (\<^verbatim>\<open>EvaluateVerticalStretchF\<close> returns the stretched coordinate and
  its derivative through two reference arguments: here a pair), the staggering and the
  normalized areas.  The class \<^verbatim>\<open>Grid\<close> is not part of the sources at hand; its
  accessors are the fields of a record.
\<close>

record Grid =
  Grid_GetZtop :: real
  GetRElements :: nat
  GetREtaLevel :: "nat \<Rightarrow> real"
  GetREtaInterface :: "nat \<Rightarrow> real"
  EvaluateVerticalStretchF :: "real \<Rightarrow> real \<times> real"
  GetVerticalStaggering :: VerticalStaggering
  GetREtaLevelsNormArea :: "real list"
  GetREtaInterfacesNormArea :: "real list"

text \<open>The accessors of the \<^verbatim>\<open>PatchBox\<close> \<^verbatim>\<open>m_box\<close> that the patch calls.\<close>

record PatchBox =
  GetATotalWidth :: nat
  GetBTotalWidth :: nat
  GetAInteriorBegin :: nat
  GetBInteriorBegin :: nat

text \<open>
  The members of the patch that the functions below read or write, with the names of the
  source.  \<^verbatim>\<open>GetElementCountA\<close>, \<^verbatim>\<open>GetElementCountB\<close>, \<^verbatim>\<open>GetElementDeltaA\<close> and
  \<^verbatim>\<open>GetElementDeltaB\<close> are methods of the base class, which is not part of the sources
  at hand: they are fields.  The arrays keep the index order of the source:
  \<^verbatim>\<open>m_dataJacobian[k][iA][iB]\<close>, \<^verbatim>\<open>m_dataContraMetricA[k][iA][iB][c]\<close>,
  \<^verbatim>\<open>m_datavecStateNode[iDataIndex][c][k][i][j]\<close>.
\<close>

record GridPatchCartesianGLL =
  m_box :: PatchBox
  m_nHorizontalOrder :: nat
  GetElementCountA :: nat
  GetElementCountB :: nat
  GetElementDeltaA :: real
  GetElementDeltaB :: real
  m_dataLon :: "nat \<Rightarrow> nat \<Rightarrow> real"
  m_dataLat :: "nat \<Rightarrow> nat \<Rightarrow> real"
  m_dataTopography :: "nat \<Rightarrow> nat \<Rightarrow> real"
  m_dataTopographyDeriv :: "nat \<Rightarrow> nat \<Rightarrow> nat \<Rightarrow> real"
  m_dataZLevels :: "nat \<Rightarrow> nat \<Rightarrow> nat \<Rightarrow> real"
  m_dataZInterfaces :: "nat \<Rightarrow> nat \<Rightarrow> nat \<Rightarrow> real"
  m_dataJacobian2D :: "nat \<Rightarrow> nat \<Rightarrow> real"
  m_dataContraMetric2DA :: "nat \<Rightarrow> nat \<Rightarrow> nat \<Rightarrow> real"
  m_dataContraMetric2DB :: "nat \<Rightarrow> nat \<Rightarrow> nat \<Rightarrow> real"
  m_dataCovMetric2DA :: "nat \<Rightarrow> nat \<Rightarrow> nat \<Rightarrow> real"
  m_dataCovMetric2DB :: "nat \<Rightarrow> nat \<Rightarrow> nat \<Rightarrow> real"
  m_dataJacobian :: "nat \<Rightarrow> nat \<Rightarrow> nat \<Rightarrow> real"
  m_dataElementArea :: "nat \<Rightarrow> nat \<Rightarrow> nat \<Rightarrow> real"
  m_dataContraMetricA :: "nat \<Rightarrow> nat \<Rightarrow> nat \<Rightarrow> nat \<Rightarrow> real"
  m_dataContraMetricB :: "nat \<Rightarrow> nat \<Rightarrow> nat \<Rightarrow> nat \<Rightarrow> real"
  m_dataContraMetricXi :: "nat \<Rightarrow> nat \<Rightarrow> nat \<Rightarrow> nat \<Rightarrow> real"
  m_dataCovMetricA :: "nat \<Rightarrow> nat \<Rightarrow> nat \<Rightarrow> nat \<Rightarrow> real"
  m_dataCovMetricB :: "nat \<Rightarrow> nat \<Rightarrow> nat \<Rightarrow> nat \<Rightarrow> real"
  m_dataCovMetricXi :: "nat \<Rightarrow> nat \<Rightarrow> nat \<Rightarrow> nat \<Rightarrow> real"
  m_dataDerivRNode :: "nat \<Rightarrow> nat \<Rightarrow> nat \<Rightarrow> nat \<Rightarrow> real"
  m_dataJacobianREdge :: "nat \<Rightarrow> nat \<Rightarrow> nat \<Rightarrow> real"
  m_dataElementAreaREdge :: "nat \<Rightarrow> nat \<Rightarrow> nat \<Rightarrow> real"
  m_dataContraMetricAREdge :: "nat \<Rightarrow> nat \<Rightarrow> nat \<Rightarrow> nat \<Rightarrow> real"
  m_dataContraMetricBREdge :: "nat \<Rightarrow> nat \<Rightarrow> nat \<Rightarrow> nat \<Rightarrow> real"
  m_dataContraMetricXiREdge :: "nat \<Rightarrow> nat \<Rightarrow> nat \<Rightarrow> nat \<Rightarrow> real"
  m_dataDerivRREdge :: "nat \<Rightarrow> nat \<Rightarrow> nat \<Rightarrow> nat \<Rightarrow> real"
  m_datavecStateNode :: "nat \<Rightarrow> nat \<Rightarrow> nat \<Rightarrow> nat \<Rightarrow> nat \<Rightarrow> real"
  m_datavecStateREdge :: "nat \<Rightarrow> nat \<Rightarrow> nat \<Rightarrow> nat \<Rightarrow> nat \<Rightarrow> real"

text \<open>
  The accessors of \<^verbatim>\<open>PhysicalConstants\<close> that the test case calls.  The class itself is
  not part of the sources at hand, so the constants are the fields of a record.
\<close>

record PhysicalConstants =
  GetG :: real
  GetCv :: real
  GetCp :: real
  GetR :: real
  GetP0 :: real

section \<open>Loops that set up a property at one index and keep it at the others\<close>

text \<open>
  \<open>I\<close> is what every iteration keeps, \<open>P\<close> what the iteration \<open>x\<close> sets up and the others
  keep.
\<close>

lemma fold_invariant:
  assumes "I s" and "\<And>y s. y \<in> set xs \<Longrightarrow> I s \<Longrightarrow> I (f y s)"
  shows "I (fold f xs s)"
  using assms by (induction xs arbitrary: s) auto

lemma fold_establish:
  assumes x: "x \<in> set xs" and I0: "I s"
    and inv: "\<And>y s. y \<in> set xs \<Longrightarrow> I s \<Longrightarrow> I (f y s)"
    and est: "\<And>s. I s \<Longrightarrow> P (f x s)"
    and pres: "\<And>y s. y \<in> set xs \<Longrightarrow> I s \<Longrightarrow> P s \<Longrightarrow> P (f y s)"
  shows "P (fold f xs s)"
  using x I0 inv pres
proof (induction xs arbitrary: s)
  case Nil
  then show ?case by simp
next
  case (Cons y ys)
  show ?case
  proof (cases "x = y")
    case True
    have "I (f y s) \<and> P (f y s)"
      using Cons.prems est True by auto
    then have "I (fold f ys (f y s)) \<and> P (fold f ys (f y s))"
      by (rule fold_invariant) (use Cons.prems in auto)
    then show ?thesis by simp
  next
    case False
    then have "x \<in> set ys" using Cons.prems by auto
    moreover have "I (f y s)" using Cons.prems by auto
    ultimately have "P (fold f ys (f y s))"
      by (rule Cons.IH) (use Cons.prems in auto)
    then show ?thesis by simp
  qed
qed


section \<open>GridPatchCartesianGLL::EvaluateGeometricTerms\<close>

text \<open>
  The opening of \<^verbatim>\<open>EvaluateGeometricTerms\<close>: both sums are accumulated from \<open>0.0\<close> front
  to back; the sum over the interfaces is only looked at when the staggering is not
  \<^verbatim>\<open>VerticalStaggering_Interfaces\<close>.
\<close>

definition VerifyNormalizedAreas ::
  "VerticalStaggering \<Rightarrow> real list \<Rightarrow> real list \<Rightarrow> exception + unit" where
  "VerifyNormalizedAreas eStaggering dWNode dWREdge =
     (let dWNodeSum = foldl (+) 0 dWNode in
      if \<bar>dWNodeSum - 1\<bar> > 1 / 10 ^ 13
      then Inl (Exception1 ''Error in normalized areas (%1.15e)'' dWNodeSum)
      else if eStaggering \<noteq> VerticalStaggering_Interfaces
      then (let dWREdgeSum = foldl (+) 0 dWREdge in
            if \<bar>dWREdgeSum - 1\<bar> > 1 / 10 ^ 13
            then Inl (Exception1 ''Error in normalized areas (%1.15e)'' dWREdgeSum)
            else Inr ())
      else Inr ())"

text \<open>
  The vertical coordinate transform on a model level: the physical height \<open>dZ\<close> and the
  derivatives of the height in the two horizontal directions and in the reference
  vertical coordinate (the first statements of the loop over the levels).
\<close>

definition TerrainFollowingCoord ::
  "Grid \<Rightarrow> real \<Rightarrow> real \<Rightarrow> real \<Rightarrow> real \<Rightarrow> real \<times> real \<times> real \<times> real" where
  "TerrainFollowingCoord g dZs dDaZs dDbZs dREta =
     (let (dREtaStretch, dDxREtaStretch) = EvaluateVerticalStretchF g dREta;
          dZ = dZs + (Grid_GetZtop g - dZs) * dREtaStretch;
          dDaZ = (1 - dREtaStretch) * dDaZs;
          dDbZ = (1 - dREtaStretch) * dDbZs;
          dDxZ = (Grid_GetZtop g - dZs) * dDxREtaStretch
      in (dZ, dDaZ, dDbZ, dDxZ))"

text \<open>
  The same on an interface.  There the source computes the three derivatives only: the
  height itself is commented out.
\<close>

definition TerrainFollowingCoordREdge ::
  "Grid \<Rightarrow> real \<Rightarrow> real \<Rightarrow> real \<Rightarrow> real \<Rightarrow> real \<times> real \<times> real" where
  "TerrainFollowingCoordREdge g dZs dDaZs dDbZs dREta =
     (let (dREtaStretch, dDxREtaStretch) = EvaluateVerticalStretchF g dREta;
          dDaZ = (1 - dREtaStretch) * dDaZs;
          dDbZ = (1 - dREtaStretch) * dDbZs;
          dDxZ = (Grid_GetZtop g - dZs) * dDxREtaStretch
      in (dDaZ, dDbZ, dDxZ))"

text \<open>
  The body of the loop over the levels \<open>k\<close> at the node \<open>(iA, iB)\<close>, the \<open>i\<close>-th and
  \<open>j\<close>-th node of its element: Jacobian, element area, contravariant and covariant
  metric, derivatives of the transform.  The assignments follow the order of the source,
  the three components of one array in one step.  \<open>dWL\<close> are the Gauss-Lobatto weights
  on \<open>[0, 1]\<close> (\<^verbatim>\<open>GaussLobattoQuadrature::GetPoints\<close> is not part of the sources at hand).
\<close>

definition EvaluateGeometricTerms_Level ::
  "Grid \<Rightarrow> (nat \<Rightarrow> real) \<Rightarrow> nat \<Rightarrow> nat \<Rightarrow> nat \<Rightarrow> nat \<Rightarrow> real \<Rightarrow> real \<Rightarrow> real \<Rightarrow> nat \<Rightarrow>
     GridPatchCartesianGLL \<Rightarrow> GridPatchCartesianGLL" where
  "EvaluateGeometricTerms_Level g dWL i j iA iB dZs dDaZs dDbZs k p =
     (let dWNode = GetREtaLevelsNormArea g;
          dREta = GetREtaLevel g k;
          (dZ, dDaZ, dDbZ, dDxZ) = TerrainFollowingCoord g dZs dDaZs dDbZs dREta;
          p = p\<lparr>m_dataJacobian :=
                set3 (m_dataJacobian p) k iA iB (dDxZ * m_dataJacobian2D p iA iB)\<rparr>;
          p = p\<lparr>m_dataElementArea :=
                set3 (m_dataElementArea p) k iA iB
                  (m_dataJacobian p k iA iB
                   * dWL i * GetElementDeltaA p
                   * dWL j * GetElementDeltaB p
                   * dWNode ! k)\<rparr>;
          p = p\<lparr>m_dataContraMetricA :=
                set4 (set4 (set4 (m_dataContraMetricA p)
                  k iA iB 0 (m_dataContraMetric2DA p iA iB 0))
                  k iA iB 1 (m_dataContraMetric2DA p iA iB 1))
                  k iA iB 2 (- dDaZ / dDxZ)\<rparr>;
          p = p\<lparr>m_dataContraMetricB :=
                set4 (set4 (set4 (m_dataContraMetricB p)
                  k iA iB 0 (m_dataContraMetric2DB p iA iB 0))
                  k iA iB 1 (m_dataContraMetric2DB p iA iB 1))
                  k iA iB 2 (- dDbZ / dDxZ)\<rparr>;
          p = p\<lparr>m_dataContraMetricXi :=
                set4 (set4 (set4 (m_dataContraMetricXi p)
                  k iA iB 0 (m_dataContraMetricA p k iA iB 2))
                  k iA iB 1 (m_dataContraMetricB p k iA iB 2))
                  k iA iB 2 ((1 + dDaZ * dDaZ + dDbZ * dDbZ) / (dDxZ * dDxZ))\<rparr>;
          p = p\<lparr>m_dataCovMetricA :=
                set4 (set4 (set4 (m_dataCovMetricA p)
                  k iA iB 0 (m_dataCovMetric2DA p iA iB 0 + dDaZ * dDaZ))
                  k iA iB 1 (m_dataCovMetric2DA p iA iB 1 + dDaZ * dDbZ))
                  k iA iB 2 (dDaZ * dDxZ)\<rparr>;
          p = p\<lparr>m_dataCovMetricB :=
                set4 (set4 (set4 (m_dataCovMetricB p)
                  k iA iB 0 (m_dataCovMetric2DB p iA iB 0 + dDbZ * dDaZ))
                  k iA iB 1 (m_dataCovMetric2DB p iA iB 1 + dDbZ * dDbZ))
                  k iA iB 2 (dDbZ * dDxZ)\<rparr>;
          p = p\<lparr>m_dataCovMetricXi :=
                set4 (set4 (set4 (m_dataCovMetricXi p)
                  k iA iB 0 (dDaZ * dDxZ))
                  k iA iB 1 (dDbZ * dDxZ))
                  k iA iB 2 (dDxZ * dDxZ)\<rparr>;
          p = p\<lparr>m_dataDerivRNode :=
                set4 (set4 (set4 (m_dataDerivRNode p)
                  k iA iB 0 dDaZ)
                  k iA iB 1 dDbZ)
                  k iA iB 2 dDxZ\<rparr>
      in p)"

text \<open>
  The body of the loop over the interfaces.  No covariant metric is stored on
  interfaces.
\<close>

definition EvaluateGeometricTerms_Interface ::
  "Grid \<Rightarrow> (nat \<Rightarrow> real) \<Rightarrow> nat \<Rightarrow> nat \<Rightarrow> nat \<Rightarrow> nat \<Rightarrow> real \<Rightarrow> real \<Rightarrow> real \<Rightarrow> nat \<Rightarrow>
     GridPatchCartesianGLL \<Rightarrow> GridPatchCartesianGLL" where
  "EvaluateGeometricTerms_Interface g dWL i j iA iB dZs dDaZs dDbZs k p =
     (let dWREdge = GetREtaInterfacesNormArea g;
          dREta = GetREtaInterface g k;
          (dDaZ, dDbZ, dDxZ) = TerrainFollowingCoordREdge g dZs dDaZs dDbZs dREta;
          p = p\<lparr>m_dataJacobianREdge :=
                set3 (m_dataJacobianREdge p) k iA iB (dDxZ * m_dataJacobian2D p iA iB)\<rparr>;
          p = p\<lparr>m_dataElementAreaREdge :=
                set3 (m_dataElementAreaREdge p) k iA iB
                  (m_dataJacobianREdge p k iA iB
                   * dWL i * GetElementDeltaA p
                   * dWL j * GetElementDeltaB p
                   * dWREdge ! k)\<rparr>;
          p = p\<lparr>m_dataContraMetricAREdge :=
                set4 (set4 (set4 (m_dataContraMetricAREdge p)
                  k iA iB 0 (m_dataContraMetric2DA p iA iB 0))
                  k iA iB 1 (m_dataContraMetric2DA p iA iB 1))
                  k iA iB 2 (- dDaZ / dDxZ)\<rparr>;
          p = p\<lparr>m_dataContraMetricBREdge :=
                set4 (set4 (set4 (m_dataContraMetricBREdge p)
                  k iA iB 0 (m_dataContraMetric2DB p iA iB 0))
                  k iA iB 1 (m_dataContraMetric2DB p iA iB 1))
                  k iA iB 2 (- dDbZ / dDxZ)\<rparr>;
          p = p\<lparr>m_dataContraMetricXiREdge :=
                set4 (set4 (set4 (m_dataContraMetricXiREdge p)
                  k iA iB 0 (- dDaZ / dDxZ))
                  k iA iB 1 (- dDbZ / dDxZ))
                  k iA iB 2 ((1 + dDaZ * dDaZ + dDbZ * dDbZ) / (dDxZ * dDxZ))\<rparr>;
          p = p\<lparr>m_dataDerivRREdge :=
                set4 (set4 (set4 (m_dataDerivRREdge p)
                  k iA iB 0 dDaZ)
                  k iA iB 1 dDbZ)
                  k iA iB 2 dDxZ\<rparr>
      in p)"

text \<open>The two-dimensional Jacobian and metrics of the Cartesian patch at a node.\<close>

definition EvaluateGeometricTerms_Metric2D ::
  "nat \<Rightarrow> nat \<Rightarrow> GridPatchCartesianGLL \<Rightarrow> GridPatchCartesianGLL" where
  "EvaluateGeometricTerms_Metric2D iA iB p =
     (let p = p\<lparr>m_dataJacobian2D := set2 (m_dataJacobian2D p) iA iB 1\<rparr>;
          p = p\<lparr>m_dataContraMetric2DA :=
                set3 (set3 (m_dataContraMetric2DA p) iA iB 0 1) iA iB 1 0\<rparr>;
          p = p\<lparr>m_dataContraMetric2DB :=
                set3 (set3 (m_dataContraMetric2DB p) iA iB 0 0) iA iB 1 1\<rparr>;
          p = p\<lparr>m_dataCovMetric2DA :=
                set3 (set3 (m_dataCovMetric2DA p) iA iB 0 1) iA iB 1 0\<rparr>;
          p = p\<lparr>m_dataCovMetric2DB :=
                set3 (set3 (m_dataCovMetric2DB p) iA iB 0 0) iA iB 1 1\<rparr>
      in p)"

text \<open>
  The body of the loops over the elements \<open>(a, b)\<close> and the nodes \<open>(i, j)\<close> of an
  element.
\<close>

definition EvaluateGeometricTerms_Node ::
  "Grid \<Rightarrow> (nat \<Rightarrow> real) \<Rightarrow> nat \<Rightarrow> nat \<Rightarrow> nat \<Rightarrow> nat \<Rightarrow>
     GridPatchCartesianGLL \<Rightarrow> GridPatchCartesianGLL" where
  "EvaluateGeometricTerms_Node g dWL a b i j p =
     (let iElementA = GetAInteriorBegin (m_box p) + a * m_nHorizontalOrder p;
          iElementB = GetBInteriorBegin (m_box p) + b * m_nHorizontalOrder p;
          iA = iElementA + i;
          iB = iElementB + j;
          dZs = m_dataTopography p iA iB;
          dDaZs = m_dataTopographyDeriv p 0 iA iB;
          dDbZs = m_dataTopographyDeriv p 1 iA iB;
          p = EvaluateGeometricTerms_Metric2D iA iB p;
          p = fold (EvaluateGeometricTerms_Level g dWL i j iA iB dZs dDaZs dDbZs)
                [0 ..< GetRElements g] p;
          p = fold (EvaluateGeometricTerms_Interface g dWL i j iA iB dZs dDaZs dDbZs)
                [0 ..< GetRElements g + 1] p
      in p)"

text \<open>
  The function: the verification of the normalized areas, then the loops over the
  elements of the interior of the patch.  (The Coriolis loop before them has an empty
  body in the source.)
\<close>

definition EvaluateGeometricTerms ::
  "Grid \<Rightarrow> (nat \<Rightarrow> real) \<Rightarrow> GridPatchCartesianGLL \<Rightarrow> exception + GridPatchCartesianGLL" where
  "EvaluateGeometricTerms g dWL p =
     (case VerifyNormalizedAreas (GetVerticalStaggering g)
             (GetREtaLevelsNormArea g) (GetREtaInterfacesNormArea g) of
        Inl e \<Rightarrow> Inl e
      | Inr _ \<Rightarrow>
          Inr (fold (\<lambda>a. fold (\<lambda>b. fold (\<lambda>i. fold (\<lambda>j.
                  EvaluateGeometricTerms_Node g dWL a b i j)
                [0 ..< m_nHorizontalOrder p]) [0 ..< m_nHorizontalOrder p])
                [0 ..< GetElementCountB p]) [0 ..< GetElementCountA p] p))"

subsection \<open>The stored metrics as matrices\<close>

text \<open>
  Row \<open>r\<close> of the stored three-dimensional metric is the array \<open>A\<close>, \<open>B\<close> or \<open>Xi\<close>;
  \<open>CovMetricOfDeriv\<close> is the covariant metric of the terrain-following transform with
  the derivatives \<open>d = (\<partial>\<^sub>a z, \<partial>\<^sub>b z, \<partial>\<^sub>\<xi> z)\<close>, the identity of the horizontal plane plus
  \<open>d d\<^sup>T\<close>.
\<close>

definition ContraMetric :: "GridPatchCartesianGLL \<Rightarrow> nat \<Rightarrow> nat \<Rightarrow> nat \<Rightarrow> nat \<Rightarrow> nat \<Rightarrow> real" where
  "ContraMetric p k iA iB r c =
     (if r = 0 then m_dataContraMetricA p k iA iB c
      else if r = 1 then m_dataContraMetricB p k iA iB c
      else m_dataContraMetricXi p k iA iB c)"

definition CovMetric :: "GridPatchCartesianGLL \<Rightarrow> nat \<Rightarrow> nat \<Rightarrow> nat \<Rightarrow> nat \<Rightarrow> nat \<Rightarrow> real" where
  "CovMetric p k iA iB r c =
     (if r = 0 then m_dataCovMetricA p k iA iB c
      else if r = 1 then m_dataCovMetricB p k iA iB c
      else m_dataCovMetricXi p k iA iB c)"

definition CovMetricOfDeriv :: "(nat \<Rightarrow> real) \<Rightarrow> nat \<Rightarrow> nat \<Rightarrow> real" where
  "CovMetricOfDeriv d r c = (if r = c \<and> r < 2 then 1 else 0) + d r * d c"

text \<open>
  What holds on a level: the stored contravariant metric times the stored covariant
  metric is the identity, the covariant metric is that of the stored derivatives, the
  Jacobian is \<open>\<partial>\<^sub>\<xi> z\<close> times the two-dimensional Jacobian, and both are positive.
\<close>

definition geometry_ok_node :: "GridPatchCartesianGLL \<Rightarrow> nat \<Rightarrow> nat \<Rightarrow> nat \<Rightarrow> bool" where
  "geometry_ok_node p k iA iB \<longleftrightarrow>
     (\<forall>r<3. \<forall>c<3. (\<Sum>m<3. ContraMetric p k iA iB r m * CovMetric p k iA iB m c)
          = (if r = c then 1 else 0)) \<and>
     (\<forall>r<3. \<forall>c<3. CovMetric p k iA iB r c
          = CovMetricOfDeriv (m_dataDerivRNode p k iA iB) r c) \<and>
     m_dataJacobian p k iA iB = m_dataDerivRNode p k iA iB 2 * m_dataJacobian2D p iA iB \<and>
     0 < m_dataJacobian p k iA iB \<and>
     0 < m_dataDerivRNode p k iA iB 2"

definition ident2D :: "GridPatchCartesianGLL \<Rightarrow> nat \<Rightarrow> nat \<Rightarrow> bool" where
  "ident2D p iA iB \<longleftrightarrow>
     m_dataJacobian2D p iA iB = 1 \<and>
     m_dataContraMetric2DA p iA iB 0 = 1 \<and> m_dataContraMetric2DA p iA iB 1 = 0 \<and>
     m_dataContraMetric2DB p iA iB 0 = 0 \<and> m_dataContraMetric2DB p iA iB 1 = 1 \<and>
     m_dataCovMetric2DA p iA iB 0 = 1 \<and> m_dataCovMetric2DA p iA iB 1 = 0 \<and>
     m_dataCovMetric2DB p iA iB 0 = 0 \<and> m_dataCovMetric2DB p iA iB 1 = 1"

definition ContraMetricREdge ::
  "GridPatchCartesianGLL \<Rightarrow> nat \<Rightarrow> nat \<Rightarrow> nat \<Rightarrow> nat \<Rightarrow> nat \<Rightarrow> real" where
  "ContraMetricREdge p k iA iB r c =
     (if r = 0 then m_dataContraMetricAREdge p k iA iB c
      else if r = 1 then m_dataContraMetricBREdge p k iA iB c
      else m_dataContraMetricXiREdge p k iA iB c)"

text \<open>
  What holds on an interface: the stored contravariant metric is the inverse of the
  covariant metric of the stored derivatives, the Jacobian is \<open>\<partial>\<^sub>\<xi> z\<close> times the
  two-dimensional Jacobian, and both are positive.
\<close>

definition geometry_ok_edge :: "GridPatchCartesianGLL \<Rightarrow> nat \<Rightarrow> nat \<Rightarrow> nat \<Rightarrow> bool" where
  "geometry_ok_edge p k iA iB \<longleftrightarrow>
     (\<forall>r<3. \<forall>c<3. (\<Sum>m<3. ContraMetricREdge p k iA iB r m
                         * CovMetricOfDeriv (m_dataDerivRREdge p k iA iB) m c)
          = (if r = c then 1 else 0)) \<and>
     m_dataJacobianREdge p k iA iB = m_dataDerivRREdge p k iA iB 2 * m_dataJacobian2D p iA iB \<and>
     0 < m_dataJacobianREdge p k iA iB \<and>
     0 < m_dataDerivRREdge p k iA iB 2"

text \<open>The members that the loops read and never write.\<close>

definition same_inputs :: "GridPatchCartesianGLL \<Rightarrow> GridPatchCartesianGLL \<Rightarrow> bool" where
  "same_inputs p0 s \<longleftrightarrow>
     m_box s = m_box p0 \<and> m_nHorizontalOrder s = m_nHorizontalOrder p0 \<and>
     m_dataTopography s = m_dataTopography p0"

definition geometry_ok_column :: "Grid \<Rightarrow> GridPatchCartesianGLL \<Rightarrow> nat \<Rightarrow> nat \<Rightarrow> bool" where
  "geometry_ok_column g p iA iB \<longleftrightarrow>
     (\<forall>k<GetRElements g. geometry_ok_node p k iA iB) \<and>
     (\<forall>k\<le>GetRElements g. geometry_ok_edge p k iA iB)"

subsection \<open>The metrics at the node that an iteration visits, and at the others\<close>

lemma all_less_3: "(\<forall>r<3. P r) \<longleftrightarrow> P (0::nat) \<and> P 1 \<and> P 2"
  by (auto simp: numeral_3_eq_3 numeral_2_eq_2 less_Suc_eq)

lemma sum_less_3: "(\<Sum>m<3. f m) = f (0::nat) + f 1 + (f 2 :: real)"
  by (simp add: numeral_3_eq_3 lessThan_Suc numeral_2_eq_2)

lemma TerrainFollowingCoord_dDxZ:
  "TerrainFollowingCoord g dZs dDaZs dDbZs dREta = (dZ, a, b, x) \<Longrightarrow>
     x = (Grid_GetZtop g - dZs) * snd (EvaluateVerticalStretchF g dREta)"
  by (auto simp: TerrainFollowingCoord_def Let_def split_beta)

lemma Level_establish:
  assumes "dZs < Grid_GetZtop g" "0 < snd (EvaluateVerticalStretchF g (GetREtaLevel g k))"
    "ident2D p iA iB"
  shows "geometry_ok_node (EvaluateGeometricTerms_Level g dWL i j iA iB dZs dDaZs dDbZs k p) k iA iB"
proof -
  obtain dZ a b x where t: "TerrainFollowingCoord g dZs dDaZs dDbZs (GetREtaLevel g k) = (dZ, a, b, x)"
    by (cases "TerrainFollowingCoord g dZs dDaZs dDbZs (GetREtaLevel g k)") auto
  have x: "0 < x"
    using assms(1,2) by (simp add: TerrainFollowingCoord_dDxZ [OF t])
  show ?thesis
    using assms(3) x
    by (simp add: geometry_ok_node_def EvaluateGeometricTerms_Level_def t
       Let_def ident2D_def all_less_3 sum_less_3 ContraMetric_def CovMetric_def
       CovMetricOfDeriv_def field_simps)
qed

lemma TerrainFollowingCoordREdge_dDxZ:
  "TerrainFollowingCoordREdge g dZs dDaZs dDbZs dREta = (a, b, x) \<Longrightarrow>
     x = (Grid_GetZtop g - dZs) * snd (EvaluateVerticalStretchF g dREta)"
  by (auto simp: TerrainFollowingCoordREdge_def Let_def split_beta)

lemma Interface_establish:
  assumes "dZs < Grid_GetZtop g" "0 < snd (EvaluateVerticalStretchF g (GetREtaInterface g k))"
    "ident2D p iA iB"
  shows "geometry_ok_edge (EvaluateGeometricTerms_Interface g dWL i j iA iB dZs dDaZs dDbZs k p) k iA iB"
proof -
  obtain a b x where
    t: "TerrainFollowingCoordREdge g dZs dDaZs dDbZs (GetREtaInterface g k) = (a, b, x)"
    by (cases "TerrainFollowingCoordREdge g dZs dDaZs dDbZs (GetREtaInterface g k)") auto
  have x: "0 < x"
    using assms(1,2) by (simp add: TerrainFollowingCoordREdge_dDxZ [OF t])
  show ?thesis
    using assms(3) x
    by (simp add: geometry_ok_edge_def EvaluateGeometricTerms_Interface_def t
       Let_def ident2D_def all_less_3 sum_less_3 ContraMetricREdge_def CovMetricOfDeriv_def
       field_simps)
qed

lemma Level_other_node:
  assumes "\<not> (k' = k \<and> x = iA \<and> y = iB)"
  shows "ContraMetric (EvaluateGeometricTerms_Level g dWL i j iA iB dZs dDaZs dDbZs k p) k' x y r c
           = ContraMetric p k' x y r c"
    and "CovMetric (EvaluateGeometricTerms_Level g dWL i j iA iB dZs dDaZs dDbZs k p) k' x y r c
           = CovMetric p k' x y r c"
    and "m_dataDerivRNode (EvaluateGeometricTerms_Level g dWL i j iA iB dZs dDaZs dDbZs k p) k' x y
           = m_dataDerivRNode p k' x y"
    and "m_dataJacobian (EvaluateGeometricTerms_Level g dWL i j iA iB dZs dDaZs dDbZs k p) k' x y
           = m_dataJacobian p k' x y"
  using assms
  by (cases "k' = k"; cases "x = iA"; cases "y = iB";
      simp add: EvaluateGeometricTerms_Level_def split_beta Let_def ContraMetric_def
        CovMetric_def fun_eq_iff)+

lemma Level_unchanged:
  "m_dataJacobian2D (EvaluateGeometricTerms_Level g dWL i j iA iB dZs dDaZs dDbZs k p)
     = m_dataJacobian2D p"
  "ContraMetricREdge (EvaluateGeometricTerms_Level g dWL i j iA iB dZs dDaZs dDbZs k p) k' x y r c
     = ContraMetricREdge p k' x y r c"
  "m_dataDerivRREdge (EvaluateGeometricTerms_Level g dWL i j iA iB dZs dDaZs dDbZs k p)
     = m_dataDerivRREdge p"
  "m_dataJacobianREdge (EvaluateGeometricTerms_Level g dWL i j iA iB dZs dDaZs dDbZs k p)
     = m_dataJacobianREdge p"
  by (simp_all add: EvaluateGeometricTerms_Level_def split_beta Let_def ContraMetricREdge_def)

lemma Level_preserve_node:
  assumes "\<not> (k' = k \<and> x = iA \<and> y = iB)"
  shows "geometry_ok_node (EvaluateGeometricTerms_Level g dWL i j iA iB dZs dDaZs dDbZs k p) k' x y
     = geometry_ok_node p k' x y"
  by (simp add: geometry_ok_node_def Level_other_node [OF assms] Level_unchanged)

lemma Level_preserve_edge:
  "geometry_ok_edge (EvaluateGeometricTerms_Level g dWL i j iA iB dZs dDaZs dDbZs k p) k' x y
     = geometry_ok_edge p k' x y"
  by (simp add: geometry_ok_edge_def Level_unchanged)

lemma Level_ident2D:
  "ident2D (EvaluateGeometricTerms_Level g dWL i j iA iB dZs dDaZs dDbZs k p) x y = ident2D p x y"
  by (simp add: ident2D_def EvaluateGeometricTerms_Level_def split_beta Let_def)

lemma Interface_other_edge:
  assumes "\<not> (k' = k \<and> x = iA \<and> y = iB)"
  shows "ContraMetricREdge (EvaluateGeometricTerms_Interface g dWL i j iA iB dZs dDaZs dDbZs k p) k' x y r c
           = ContraMetricREdge p k' x y r c"
    and "m_dataDerivRREdge (EvaluateGeometricTerms_Interface g dWL i j iA iB dZs dDaZs dDbZs k p) k' x y
           = m_dataDerivRREdge p k' x y"
    and "m_dataJacobianREdge (EvaluateGeometricTerms_Interface g dWL i j iA iB dZs dDaZs dDbZs k p) k' x y
           = m_dataJacobianREdge p k' x y"
  using assms
  by (cases "k' = k"; cases "x = iA"; cases "y = iB";
      simp add: EvaluateGeometricTerms_Interface_def split_beta Let_def ContraMetricREdge_def
        fun_eq_iff)+

lemma Interface_unchanged:
  "m_dataJacobian2D (EvaluateGeometricTerms_Interface g dWL i j iA iB dZs dDaZs dDbZs k p)
     = m_dataJacobian2D p"
  "ContraMetric (EvaluateGeometricTerms_Interface g dWL i j iA iB dZs dDaZs dDbZs k p) k' x y r c
     = ContraMetric p k' x y r c"
  "CovMetric (EvaluateGeometricTerms_Interface g dWL i j iA iB dZs dDaZs dDbZs k p) k' x y r c
     = CovMetric p k' x y r c"
  "m_dataDerivRNode (EvaluateGeometricTerms_Interface g dWL i j iA iB dZs dDaZs dDbZs k p)
     = m_dataDerivRNode p"
  "m_dataJacobian (EvaluateGeometricTerms_Interface g dWL i j iA iB dZs dDaZs dDbZs k p)
     = m_dataJacobian p"
  by (simp_all add: EvaluateGeometricTerms_Interface_def split_beta Let_def
        ContraMetric_def CovMetric_def)

lemma Interface_preserve_edge:
  assumes "\<not> (k' = k \<and> x = iA \<and> y = iB)"
  shows "geometry_ok_edge (EvaluateGeometricTerms_Interface g dWL i j iA iB dZs dDaZs dDbZs k p) k' x y
     = geometry_ok_edge p k' x y"
  by (simp add: geometry_ok_edge_def Interface_other_edge [OF assms] Interface_unchanged)

lemma Interface_preserve_node:
  "geometry_ok_node (EvaluateGeometricTerms_Interface g dWL i j iA iB dZs dDaZs dDbZs k p) k' x y
     = geometry_ok_node p k' x y"
  by (simp add: geometry_ok_node_def Interface_unchanged)

lemma Interface_ident2D:
  "ident2D (EvaluateGeometricTerms_Interface g dWL i j iA iB dZs dDaZs dDbZs k p) x y = ident2D p x y"
  by (simp add: ident2D_def EvaluateGeometricTerms_Interface_def split_beta Let_def)

lemma Level_same_inputs:
  "same_inputs p0 (EvaluateGeometricTerms_Level g dWL i j iA iB dZs dDaZs dDbZs k p)
     = same_inputs p0 p"
  by (simp add: same_inputs_def EvaluateGeometricTerms_Level_def split_beta Let_def)

lemma Interface_same_inputs:
  "same_inputs p0 (EvaluateGeometricTerms_Interface g dWL i j iA iB dZs dDaZs dDbZs k p)
     = same_inputs p0 p"
  by (simp add: same_inputs_def EvaluateGeometricTerms_Interface_def split_beta Let_def)

lemma Levels_fold_establish:
  assumes "dZs < Grid_GetZtop g"
    and "\<forall>k<GetRElements g. 0 < snd (EvaluateVerticalStretchF g (GetREtaLevel g k))"
    and "ident2D p iA iB" and "k < GetRElements g"
  shows "geometry_ok_node
           (fold (EvaluateGeometricTerms_Level g dWL i j iA iB dZs dDaZs dDbZs)
              [0 ..< GetRElements g] p) k iA iB"
proof -
  let ?f = "EvaluateGeometricTerms_Level g dWL i j iA iB dZs dDaZs dDbZs"
  have est: "geometry_ok_node (?f k' s) k' iA iB"
    if "ident2D s iA iB" "k' < GetRElements g" for s k'
    using that assms(1,2) by (intro Level_establish) auto
  show ?thesis
  proof (rule fold_establish [where I = "\<lambda>s. ident2D s iA iB" and x = k and f = ?f])
    show "k \<in> set [0 ..< GetRElements g]" using assms(4) by simp
    show "ident2D p iA iB" by fact
    show "ident2D (?f y s) iA iB" if "ident2D s iA iB" for y s
      using that by (simp add: Level_ident2D)
    show "geometry_ok_node (?f k s) k iA iB" if "ident2D s iA iB" for s
      using that assms(4) est by simp
    show "geometry_ok_node (?f y s) k iA iB"
      if "y \<in> set [0 ..< GetRElements g]" "ident2D s iA iB" "geometry_ok_node s k iA iB" for y s
    proof (cases "y = k")
      case True
      then show ?thesis using est that assms(4) by simp
    next
      case False
      then show ?thesis using that by (simp add: Level_preserve_node)
    qed
  qed
qed

lemma Interfaces_fold_establish:
  assumes "dZs < Grid_GetZtop g"
    and "\<forall>k\<le>GetRElements g. 0 < snd (EvaluateVerticalStretchF g (GetREtaInterface g k))"
    and "ident2D p iA iB" and "k \<le> GetRElements g"
  shows "geometry_ok_edge
           (fold (EvaluateGeometricTerms_Interface g dWL i j iA iB dZs dDaZs dDbZs)
              [0 ..< GetRElements g + 1] p) k iA iB"
proof -
  let ?f = "EvaluateGeometricTerms_Interface g dWL i j iA iB dZs dDaZs dDbZs"
  have est: "geometry_ok_edge (?f k' s) k' iA iB"
    if "ident2D s iA iB" "k' \<le> GetRElements g" for s k'
    using that assms(1,2) by (intro Interface_establish) auto
  show ?thesis
  proof (rule fold_establish [where I = "\<lambda>s. ident2D s iA iB" and x = k and f = ?f])
    show "k \<in> set [0 ..< GetRElements g + 1]" using assms(4) by auto
    show "ident2D p iA iB" by fact
    show "ident2D (?f y s) iA iB" if "ident2D s iA iB" for y s
      using that by (simp add: Interface_ident2D)
    show "geometry_ok_edge (?f k s) k iA iB" if "ident2D s iA iB" for s
      using that assms(4) est by simp
    show "geometry_ok_edge (?f y s) k iA iB"
      if "y \<in> set [0 ..< GetRElements g + 1]" "ident2D s iA iB" "geometry_ok_edge s k iA iB" for y s
    proof (cases "y = k")
      case True
      then show ?thesis using est that assms(4) by simp
    next
      case False
      then show ?thesis using that by (simp add: Interface_preserve_edge)
    qed
  qed
qed

lemma Levels_fold_ident2D:
  "ident2D (fold (EvaluateGeometricTerms_Level g dWL i j iA iB dZs dDaZs dDbZs) ks p) x y
     = ident2D p x y"
  by (induction ks arbitrary: p) (simp_all add: Level_ident2D)

lemma Levels_fold_same_inputs:
  "same_inputs p0 (fold (EvaluateGeometricTerms_Level g dWL i j iA iB dZs dDaZs dDbZs) ks p)
     = same_inputs p0 p"
  by (induction ks arbitrary: p) (simp_all add: Level_same_inputs)

lemma Interfaces_fold_same_inputs:
  "same_inputs p0 (fold (EvaluateGeometricTerms_Interface g dWL i j iA iB dZs dDaZs dDbZs) ks p)
     = same_inputs p0 p"
  by (induction ks arbitrary: p) (simp_all add: Interface_same_inputs)

lemma Levels_fold_preserve_node:
  "geometry_ok_node p k' x y \<Longrightarrow> \<not> (x = iA \<and> y = iB) \<Longrightarrow>
   geometry_ok_node (fold (EvaluateGeometricTerms_Level g dWL i j iA iB dZs dDaZs dDbZs) ks p) k' x y"
  by (induction ks arbitrary: p) (simp_all add: Level_preserve_node)

lemma Levels_fold_preserve_edge:
  "geometry_ok_edge p k' x y \<Longrightarrow>
   geometry_ok_edge (fold (EvaluateGeometricTerms_Level g dWL i j iA iB dZs dDaZs dDbZs) ks p) k' x y"
  by (induction ks arbitrary: p) (simp_all add: Level_preserve_edge)

lemma Interfaces_fold_preserve_node:
  "geometry_ok_node p k' x y \<Longrightarrow>
   geometry_ok_node (fold (EvaluateGeometricTerms_Interface g dWL i j iA iB dZs dDaZs dDbZs) ks p) k' x y"
  by (induction ks arbitrary: p) (simp_all add: Interface_preserve_node)

lemma Interfaces_fold_preserve_edge:
  "geometry_ok_edge p k' x y \<Longrightarrow> \<not> (x = iA \<and> y = iB) \<Longrightarrow>
   geometry_ok_edge (fold (EvaluateGeometricTerms_Interface g dWL i j iA iB dZs dDaZs dDbZs) ks p) k' x y"
  by (induction ks arbitrary: p) (simp_all add: Interface_preserve_edge)

lemma Metric2D_same_inputs:
  "same_inputs p0 (EvaluateGeometricTerms_Metric2D iA iB p) = same_inputs p0 p"
  by (simp add: EvaluateGeometricTerms_Metric2D_def Let_def same_inputs_def)

lemma Metric2D_ident2D: "ident2D (EvaluateGeometricTerms_Metric2D iA iB p) iA iB"
  by (simp add: EvaluateGeometricTerms_Metric2D_def Let_def ident2D_def)

lemma Metric2D_unchanged:
  "ContraMetric (EvaluateGeometricTerms_Metric2D iA iB p) = ContraMetric p"
  "CovMetric (EvaluateGeometricTerms_Metric2D iA iB p) = CovMetric p"
  "ContraMetricREdge (EvaluateGeometricTerms_Metric2D iA iB p) = ContraMetricREdge p"
  "m_dataDerivRNode (EvaluateGeometricTerms_Metric2D iA iB p) = m_dataDerivRNode p"
  "m_dataJacobian (EvaluateGeometricTerms_Metric2D iA iB p) = m_dataJacobian p"
  "m_dataDerivRREdge (EvaluateGeometricTerms_Metric2D iA iB p) = m_dataDerivRREdge p"
  "m_dataJacobianREdge (EvaluateGeometricTerms_Metric2D iA iB p) = m_dataJacobianREdge p"
  by (simp_all add: EvaluateGeometricTerms_Metric2D_def Let_def fun_eq_iff
        ContraMetric_def CovMetric_def ContraMetricREdge_def)

lemma Metric2D_Jacobian2D_other:
  "\<not> (x = iA \<and> y = iB) \<Longrightarrow>
     m_dataJacobian2D (EvaluateGeometricTerms_Metric2D iA iB p) x y = m_dataJacobian2D p x y"
  by (cases "x = iA"; cases "y = iB"; simp add: EvaluateGeometricTerms_Metric2D_def Let_def)

lemma Metric2D_node_eq:
  "\<not> (x = iA \<and> y = iB) \<Longrightarrow>
   geometry_ok_node (EvaluateGeometricTerms_Metric2D iA iB p) k x y = geometry_ok_node p k x y"
  by (simp add: geometry_ok_node_def Metric2D_unchanged Metric2D_Jacobian2D_other)

lemma Metric2D_edge_eq:
  "\<not> (x = iA \<and> y = iB) \<Longrightarrow>
   geometry_ok_edge (EvaluateGeometricTerms_Metric2D iA iB p) k x y = geometry_ok_edge p k x y"
  by (simp add: geometry_ok_edge_def Metric2D_unchanged Metric2D_Jacobian2D_other)

lemma Metric2D_preserve_node:
  "geometry_ok_node p k x y \<Longrightarrow> \<not> (x = iA \<and> y = iB) \<Longrightarrow>
   geometry_ok_node (EvaluateGeometricTerms_Metric2D iA iB p) k x y"
  using Metric2D_node_eq by blast

lemma Metric2D_preserve_edge:
  "geometry_ok_edge p k x y \<Longrightarrow> \<not> (x = iA \<and> y = iB) \<Longrightarrow>
   geometry_ok_edge (EvaluateGeometricTerms_Metric2D iA iB p) k x y"
  using Metric2D_edge_eq by blast

lemma Node_same_inputs:
  "same_inputs p0 (EvaluateGeometricTerms_Node g dWL a b i j p) = same_inputs p0 p"
  by (simp add: EvaluateGeometricTerms_Node_def Let_def Levels_fold_same_inputs
      Interfaces_fold_same_inputs Metric2D_same_inputs del: upt_Suc)

lemma Node_establish:
  assumes "iA = GetAInteriorBegin (m_box p) + a * m_nHorizontalOrder p + i"
    and "iB = GetBInteriorBegin (m_box p) + b * m_nHorizontalOrder p + j"
    and "m_dataTopography p iA iB < Grid_GetZtop g"
    and "\<forall>k<GetRElements g. 0 < snd (EvaluateVerticalStretchF g (GetREtaLevel g k))"
    and "\<forall>k\<le>GetRElements g. 0 < snd (EvaluateVerticalStretchF g (GetREtaInterface g k))"
  shows "geometry_ok_column g (EvaluateGeometricTerms_Node g dWL a b i j p) iA iB"
  unfolding geometry_ok_column_def EvaluateGeometricTerms_Node_def Let_def
    assms(1,2) [symmetric]
proof (intro conjI allI impI)
  let ?p5 = "EvaluateGeometricTerms_Metric2D iA iB p"
  let ?L = "EvaluateGeometricTerms_Level g dWL i j iA iB (m_dataTopography p iA iB)
              (m_dataTopographyDeriv p 0 iA iB) (m_dataTopographyDeriv p 1 iA iB)"
  let ?E = "EvaluateGeometricTerms_Interface g dWL i j iA iB (m_dataTopography p iA iB)
            (m_dataTopographyDeriv p 0 iA iB) (m_dataTopographyDeriv p 1 iA iB)"
  have id: "ident2D ?p5 iA iB" by (rule Metric2D_ident2D)
  fix k
  {
    assume "k < GetRElements g"
    from Levels_fold_establish [OF assms(3,4) id this]
    show "geometry_ok_node
        (fold ?E [0..<GetRElements g + 1] (fold ?L [0..<GetRElements g] ?p5)) k iA iB"
      by (rule Interfaces_fold_preserve_node)
  }
  {
    assume "k \<le> GetRElements g"
    show "geometry_ok_edge
        (fold ?E [0..<GetRElements g + 1] (fold ?L [0..<GetRElements g] ?p5)) k iA iB"
      by (rule Interfaces_fold_establish [OF assms(3,5) _ \<open>k \<le> GetRElements g\<close>])
         (simp add: Levels_fold_ident2D id)
  }
qed

lemma Node_preserve:
  assumes "iA = GetAInteriorBegin (m_box p) + a * m_nHorizontalOrder p + i"
    and "iB = GetBInteriorBegin (m_box p) + b * m_nHorizontalOrder p + j"
    and "\<not> (x = iA \<and> y = iB)"
    and "geometry_ok_column g p x y"
  shows "geometry_ok_column g (EvaluateGeometricTerms_Node g dWL a b i j p) x y"
  unfolding geometry_ok_column_def EvaluateGeometricTerms_Node_def Let_def
    assms(1,2) [symmetric]
proof (intro conjI allI impI)
  fix k
  {
    assume "k < GetRElements g"
    then have "geometry_ok_node p k x y"
      using assms(4) by (simp add: geometry_ok_column_def)
    then show "geometry_ok_node
        (fold (EvaluateGeometricTerms_Interface g dWL i j iA iB (m_dataTopography p iA iB)
            (m_dataTopographyDeriv p 0 iA iB) (m_dataTopographyDeriv p 1 iA iB))
          [0..<GetRElements g + 1]
          (fold (EvaluateGeometricTerms_Level g dWL i j iA iB (m_dataTopography p iA iB)
              (m_dataTopographyDeriv p 0 iA iB) (m_dataTopographyDeriv p 1 iA iB))
            [0..<GetRElements g] (EvaluateGeometricTerms_Metric2D iA iB p))) k x y"
      by (intro Interfaces_fold_preserve_node Levels_fold_preserve_node
            Metric2D_preserve_node assms(3))
  }
  {
    assume "k \<le> GetRElements g"
    then have "geometry_ok_edge p k x y"
      using assms(4) by (simp add: geometry_ok_column_def)
    then show "geometry_ok_edge
        (fold (EvaluateGeometricTerms_Interface g dWL i j iA iB (m_dataTopography p iA iB)
            (m_dataTopographyDeriv p 0 iA iB) (m_dataTopographyDeriv p 1 iA iB))
          [0..<GetRElements g + 1]
          (fold (EvaluateGeometricTerms_Level g dWL i j iA iB (m_dataTopography p iA iB)
              (m_dataTopographyDeriv p 0 iA iB) (m_dataTopographyDeriv p 1 iA iB))
            [0..<GetRElements g] (EvaluateGeometricTerms_Metric2D iA iB p))) k x y"
      by (intro Interfaces_fold_preserve_edge Levels_fold_preserve_edge
            Metric2D_preserve_edge assms(3))
  }
qed

text \<open>One visit of a node keeps what holds at the target column, or sets it up again.\<close>

lemma Node_step:
  assumes si: "same_inputs p0 s"
    and topo: "m_dataTopography p0 x y < Grid_GetZtop g"
    and lev: "\<forall>k<GetRElements g. 0 < snd (EvaluateVerticalStretchF g (GetREtaLevel g k))"
    and int: "\<forall>k\<le>GetRElements g. 0 < snd (EvaluateVerticalStretchF g (GetREtaInterface g k))"
    and ok: "geometry_ok_column g s x y"
  shows "geometry_ok_column g (EvaluateGeometricTerms_Node g dWL a b i j s) x y"
proof (cases "x = GetAInteriorBegin (m_box s) + a * m_nHorizontalOrder s + i \<and>
              y = GetBInteriorBegin (m_box s) + b * m_nHorizontalOrder s + j")
  case True
  then show ?thesis
    using si topo lev int
    by (intro Node_establish) (auto simp: same_inputs_def)
next
  case False
  then show ?thesis
    using ok by (intro Node_preserve [OF refl refl]) auto
qed

lemma Node_target:
  assumes si: "same_inputs p0 s"
    and "x = GetAInteriorBegin (m_box p0) + a * m_nHorizontalOrder p0 + i"
    and "y = GetBInteriorBegin (m_box p0) + b * m_nHorizontalOrder p0 + j"
    and topo: "m_dataTopography p0 x y < Grid_GetZtop g"
    and lev: "\<forall>k<GetRElements g. 0 < snd (EvaluateVerticalStretchF g (GetREtaLevel g k))"
    and int: "\<forall>k\<le>GetRElements g. 0 < snd (EvaluateVerticalStretchF g (GetREtaInterface g k))"
  shows "geometry_ok_column g (EvaluateGeometricTerms_Node g dWL a b i j s) x y"
  using assms by (intro Node_establish) (auto simp: same_inputs_def)

lemma Nodes_geometry_ok:
  assumes a: "a < na" and b: "b < nb" and i: "i < ni" and j: "j < nj"
    and x: "x = GetAInteriorBegin (m_box p) + a * m_nHorizontalOrder p + i"
    and y: "y = GetBInteriorBegin (m_box p) + b * m_nHorizontalOrder p + j"
    and topo: "m_dataTopography p x y < Grid_GetZtop g"
    and lev: "\<forall>k<GetRElements g. 0 < snd (EvaluateVerticalStretchF g (GetREtaLevel g k))"
    and int: "\<forall>k\<le>GetRElements g. 0 < snd (EvaluateVerticalStretchF g (GetREtaInterface g k))"
  shows "geometry_ok_column g
           (fold (\<lambda>a. fold (\<lambda>b. fold (\<lambda>i. fold (\<lambda>j.
                  EvaluateGeometricTerms_Node g dWL a b i j)
                [0 ..< nj]) [0 ..< ni]) [0 ..< nb]) [0 ..< na] p) x y"
proof -
  let ?I = "same_inputs p"
  let ?P = "\<lambda>s. geometry_ok_column g s x y"
  let ?N = "EvaluateGeometricTerms_Node g dWL"
  have I0: "?I p" by (simp add: same_inputs_def)
  have invN: "?I (?N a b i j s)" if "?I s" for a b i j s
    using that by (simp add: Node_same_inputs)
  have presN: "?P (?N a b i j s)" if "?I s" "?P s" for a b i j s
    using that topo lev int by (intro Node_step [where ?p0.0 = p])
  have estN: "?P (?N a b i j s)" if "?I s" for s
    using that x y topo lev int by (intro Node_target [where ?p0.0 = p])
  let ?Fj = "\<lambda>a b i. fold (\<lambda>j. ?N a b i j) [0 ..< nj]"
  have invJ: "?I (?Fj a b i s)" if "?I s" for a b i s
    using that by (rule fold_invariant) (rule invN)
  have presJ: "?P (?Fj a b i s)" if "?I s" "?P s" for a b i s
  proof -
    have "?I (?Fj a b i s) \<and> ?P (?Fj a b i s)"
      by (rule fold_invariant) (use that invN presN in auto)
    then show ?thesis ..
  qed
  have estJ: "?P (?Fj a b i s)" if "?I s" for s
    by (rule fold_establish [where I = ?I and x = j])
       (use that j invN presN estN in auto)
  let ?Fi = "\<lambda>a b. fold (\<lambda>i. ?Fj a b i) [0 ..< ni]"
  have invI: "?I (?Fi a b s)" if "?I s" for a b s
    using that by (rule fold_invariant) (rule invJ)
  have presI: "?P (?Fi a b s)" if "?I s" "?P s" for a b s
  proof -
    have "?I (?Fi a b s) \<and> ?P (?Fi a b s)"
      by (rule fold_invariant) (use that invJ presJ in auto)
    then show ?thesis ..
  qed
  have estI: "?P (?Fi a b s)" if "?I s" for s
    by (rule fold_establish [where I = ?I and x = i])
       (use that i invJ presJ estJ in auto)
  let ?Fb = "\<lambda>a. fold (\<lambda>b. ?Fi a b) [0 ..< nb]"
  have invB: "?I (?Fb a s)" if "?I s" for a s
    using that by (rule fold_invariant) (rule invI)
  have presB: "?P (?Fb a s)" if "?I s" "?P s" for a s
  proof -
    have "?I (?Fb a s) \<and> ?P (?Fb a s)"
      by (rule fold_invariant) (use that invI presI in auto)
    then show ?thesis ..
  qed
  have estB: "?P (?Fb a s)" if "?I s" for s
    by (rule fold_establish [where I = ?I and x = b])
       (use that b invI presI estI in auto)
  show ?thesis
    by (rule fold_establish [where I = ?I and x = a])
       (use I0 a invB presB estB in auto)
qed

subsection \<open>A small grid and patch\<close>

text \<open>
  One level between two interfaces with a uniform stretch, and a patch of one element of
  order one with a halo of one node on each side, all of whose arrays are zero.
\<close>

definition flat_grid :: Grid where
  "flat_grid =
     \<lparr> Grid_GetZtop = 1000,
       GetRElements = 1,
       GetREtaLevel = (\<lambda>k. 1 / 2),
       GetREtaInterface = (\<lambda>k. real k),
       EvaluateVerticalStretchF = (\<lambda>dREta. (dREta, 1)),
       GetVerticalStaggering = VerticalStaggering_CharneyPhillips,
       GetREtaLevelsNormArea = [1],
       GetREtaInterfacesNormArea = [1 / 2, 1 / 2] \<rparr>"

definition zero_patch :: GridPatchCartesianGLL where
  "zero_patch =
     \<lparr> m_box = \<lparr> GetATotalWidth = 3, GetBTotalWidth = 3,
                 GetAInteriorBegin = 1, GetBInteriorBegin = 1 \<rparr>,
       m_nHorizontalOrder = 1,
       GetElementCountA = 1,
       GetElementCountB = 1,
       GetElementDeltaA = 1000,
       GetElementDeltaB = 1000,
       m_dataLon = (\<lambda>i j. 0),
       m_dataLat = (\<lambda>i j. 0),
       m_dataTopography = (\<lambda>i j. 0),
       m_dataTopographyDeriv = (\<lambda>c i j. 0),
       m_dataZLevels = (\<lambda>k i j. 0),
       m_dataZInterfaces = (\<lambda>k i j. 0),
       m_dataJacobian2D = (\<lambda>i j. 0),
       m_dataContraMetric2DA = (\<lambda>i j c. 0),
       m_dataContraMetric2DB = (\<lambda>i j c. 0),
       m_dataCovMetric2DA = (\<lambda>i j c. 0),
       m_dataCovMetric2DB = (\<lambda>i j c. 0),
       m_dataJacobian = (\<lambda>k i j. 0),
       m_dataElementArea = (\<lambda>k i j. 0),
       m_dataContraMetricA = (\<lambda>k i j c. 0),
       m_dataContraMetricB = (\<lambda>k i j c. 0),
       m_dataContraMetricXi = (\<lambda>k i j c. 0),
       m_dataCovMetricA = (\<lambda>k i j c. 0),
       m_dataCovMetricB = (\<lambda>k i j c. 0),
       m_dataCovMetricXi = (\<lambda>k i j c. 0),
       m_dataDerivRNode = (\<lambda>k i j c. 0),
       m_dataJacobianREdge = (\<lambda>k i j. 0),
       m_dataElementAreaREdge = (\<lambda>k i j. 0),
       m_dataContraMetricAREdge = (\<lambda>k i j c. 0),
       m_dataContraMetricBREdge = (\<lambda>k i j c. 0),
       m_dataContraMetricXiREdge = (\<lambda>k i j c. 0),
       m_dataDerivRREdge = (\<lambda>k i j c. 0),
       m_datavecStateNode = (\<lambda>d c k i j. 0),
       m_datavecStateREdge = (\<lambda>d c k i j. 0) \<rparr>"

subsection \<open>Verification of the normalized areas\<close>

lemma foldl_plus_sum_list: "foldl (+) (a::real) xs = a + sum_list xs"
  by (induction xs arbitrary: a) simp_all

lemma VerifyNormalizedAreas_isl:
  "isl (VerifyNormalizedAreas eStaggering dWNode dWREdge) \<longleftrightarrow>
     (\<bar>sum_list dWNode - 1\<bar> > 1 / 10 ^ 13 \<or>
      (eStaggering \<noteq> VerticalStaggering_Interfaces \<and>
       \<bar>sum_list dWREdge - 1\<bar> > 1 / 10 ^ 13))"
  by (simp add: VerifyNormalizedAreas_def Let_def foldl_plus_sum_list)

text \<open>
  C5 (as amended).  \<^verbatim>\<open>EvaluateGeometricTerms\<close> raises its error exactly when the
  normalized areas of the levels are off one by more than \<open>1e-13\<close>, or the staggering is
  not INTERFACES and the normalized areas of the interfaces are off one by more than
  \<open>1e-13\<close>.  The areas of the levels are verified for every staggering, those of the
  interfaces for LEVELS and CHARNEY_PHILLIPS only.
\<close>

theorem EvaluateGeometricTerms_fails_iff:
  "isl (EvaluateGeometricTerms g dWL p) \<longleftrightarrow>
     (\<bar>sum_list (GetREtaLevelsNormArea g) - 1\<bar> > 1 / 10 ^ 13 \<or>
      (GetVerticalStaggering g \<noteq> VerticalStaggering_Interfaces \<and>
       \<bar>sum_list (GetREtaInterfacesNormArea g) - 1\<bar> > 1 / 10 ^ 13))"
  using VerifyNormalizedAreas_isl
    [of "GetVerticalStaggering g" "GetREtaLevelsNormArea g" "GetREtaInterfacesNormArea g"]
  by (auto simp: EvaluateGeometricTerms_def split: sum.splits)

theorem EvaluateGeometricTerms_fails_iff_witness:
  "isl (EvaluateGeometricTerms (flat_grid\<lparr>GetREtaInterfacesNormArea := [1 / 2, 1]\<rparr>)
          (\<lambda>_. 1 / 2) zero_patch) \<and>
   isl (EvaluateGeometricTerms
          (flat_grid\<lparr>GetVerticalStaggering := VerticalStaggering_Interfaces,
                     GetREtaLevelsNormArea := [2]\<rparr>)
          (\<lambda>_. 1 / 2) zero_patch) \<and>
   \<not> isl (EvaluateGeometricTerms flat_grid (\<lambda>_. 1 / 2) zero_patch)"
  using EvaluateGeometricTerms_fails_iff
          [of "flat_grid\<lparr>GetREtaInterfacesNormArea := [1 / 2, 1]\<rparr>" "\<lambda>_. 1 / 2" zero_patch]
        EvaluateGeometricTerms_fails_iff
          [of "flat_grid\<lparr>GetVerticalStaggering := VerticalStaggering_Interfaces,
                          GetREtaLevelsNormArea := [2]\<rparr>" "\<lambda>_. 1 / 2" zero_patch]
        EvaluateGeometricTerms_fails_iff [of flat_grid "\<lambda>_. 1 / 2" zero_patch]
  by (simp add: flat_grid_def)

text \<open>
  C5 as stated fails: with INTERFACES staggering, interface areas that sum to
  \<open>3/2\<close> pass the verification and the geometric terms are computed.
\<close>

theorem EvaluateGeometricTerms_Interfaces_counterexample:
  "\<not> isl (EvaluateGeometricTerms
            (flat_grid\<lparr>GetVerticalStaggering := VerticalStaggering_Interfaces,
                       GetREtaInterfacesNormArea := [1 / 2, 1]\<rparr>)
            (\<lambda>_. 1 / 2) zero_patch) \<and>
   \<bar>sum_list (GetREtaInterfacesNormArea
       (flat_grid\<lparr>GetVerticalStaggering := VerticalStaggering_Interfaces,
                  GetREtaInterfacesNormArea := [1 / 2, 1]\<rparr>)) - 1\<bar> > 1 / 10 ^ 13"
  by (simp add: EvaluateGeometricTerms_def VerifyNormalizedAreas_def flat_grid_def)

subsection \<open>Metrics and Jacobian\<close>

text \<open>
  C2 (as amended).  After \<^verbatim>\<open>EvaluateGeometricTerms\<close>, at every node \<open>(iA, iB)\<close> of an
  element of the interior of the patch where the topography is below the model top,
  and for a stretch whose derivative is positive at every level and interface: on every
  level \<open>k\<close> the stored contravariant and covariant metrics are inverse to each other,
  the Jacobian is \<open>\<partial>\<^sub>\<xi> z\<close> times the two-dimensional Jacobian and both are positive; on
  every interface \<open>k\<close>, where no covariant metric is stored, the stored contravariant
  metric is the inverse of the covariant metric of the stored derivatives, and the
  Jacobian and \<open>\<partial>\<^sub>\<xi> z\<close> are positive as well.
\<close>

theorem EvaluateGeometricTerms_metrics:
  assumes "EvaluateGeometricTerms g dWL p = Inr p'"
    and "a < GetElementCountA p" and "b < GetElementCountB p"
    and "i < m_nHorizontalOrder p" and "j < m_nHorizontalOrder p"
    and "iA = GetAInteriorBegin (m_box p) + a * m_nHorizontalOrder p + i"
    and "iB = GetBInteriorBegin (m_box p) + b * m_nHorizontalOrder p + j"
    and "m_dataTopography p iA iB < Grid_GetZtop g"
    and "\<forall>k<GetRElements g. 0 < snd (EvaluateVerticalStretchF g (GetREtaLevel g k))"
    and "\<forall>k\<le>GetRElements g. 0 < snd (EvaluateVerticalStretchF g (GetREtaInterface g k))"
  shows "(\<forall>k<GetRElements g. geometry_ok_node p' k iA iB) \<and>
         (\<forall>k\<le>GetRElements g. geometry_ok_edge p' k iA iB)"
proof -
  have "p' = fold (\<lambda>a. fold (\<lambda>b. fold (\<lambda>i. fold (\<lambda>j.
                  EvaluateGeometricTerms_Node g dWL a b i j)
                [0 ..< m_nHorizontalOrder p]) [0 ..< m_nHorizontalOrder p])
                [0 ..< GetElementCountB p]) [0 ..< GetElementCountA p] p"
    using assms(1) by (auto simp: EvaluateGeometricTerms_def split: sum.splits)
  then have "geometry_ok_column g p' iA iB"
    using Nodes_geometry_ok [OF assms(2-10)] by simp
  then show ?thesis
    by (simp add: geometry_ok_column_def)
qed

lemma flat_grid_EvaluateGeometricTerms:
  "EvaluateGeometricTerms flat_grid dWL zero_patch =
     Inr (EvaluateGeometricTerms_Node flat_grid dWL 0 0 0 0 zero_patch)"
  by (simp add: EvaluateGeometricTerms_def VerifyNormalizedAreas_def flat_grid_def zero_patch_def)

theorem EvaluateGeometricTerms_metrics_witness:
  "geometry_ok_node (EvaluateGeometricTerms_Node flat_grid (\<lambda>_. 1 / 2) 0 0 0 0 zero_patch) 0 1 1 \<and>
   geometry_ok_edge (EvaluateGeometricTerms_Node flat_grid (\<lambda>_. 1 / 2) 0 0 0 0 zero_patch) 0 1 1 \<and>
   geometry_ok_edge (EvaluateGeometricTerms_Node flat_grid (\<lambda>_. 1 / 2) 0 0 0 0 zero_patch) 1 1 1"
proof -
  have "(\<forall>k<GetRElements flat_grid.
           geometry_ok_node
             (EvaluateGeometricTerms_Node flat_grid (\<lambda>_. 1 / 2) 0 0 0 0 zero_patch) k 1 1) \<and>
        (\<forall>k\<le>GetRElements flat_grid.
           geometry_ok_edge
             (EvaluateGeometricTerms_Node flat_grid (\<lambda>_. 1 / 2) 0 0 0 0 zero_patch) k 1 1)"
    by (rule EvaluateGeometricTerms_metrics
          [OF flat_grid_EvaluateGeometricTerms, where a = 0 and b = 0 and i = 0 and j = 0])
       (simp_all add: flat_grid_def zero_patch_def)
  moreover have "GetRElements flat_grid = 1"
    by (simp add: flat_grid_def)
  ultimately show ?thesis by simp
qed

text \<open>
  C2 as stated fails at the nodes of the halo, which the loops over the elements of the
  interior never visit: on the small patch the node \<open>(0, 0)\<close> keeps a zero Jacobian and
  zero metrics.
\<close>

theorem EvaluateGeometricTerms_halo_counterexample:
  "EvaluateGeometricTerms flat_grid (\<lambda>_. 1 / 2) zero_patch =
     Inr (EvaluateGeometricTerms_Node flat_grid (\<lambda>_. 1 / 2) 0 0 0 0 zero_patch) \<and>
   m_dataJacobian (EvaluateGeometricTerms_Node flat_grid (\<lambda>_. 1 / 2) 0 0 0 0 zero_patch) 0 0 0 = 0 \<and>
   ContraMetric (EvaluateGeometricTerms_Node flat_grid (\<lambda>_. 1 / 2) 0 0 0 0 zero_patch) 0 0 0 0 0
     * CovMetric (EvaluateGeometricTerms_Node flat_grid (\<lambda>_. 1 / 2) 0 0 0 0 zero_patch) 0 0 0 0 0 = 0"
  by (simp add: flat_grid_EvaluateGeometricTerms)
     (simp add: EvaluateGeometricTerms_Node_def EvaluateGeometricTerms_Metric2D_def
        EvaluateGeometricTerms_Level_def EvaluateGeometricTerms_Interface_def
        TerrainFollowingCoord_def TerrainFollowingCoordREdge_def
        ContraMetric_def CovMetric_def Let_def flat_grid_def zero_patch_def)

section \<open>GridPatchCartesianGLL::EvaluateTestCase: topography and heights\<close>

text \<open>
  The loop of \<^verbatim>\<open>EvaluateTestCase\<close> that samples the topography of the test case at every
  node of the patch, halo included, and fills \<^verbatim>\<open>m_dataZLevels\<close> and
  \<^verbatim>\<open>m_dataZInterfaces\<close>; the callback \<^verbatim>\<open>test.EvaluateTopography\<close> is a parameter.
  First the body for one node \<open>(i, j)\<close>, then the two loops, which stop at the first
  exception.
\<close>

definition EvaluateTestCase_Column ::
  "Grid \<Rightarrow> PhysicalConstants \<Rightarrow> (PhysicalConstants \<Rightarrow> real \<Rightarrow> real \<Rightarrow> real) \<Rightarrow> nat \<Rightarrow> nat \<Rightarrow>
     GridPatchCartesianGLL \<Rightarrow> exception + GridPatchCartesianGLL" where
  "EvaluateTestCase_Column g phys test_EvaluateTopography i j p =
     (let p = p\<lparr>m_dataTopography :=
                set2 (m_dataTopography p) i j
                  (test_EvaluateTopography phys (m_dataLon p i j) (m_dataLat p i j))\<rparr>
      in if m_dataTopography p i j \<ge> Grid_GetZtop g
         then Inl (ExceptionT ''TestCase topography exceeds model top.'')
         else
           (let p = fold (\<lambda>k p. p\<lparr>m_dataZLevels :=
                      set3 (m_dataZLevels p) k i j
                        (m_dataTopography p i j
                         + GetREtaLevel g k * (Grid_GetZtop g - m_dataTopography p i j))\<rparr>)
                      [0 ..< GetRElements g] p;
                p = fold (\<lambda>k p. p\<lparr>m_dataZInterfaces :=
                      set3 (m_dataZInterfaces p) k i j
                        (m_dataTopography p i j
                         + GetREtaInterface g k * (Grid_GetZtop g - m_dataTopography p i j))\<rparr>)
                      [0 ..< GetRElements g + 1] p
            in Inr p))"

definition EvaluateTestCase_Heights ::
  "Grid \<Rightarrow> PhysicalConstants \<Rightarrow> (PhysicalConstants \<Rightarrow> real \<Rightarrow> real \<Rightarrow> real) \<Rightarrow>
     GridPatchCartesianGLL \<Rightarrow> exception + GridPatchCartesianGLL" where
  "EvaluateTestCase_Heights g phys test_EvaluateTopography p =
     fold (\<lambda>i. fold (\<lambda>j r.
             case r of
               Inl e \<Rightarrow> Inl e
             | Inr p \<Rightarrow> EvaluateTestCase_Column g phys test_EvaluateTopography i j p)
           [0 ..< GetBTotalWidth (m_box p)])
       [0 ..< GetATotalWidth (m_box p)] (Inr p)"

text \<open>
  The small grid with the stretch \<open>F \<eta> = \<eta>\<^sup>2\<close>, and a patch of a single node.
\<close>

definition quadratic_grid :: Grid where
  "quadratic_grid = flat_grid\<lparr>EvaluateVerticalStretchF := (\<lambda>dREta. (dREta * dREta, 2 * dREta))\<rparr>"

definition column_patch :: GridPatchCartesianGLL where
  "column_patch = zero_patch\<lparr>m_box := \<lparr> GetATotalWidth = 1, GetBTotalWidth = 1,
                 GetAInteriorBegin = 0, GetBInteriorBegin = 0 \<rparr>\<rparr>"

text \<open>
  C3.  Every cached height should be \<open>z\<^sub>s + (z\<^sub>t\<^sub>o\<^sub>p - z\<^sub>s) F(\<eta>\<^sub>k)\<close>.  The height that
  \<^verbatim>\<open>EvaluateGeometricTerms\<close> computes is; the heights that \<^verbatim>\<open>EvaluateTestCase\<close> stores
  are \<open>z\<^sub>s + \<eta>\<^sub>k (z\<^sub>t\<^sub>o\<^sub>p - z\<^sub>s)\<close>, without the stretch: with \<open>F \<eta> = \<eta>\<^sup>2\<close>, a level at
  \<open>\<eta> = 1/2\<close>, no topography and the model top at 1000, the stored height is 500 where
  the stretched height is 250.
\<close>

theorem EvaluateTestCase_Heights_ignore_stretch:
  "\<not> isl (EvaluateTestCase_Heights quadratic_grid phys (\<lambda>phys dXp dYp. 0) column_patch) \<and>
   m_dataZLevels
     (projr (EvaluateTestCase_Heights quadratic_grid phys (\<lambda>phys dXp dYp. 0) column_patch))
     0 0 0 = 500 \<and>
   fst (TerrainFollowingCoord quadratic_grid 0 0 0 (GetREtaLevel quadratic_grid 0)) = 250 \<and>
   0 + (Grid_GetZtop quadratic_grid - 0)
       * fst (EvaluateVerticalStretchF quadratic_grid (GetREtaLevel quadratic_grid 0)) = 250"
  by (simp add: EvaluateTestCase_Heights_def EvaluateTestCase_Column_def column_patch_def
        zero_patch_def quadratic_grid_def flat_grid_def TerrainFollowingCoord_def Let_def)

section \<open>GridPatchCartesianGLL::ApplyBoundaryConditions\<close>

text \<open>
  Modelled from the spec: \<^verbatim>\<open>CalculateNoFlowUrNode\<close>, a method of the base class that is
  not part of the sources at hand.  The spec gives the vertical velocity of no flow
  through the bottom surface as \<open>- (g\<^sup>\<xi>\<^sup>a u + g\<^sup>\<xi>\<^sup>b v) / (g\<^sup>\<xi>\<^sup>\<xi> \<partial>\<^sub>\<xi> z)\<close>.
\<close>

definition CalculateNoFlowUrNode ::
  "GridPatchCartesianGLL \<Rightarrow> nat \<Rightarrow> nat \<Rightarrow> nat \<Rightarrow> real \<Rightarrow> real \<Rightarrow> real" where
  "CalculateNoFlowUrNode p k i j dUa dUb =
     - (m_dataContraMetricXi p k i j 0 * dUa + m_dataContraMetricXi p k i j 1 * dUb)
       / (m_dataContraMetricXi p k i j 2 * m_dataDerivRNode p k i j 2)"

text \<open>
  The body of the loops over \<open>(i, j)\<close> when everything is on interfaces.  The macro
  \<^verbatim>\<open>USE_COVARIANT_VELOCITIES\<close> (of \<^verbatim>\<open>Defines.h\<close>, not part of the sources at hand)
  chooses the branch at compile time: it is a parameter.
\<close>

definition ApplyBoundaryConditions_Interfaces ::
  "bool \<Rightarrow> nat \<Rightarrow> nat \<Rightarrow> nat \<Rightarrow> GridPatchCartesianGLL \<Rightarrow> GridPatchCartesianGLL" where
  "ApplyBoundaryConditions_Interfaces USE_COVARIANT_VELOCITIES iDataIndex i j p =
     (let UIx = 0; VIx = 1; WIx = 3 in
      if USE_COVARIANT_VELOCITIES
      then p\<lparr>m_datavecStateNode :=
             set5 (m_datavecStateNode p) iDataIndex WIx 0 i j
               (- (m_dataContraMetricXi p 0 i j 0 * m_datavecStateNode p iDataIndex UIx 0 i j
                   + m_dataContraMetricXi p 0 i j 1 * m_datavecStateNode p iDataIndex VIx 0 i j)
                / m_dataContraMetricXi p 0 i j 2
                / m_dataDerivRNode p 0 i j 2)\<rparr>
      else p\<lparr>m_datavecStateNode :=
             set5 (m_datavecStateNode p) iDataIndex WIx 0 i j
               (CalculateNoFlowUrNode p 0 i j
                  (m_datavecStateNode p iDataIndex UIx 0 i j)
                  (m_datavecStateNode p iDataIndex VIx 0 i j))\<rparr>)"

text \<open>
  The body of the loops in the last branch (the vertical velocity on interfaces).  With
  covariant velocities the value goes to the array of the interfaces, without them to
  the array of the levels.
\<close>

definition ApplyBoundaryConditions_CharneyPhillips ::
  "bool \<Rightarrow> nat \<Rightarrow> nat \<Rightarrow> nat \<Rightarrow> GridPatchCartesianGLL \<Rightarrow> GridPatchCartesianGLL" where
  "ApplyBoundaryConditions_CharneyPhillips USE_COVARIANT_VELOCITIES iDataIndex i j p =
     (let UIx = 0; VIx = 1; WIx = 3 in
      if USE_COVARIANT_VELOCITIES
      then p\<lparr>m_datavecStateREdge :=
             set5 (m_datavecStateREdge p) iDataIndex WIx 0 i j
               (- (m_dataContraMetricXi p 0 i j 0 * m_datavecStateNode p iDataIndex UIx 0 i j
                   + m_dataContraMetricXi p 0 i j 1 * m_datavecStateNode p iDataIndex VIx 0 i j)
                / m_dataContraMetricXi p 0 i j 2
                / m_dataDerivRNode p 0 i j 2)\<rparr>
      else p\<lparr>m_datavecStateNode :=
             set5 (m_datavecStateNode p) iDataIndex WIx 0 i j
               (CalculateNoFlowUrNode p 0 i j
                  (m_datavecStateNode p iDataIndex UIx 0 i j)
                  (m_datavecStateNode p iDataIndex VIx 0 i j))\<rparr>)"

text \<open>The function; \<^verbatim>\<open>eDataType\<close> is not used by the source.\<close>

definition ApplyBoundaryConditions ::
  "bool \<Rightarrow> Grid \<Rightarrow> nat \<Rightarrow> 'datatype \<Rightarrow> GridPatchCartesianGLL \<Rightarrow>
     exception + GridPatchCartesianGLL" where
  "ApplyBoundaryConditions USE_COVARIANT_VELOCITIES g iDataIndex eDataType p =
     (if GetVerticalStaggering g = VerticalStaggering_Levels
      then Inl (ExceptionT ''Not implemented'')
      else if GetVerticalStaggering g = VerticalStaggering_Interfaces
      then Inr (fold (\<lambda>i. fold (\<lambda>j.
                  ApplyBoundaryConditions_Interfaces USE_COVARIANT_VELOCITIES iDataIndex i j)
                [0 ..< GetBTotalWidth (m_box p)]) [0 ..< GetATotalWidth (m_box p)] p)
      else Inr (fold (\<lambda>i. fold (\<lambda>j.
                  ApplyBoundaryConditions_CharneyPhillips USE_COVARIANT_VELOCITIES iDataIndex i j)
                [0 ..< GetBTotalWidth (m_box p)]) [0 ..< GetATotalWidth (m_box p)] p))"

text \<open>The no-flow value of the vertical velocity at the bottom of the column \<open>(i, j)\<close>.\<close>

definition NoFlowW :: "GridPatchCartesianGLL \<Rightarrow> nat \<Rightarrow> nat \<Rightarrow> nat \<Rightarrow> real" where
  "NoFlowW p iDataIndex i j =
     - (m_dataContraMetricXi p 0 i j 0 * m_datavecStateNode p iDataIndex 0 0 i j
        + m_dataContraMetricXi p 0 i j 1 * m_datavecStateNode p iDataIndex 1 0 i j)
       / (m_dataContraMetricXi p 0 i j 2 * m_dataDerivRNode p 0 i j 2)"

text \<open>What the loops read and never write.\<close>

definition bc_inputs :: "GridPatchCartesianGLL \<Rightarrow> nat \<Rightarrow> GridPatchCartesianGLL \<Rightarrow> bool" where
  "bc_inputs p0 iDataIndex s \<longleftrightarrow>
     m_dataContraMetricXi s = m_dataContraMetricXi p0 \<and>
     m_dataDerivRNode s = m_dataDerivRNode p0 \<and>
     m_datavecStateNode s iDataIndex 0 = m_datavecStateNode p0 iDataIndex 0 \<and>
     m_datavecStateNode s iDataIndex 1 = m_datavecStateNode p0 iDataIndex 1"

lemma Interfaces_bc_inputs:
  "bc_inputs p0 d s \<Longrightarrow> bc_inputs p0 d (ApplyBoundaryConditions_Interfaces cov d i j s)"
  by (auto simp: bc_inputs_def ApplyBoundaryConditions_Interfaces_def Let_def fun_eq_iff)

lemma Interfaces_establish:
  "bc_inputs p0 d s \<Longrightarrow>
   m_datavecStateNode (ApplyBoundaryConditions_Interfaces cov d i j s) d 3 0 i j = NoFlowW p0 d i j"
  by (simp add: bc_inputs_def ApplyBoundaryConditions_Interfaces_def Let_def NoFlowW_def
        CalculateNoFlowUrNode_def divide_divide_eq_left)

lemma Interfaces_preserve:
  "\<not> (i' = i \<and> j' = j) \<Longrightarrow>
   m_datavecStateNode (ApplyBoundaryConditions_Interfaces cov d i j s) d 3 0 i' j'
     = m_datavecStateNode s d 3 0 i' j'"
  by (cases "i' = i"; cases "j' = j";
      simp add: ApplyBoundaryConditions_Interfaces_def Let_def)

lemma CharneyPhillips_bc_inputs:
  "bc_inputs p0 d s \<Longrightarrow> bc_inputs p0 d (ApplyBoundaryConditions_CharneyPhillips cov d i j s)"
  by (auto simp: bc_inputs_def ApplyBoundaryConditions_CharneyPhillips_def Let_def fun_eq_iff)

lemma CharneyPhillips_establish:
  "bc_inputs p0 d s \<Longrightarrow>
   m_datavecStateREdge (ApplyBoundaryConditions_CharneyPhillips True d i j s) d 3 0 i j
     = NoFlowW p0 d i j"
  by (simp add: bc_inputs_def ApplyBoundaryConditions_CharneyPhillips_def Let_def NoFlowW_def
        divide_divide_eq_left)

lemma CharneyPhillips_preserve:
  "\<not> (i' = i \<and> j' = j) \<Longrightarrow>
   m_datavecStateREdge (ApplyBoundaryConditions_CharneyPhillips True d i j s) d 3 0 i' j'
     = m_datavecStateREdge s d 3 0 i' j'"
  by (cases "i' = i"; cases "j' = j";
      simp add: ApplyBoundaryConditions_CharneyPhillips_def Let_def)

lemma bc_loops:
  assumes inv: "\<And>i j s. I s \<Longrightarrow> I (f i j s)"
    and est: "\<And>s. I s \<Longrightarrow> P (f i j s)"
    and pres: "\<And>i' j' s. I s \<Longrightarrow> P s \<Longrightarrow> P (f i' j' s)"
    and "I p" and "i < na" and "j < nb"
  shows "P (fold (\<lambda>i. fold (\<lambda>j. f i j) [0 ..< nb]) [0 ..< na] p) \<and>
         I (fold (\<lambda>i. fold (\<lambda>j. f i j) [0 ..< nb]) [0 ..< na] p)"
proof -
  let ?F = "\<lambda>i. fold (\<lambda>j. f i j) [0 ..< nb]"
  have invF: "I (?F i s)" if "I s" for i s
    using that by (rule fold_invariant) (rule inv)
  have presF: "P (?F i s)" if "I s" "P s" for i s
  proof -
    have "I (?F i s) \<and> P (?F i s)"
      by (rule fold_invariant) (use that inv pres in auto)
    then show ?thesis ..
  qed
  have estF: "P (?F i s)" if "I s" for s
    by (rule fold_establish [where I = I and x = j])
       (use that assms(6) inv pres est in auto)
  have "P (fold ?F [0 ..< na] p)"
    by (rule fold_establish [where I = I and x = i])
       (use assms(4,5) invF presF estF in auto)
  moreover have "I (fold ?F [0 ..< na] p)"
    using assms(4) by (rule fold_invariant) (rule invF)
  ultimately show ?thesis ..
qed

text \<open>
  C1 (as amended).  For LEVELS staggering \<^verbatim>\<open>ApplyBoundaryConditions\<close> raises
  ``Not implemented''.  For INTERFACES staggering it sets, at every \<open>(i, j)\<close> of the
  patch, the vertical velocity of the bottom level in the array of the levels to
  \<open>- (g\<^sup>\<xi>\<^sup>a u + g\<^sup>\<xi>\<^sup>b v) / (g\<^sup>\<xi>\<^sup>\<xi> \<partial>\<^sub>\<xi> z)\<close> and leaves \<open>u\<close> and \<open>v\<close> as they are, so that
  afterwards \<open>g\<^sup>\<xi>\<^sup>a u + g\<^sup>\<xi>\<^sup>b v + g\<^sup>\<xi>\<^sup>\<xi> \<partial>\<^sub>\<xi> z w = 0\<close> there, where \<open>g\<^sup>\<xi>\<^sup>\<xi>\<close> and \<open>\<partial>\<^sub>\<xi> z\<close> are
  not zero.  For CHARNEY_PHILLIPS staggering with covariant velocities it sets the
  vertical velocity of the bottom interface in the array of the interfaces to the same
  value.
\<close>

theorem ApplyBoundaryConditions_no_flow:
  "(GetVerticalStaggering g = VerticalStaggering_Levels \<longrightarrow>
      ApplyBoundaryConditions cov g d eDataType p = Inl (ExceptionT ''Not implemented'')) \<and>
   (GetVerticalStaggering g = VerticalStaggering_Interfaces \<longrightarrow>
      i < GetATotalWidth (m_box p) \<longrightarrow> j < GetBTotalWidth (m_box p) \<longrightarrow>
      (\<exists>p'. ApplyBoundaryConditions cov g d eDataType p = Inr p' \<and>
         m_datavecStateNode p' d 3 0 i j = NoFlowW p d i j \<and>
         m_datavecStateNode p' d 0 = m_datavecStateNode p d 0 \<and>
         m_datavecStateNode p' d 1 = m_datavecStateNode p d 1 \<and>
         (m_dataContraMetricXi p 0 i j 2 \<noteq> 0 \<longrightarrow> m_dataDerivRNode p 0 i j 2 \<noteq> 0 \<longrightarrow>
            m_dataContraMetricXi p' 0 i j 0 * m_datavecStateNode p' d 0 0 i j
            + m_dataContraMetricXi p' 0 i j 1 * m_datavecStateNode p' d 1 0 i j
            + m_dataContraMetricXi p' 0 i j 2
                * (m_dataDerivRNode p' 0 i j 2 * m_datavecStateNode p' d 3 0 i j) = 0))) \<and>
   (GetVerticalStaggering g = VerticalStaggering_CharneyPhillips \<longrightarrow>
      i < GetATotalWidth (m_box p) \<longrightarrow> j < GetBTotalWidth (m_box p) \<longrightarrow>
      (\<exists>p'. ApplyBoundaryConditions True g d eDataType p = Inr p' \<and>
         m_datavecStateREdge p' d 3 0 i j = NoFlowW p d i j))"
proof (intro conjI impI)
  assume "GetVerticalStaggering g = VerticalStaggering_Levels"
  then show "ApplyBoundaryConditions cov g d eDataType p = Inl (ExceptionT ''Not implemented'')"
    by (simp add: ApplyBoundaryConditions_def)
next
  assume st: "GetVerticalStaggering g = VerticalStaggering_Interfaces"
    and i: "i < GetATotalWidth (m_box p)" and j: "j < GetBTotalWidth (m_box p)"
  let ?p' = "fold (\<lambda>i. fold (\<lambda>j. ApplyBoundaryConditions_Interfaces cov d i j)
                [0 ..< GetBTotalWidth (m_box p)]) [0 ..< GetATotalWidth (m_box p)] p"
  have r: "ApplyBoundaryConditions cov g d eDataType p = Inr ?p'"
    using st by (simp add: ApplyBoundaryConditions_def)
  have "m_datavecStateNode ?p' d 3 0 i j = NoFlowW p d i j \<and> bc_inputs p d ?p'"
  proof (rule bc_loops [where I = "bc_inputs p d", OF _ _ _ _ i j])
    show "bc_inputs p d p" by (simp add: bc_inputs_def)
    show "bc_inputs p d (ApplyBoundaryConditions_Interfaces cov d i j s)"
      if "bc_inputs p d s" for i j s
      using that by (rule Interfaces_bc_inputs)
    show "m_datavecStateNode (ApplyBoundaryConditions_Interfaces cov d i j s) d 3 0 i j
            = NoFlowW p d i j" if "bc_inputs p d s" for s
      using that by (rule Interfaces_establish)
    show "m_datavecStateNode (ApplyBoundaryConditions_Interfaces cov d i' j' s) d 3 0 i j
            = NoFlowW p d i j"
      if "bc_inputs p d s" "m_datavecStateNode s d 3 0 i j = NoFlowW p d i j" for i' j' s
      using that Interfaces_establish [of p d s cov i j]
        Interfaces_preserve [of i i' j j' cov d s]
      by (cases "i = i' \<and> j = j'") auto
  qed
  then have w: "m_datavecStateNode ?p' d 3 0 i j = NoFlowW p d i j"
    and inp: "bc_inputs p d ?p'" by auto
  have nf: "m_dataContraMetricXi ?p' 0 i j 0 * m_datavecStateNode ?p' d 0 0 i j
            + m_dataContraMetricXi ?p' 0 i j 1 * m_datavecStateNode ?p' d 1 0 i j
            + m_dataContraMetricXi ?p' 0 i j 2
                * (m_dataDerivRNode ?p' 0 i j 2 * m_datavecStateNode ?p' d 3 0 i j) = 0"
    if "m_dataContraMetricXi p 0 i j 2 \<noteq> 0" "m_dataDerivRNode p 0 i j 2 \<noteq> 0"
    using that inp by (simp add: w NoFlowW_def bc_inputs_def)
  show "\<exists>p'. ApplyBoundaryConditions cov g d eDataType p = Inr p' \<and>
         m_datavecStateNode p' d 3 0 i j = NoFlowW p d i j \<and>
         m_datavecStateNode p' d 0 = m_datavecStateNode p d 0 \<and>
         m_datavecStateNode p' d 1 = m_datavecStateNode p d 1 \<and>
         (m_dataContraMetricXi p 0 i j 2 \<noteq> 0 \<longrightarrow> m_dataDerivRNode p 0 i j 2 \<noteq> 0 \<longrightarrow>
            m_dataContraMetricXi p' 0 i j 0 * m_datavecStateNode p' d 0 0 i j
            + m_dataContraMetricXi p' 0 i j 1 * m_datavecStateNode p' d 1 0 i j
            + m_dataContraMetricXi p' 0 i j 2
                * (m_dataDerivRNode p' 0 i j 2 * m_datavecStateNode p' d 3 0 i j) = 0)"
    using r w inp nf by (intro exI [of _ ?p']) (simp add: bc_inputs_def)
next
  assume st: "GetVerticalStaggering g = VerticalStaggering_CharneyPhillips"
    and i: "i < GetATotalWidth (m_box p)" and j: "j < GetBTotalWidth (m_box p)"
  let ?p' = "fold (\<lambda>i. fold (\<lambda>j. ApplyBoundaryConditions_CharneyPhillips True d i j)
                [0 ..< GetBTotalWidth (m_box p)]) [0 ..< GetATotalWidth (m_box p)] p"
  have r: "ApplyBoundaryConditions True g d eDataType p = Inr ?p'"
    using st by (simp add: ApplyBoundaryConditions_def)
  have "m_datavecStateREdge ?p' d 3 0 i j = NoFlowW p d i j \<and> bc_inputs p d ?p'"
  proof (rule bc_loops [where I = "bc_inputs p d", OF _ _ _ _ i j])
    show "bc_inputs p d p" by (simp add: bc_inputs_def)
    show "bc_inputs p d (ApplyBoundaryConditions_CharneyPhillips True d i j s)"
      if "bc_inputs p d s" for i j s
      using that by (rule CharneyPhillips_bc_inputs)
    show "m_datavecStateREdge (ApplyBoundaryConditions_CharneyPhillips True d i j s) d 3 0 i j
            = NoFlowW p d i j" if "bc_inputs p d s" for s
      using that by (rule CharneyPhillips_establish)
    show "m_datavecStateREdge (ApplyBoundaryConditions_CharneyPhillips True d i' j' s) d 3 0 i j
            = NoFlowW p d i j"
      if "bc_inputs p d s" "m_datavecStateREdge s d 3 0 i j = NoFlowW p d i j" for i' j' s
      using that CharneyPhillips_establish [of p d s i j]
        CharneyPhillips_preserve [of i i' j j' d s]
      by (cases "i = i' \<and> j = j'") auto
  qed
  then show "\<exists>p'. ApplyBoundaryConditions True g d eDataType p = Inr p' \<and>
         m_datavecStateREdge p' d 3 0 i j = NoFlowW p d i j"
    using r by auto
qed

text \<open>A patch with unit metric entries and a uniform flow, for the witness.\<close>

definition uniform_flow_patch :: GridPatchCartesianGLL where
  "uniform_flow_patch =
     zero_patch\<lparr> m_dataContraMetricXi := (\<lambda>k i j c. if c = 2 then 1 else 1 / 2),
                 m_dataDerivRNode := (\<lambda>k i j c. 2),
                 m_datavecStateNode := (\<lambda>d c k i j. 3) \<rparr>"

theorem ApplyBoundaryConditions_no_flow_witness:
  "GetVerticalStaggering (flat_grid\<lparr>GetVerticalStaggering := VerticalStaggering_Interfaces\<rparr>)
     = VerticalStaggering_Interfaces \<and>
   1 < GetATotalWidth (m_box uniform_flow_patch) \<and>
   2 < GetBTotalWidth (m_box uniform_flow_patch) \<and>
   m_dataContraMetricXi uniform_flow_patch 0 1 2 2 \<noteq> 0 \<and>
   m_dataDerivRNode uniform_flow_patch 0 1 2 2 \<noteq> 0 \<and>
   (\<exists>p'. ApplyBoundaryConditions False
            (flat_grid\<lparr>GetVerticalStaggering := VerticalStaggering_Interfaces\<rparr>)
            0 () uniform_flow_patch = Inr p' \<and>
         m_datavecStateNode p' 0 3 0 1 2 = - (3 / 2) \<and>
         m_dataContraMetricXi p' 0 1 2 0 * m_datavecStateNode p' 0 0 0 1 2
            + m_dataContraMetricXi p' 0 1 2 1 * m_datavecStateNode p' 0 1 0 1 2
            + m_dataContraMetricXi p' 0 1 2 2
                * (m_dataDerivRNode p' 0 1 2 2 * m_datavecStateNode p' 0 3 0 1 2) = 0)"
proof -
  have h: "GetVerticalStaggering
             (flat_grid\<lparr>GetVerticalStaggering := VerticalStaggering_Interfaces\<rparr>)
           = VerticalStaggering_Interfaces"
      "1 < GetATotalWidth (m_box uniform_flow_patch)"
      "2 < GetBTotalWidth (m_box uniform_flow_patch)"
      "m_dataContraMetricXi uniform_flow_patch 0 1 2 2 \<noteq> 0"
      "m_dataDerivRNode uniform_flow_patch 0 1 2 2 \<noteq> 0"
    by (simp_all add: uniform_flow_patch_def zero_patch_def)
  have n: "NoFlowW uniform_flow_patch 0 1 2 = - (3 / 2)"
    by (simp add: NoFlowW_def uniform_flow_patch_def zero_patch_def)
  from ApplyBoundaryConditions_no_flow
         [of "flat_grid\<lparr>GetVerticalStaggering := VerticalStaggering_Interfaces\<rparr>"
             False 0 "()" uniform_flow_patch 1 2] h n
  show ?thesis by auto
qed

text \<open>
  C1 as stated fails for LEVELS staggering: the function raises ``Not implemented'' and
  sets no velocity.
\<close>

theorem ApplyBoundaryConditions_Levels_counterexample:
  "ApplyBoundaryConditions False
     (flat_grid\<lparr>GetVerticalStaggering := VerticalStaggering_Levels\<rparr>) 0 () uniform_flow_patch
     = Inl (ExceptionT ''Not implemented'')"
  by (simp add: ApplyBoundaryConditions_def)

text \<open>
  Without covariant velocities the last branch writes the array of the levels, not
  that of the interfaces, which it leaves as it is.
\<close>

lemma ApplyBoundaryConditions_CharneyPhillips_contravariant:
  "m_datavecStateREdge (ApplyBoundaryConditions_CharneyPhillips False d i j p)
     = m_datavecStateREdge p"
  by (simp add: ApplyBoundaryConditions_CharneyPhillips_def Let_def)

section \<open>ThermalBubbleCartesianTest\<close>

record ThermalBubbleCartesianTest =
  m_dGDim :: "nat \<Rightarrow> real"
  m_dH0 :: real
  m_dThetaBar :: real
  m_dThetaC :: real
  m_drC :: real
  m_dxC :: real
  m_dzC :: real
  m_dpiC :: real

text \<open>The constructor: the member initialisers, then the six box dimensions.\<close>

definition new_ThermalBubbleCartesianTest :: ThermalBubbleCartesianTest where
  "new_ThermalBubbleCartesianTest =
     \<lparr> m_dGDim = ((\<lambda>_. 0)(0 := 0, 1 := 1000, 2 := - 1000, 3 := 1000, 4 := 0, 5 := 1000)),
       m_dH0 = 10000,
       m_dThetaBar = 300,
       m_dThetaC = 1 / 2,
       m_drC = 250,
       m_dxC = 500,
       m_dzC = 350,
       m_dpiC = 314159265 / 100000000 \<rparr>"



definition HasReferenceState :: "ThermalBubbleCartesianTest \<Rightarrow> bool" where
  "HasReferenceState test = True"


definition EvaluateTPrime ::
  "ThermalBubbleCartesianTest \<Rightarrow> PhysicalConstants \<Rightarrow> real \<Rightarrow> real \<Rightarrow> real" where
  "EvaluateTPrime test phys dXp dZp =
     (let xL2 = (dXp - m_dxC test) * (dXp - m_dxC test);
          zL2 = (dZp - m_dzC test) * (dZp - m_dzC test);
          dRp = sqrt (xL2 + zL2);
          dThetaHat = 1
      in if dRp \<le> m_drC test
         then 1 / 2 * m_dThetaC test * (1 + cos (m_dpiC test * dRp / m_drC test))
         else if dRp > m_drC test then 0
         else dThetaHat)"

text \<open>
  \<^verbatim>\<open>pow(x, y)\<close> of \<^verbatim>\<open><cmath>\<close> for a positive base; for a negative base and a
  fractional exponent the C function returns NaN, which no real number models, so the
  theorems that look at the value of the power ask for a positive base.
\<close>

definition pow :: "real \<Rightarrow> real \<Rightarrow> real" where
  "pow x y = x powr y"

text \<open>
  \<^verbatim>\<open>dState\<close> is a pointer to the caller's buffer: a function of the index, returned
  with the five entries overwritten in the order of the source.
\<close>

definition EvaluateReferenceState ::
  "ThermalBubbleCartesianTest \<Rightarrow> PhysicalConstants \<Rightarrow> real \<Rightarrow> real \<Rightarrow> real \<Rightarrow>
     (nat \<Rightarrow> real) \<Rightarrow> (nat \<Rightarrow> real)" where
  "EvaluateReferenceState test phys dZp dXp dYp dState =
     (let dG = GetG phys; dCv = GetCv phys; dCp = GetCp phys;
          dRd = GetR phys; dP0 = GetP0 phys;
          dState = dState(0 := 0);
          dState = dState(1 := 0);
          dState = dState(3 := 0);
          dState = dState(2 := m_dThetaBar test);
          dExnerP = - dG / (dCp * m_dThetaBar test) * dZp + 1;
          dRho = dP0 / (dRd * m_dThetaBar test) * pow dExnerP (dCv / dRd)
      in dState(4 := dRho))"

definition EvaluatePointwiseState ::
  "ThermalBubbleCartesianTest \<Rightarrow> PhysicalConstants \<Rightarrow> 'time \<Rightarrow> real \<Rightarrow> real \<Rightarrow> real \<Rightarrow>
     (nat \<Rightarrow> real) \<Rightarrow> (nat \<Rightarrow> real)" where
  "EvaluatePointwiseState test phys time dZp dXp dYp dState =
     (let dG = GetG phys; dCv = GetCv phys; dCp = GetCp phys;
          dRd = GetR phys; dP0 = GetP0 phys;
          dState = dState(0 := 0);
          dState = dState(1 := 0);
          dState = dState(3 := 0);
          dState = dState(2 := m_dThetaBar test + EvaluateTPrime test phys dXp dZp);
          dExnerP = - dG / (dCp * m_dThetaBar test) * dZp + 1;
          dRho = dP0 / (dRd * m_dThetaBar test) * pow dExnerP (dCv / dRd)
      in dState(4 := dRho))"




subsection \<open>Reference state\<close>

text \<open>
  Modelled from the spec: the pressure of the equation set, which is not part of the
  sources at hand; the spec gives \<open>p = p\<^sub>0 (R\<^sub>d \<rho> \<theta> / p\<^sub>0)\<^sup>C\<^sup>p\<^sup>/\<^sup>C\<^sup>v\<close>.
\<close>

definition pressure :: "PhysicalConstants \<Rightarrow> real \<Rightarrow> real \<Rightarrow> real" where
  "pressure phys dRho dTheta =
     GetP0 phys * pow (GetR phys * dRho * dTheta / GetP0 phys) (GetCp phys / GetCv phys)"

lemma EvaluateReferenceState_components:
  "EvaluateReferenceState test phys z x y dState 0 = 0"
  "EvaluateReferenceState test phys z x y dState 1 = 0"
  "EvaluateReferenceState test phys z x y dState 3 = 0"
  "EvaluateReferenceState test phys z x y dState 2 = m_dThetaBar test"
  "EvaluateReferenceState test phys z x y dState 4 =
     GetP0 phys / (GetR phys * m_dThetaBar test) *
       pow (1 - GetG phys * z / (GetCp phys * m_dThetaBar test)) (GetCv phys / GetR phys)"
  by (simp_all add: EvaluateReferenceState_def Let_def)

lemma pressure_EvaluateReferenceState:
  assumes R: "0 < GetR phys" and Cv: "0 < GetCv phys" and P0: "0 < GetP0 phys"
    and T: "0 < m_dThetaBar test"
    and E: "0 < 1 - GetG phys * z / (GetCp phys * m_dThetaBar test)"
  shows "pressure phys (EvaluateReferenceState test phys z x y dState 4)
                       (EvaluateReferenceState test phys z x y dState 2)
     = GetP0 phys *
       (1 - GetG phys * z / (GetCp phys * m_dThetaBar test)) powr (GetCp phys / GetR phys)"
proof -
  let ?E = "1 - GetG phys * z / (GetCp phys * m_dThetaBar test)"
  have "GetR phys *
          (GetP0 phys / (GetR phys * m_dThetaBar test) * ?E powr (GetCv phys / GetR phys))
          * m_dThetaBar test / GetP0 phys = ?E powr (GetCv phys / GetR phys)"
    using R P0 T by (simp add: field_simps)
  moreover have "(?E powr (GetCv phys / GetR phys)) powr (GetCp phys / GetCv phys)
     = ?E powr (GetCp phys / GetR phys)"
    using R Cv by (simp add: powr_powr)
  ultimately show ?thesis
    by (simp add: pressure_def EvaluateReferenceState_components pow_def)
qed

lemma EvaluateReferenceState_dpdz:
  assumes cp: "GetCp phys = GetCv phys + GetR phys"
    and R: "0 < GetR phys" and Cv: "0 < GetCv phys" and P0: "0 < GetP0 phys"
    and T: "0 < m_dThetaBar test"
    and E: "0 < 1 - GetG phys * z / (GetCp phys * m_dThetaBar test)"
  shows "((\<lambda>z. pressure phys (EvaluateReferenceState test phys z x y dState 4)
                       (EvaluateReferenceState test phys z x y dState 2))
      has_real_derivative
        - (EvaluateReferenceState test phys z x y dState 4 * GetG phys)) (at z)"
proof -
  let ?E = "\<lambda>z. 1 - GetG phys * z / (GetCp phys * m_dThetaBar test)"
  let ?h = "\<lambda>z. GetP0 phys * ?E z powr (GetCp phys / GetR phys)"
  have Cp: "0 < GetCp phys" using cp R Cv by simp
  have ex: "GetCp phys / GetR phys - 1 = GetCv phys / GetR phys"
    using R cp by (simp add: field_simps)
  have "(?h has_real_derivative
          GetP0 phys * (GetCp phys / GetR phys * ?E z powr (GetCp phys / GetR phys - 1)
             * (- (GetG phys / (GetCp phys * m_dThetaBar test))))) (at z)"
    using E Cp T by (auto intro!: derivative_eq_intros simp: field_simps)
  then have dh: "(?h has_real_derivative
      - (EvaluateReferenceState test phys z x y dState 4 * GetG phys)) (at z)"
    using Cp R T by (simp add: ex EvaluateReferenceState_components pow_def field_simps)
  have op: "open {w. 0 < ?E w}"
    using Cp T by (intro open_Collect_less continuous_intros) auto
  show ?thesis
  proof (rule has_field_derivative_transform_within_open [OF dh op])
    show "z \<in> {w. 0 < ?E w}" using E by simp
    fix w assume "w \<in> {w. 0 < ?E w}"
    then show "?h w = pressure phys (EvaluateReferenceState test phys w x y dState 4)
                       (EvaluateReferenceState test phys w x y dState 2)"
      using pressure_EvaluateReferenceState [OF R Cv P0 T, of w x y dState] by simp
  qed
qed

lemma EvaluateReferenceState_dpdz_Exner:
  assumes R: "0 < GetR phys" and Cv: "0 < GetCv phys" and Cp: "0 < GetCp phys"
    and P0: "0 < GetP0 phys" and T: "0 < m_dThetaBar test"
    and E: "0 < 1 - GetG phys * z / (GetCp phys * m_dThetaBar test)"
  shows "((\<lambda>z. pressure phys (EvaluateReferenceState test phys z x y dState 4)
                       (EvaluateReferenceState test phys z x y dState 2))
      has_real_derivative
        - (GetP0 phys * GetG phys / (GetR phys * m_dThetaBar test) *
           (1 - GetG phys * z / (GetCp phys * m_dThetaBar test))
             powr (GetCp phys / GetR phys - 1))) (at z)"
proof -
  let ?E = "\<lambda>z. 1 - GetG phys * z / (GetCp phys * m_dThetaBar test)"
  let ?h = "\<lambda>z. GetP0 phys * ?E z powr (GetCp phys / GetR phys)"
  have "(?h has_real_derivative
          GetP0 phys * (GetCp phys / GetR phys * ?E z powr (GetCp phys / GetR phys - 1)
             * (- (GetG phys / (GetCp phys * m_dThetaBar test))))) (at z)"
    using E Cp T by (auto intro!: derivative_eq_intros simp: field_simps)
  then have dh: "(?h has_real_derivative
      - (GetP0 phys * GetG phys / (GetR phys * m_dThetaBar test) *
           ?E z powr (GetCp phys / GetR phys - 1))) (at z)"
    using Cp R T by (simp add: field_simps)
  have op: "open {w. 0 < ?E w}"
    using Cp T by (intro open_Collect_less continuous_intros) auto
  show ?thesis
  proof (rule has_field_derivative_transform_within_open [OF dh op])
    show "z \<in> {w. 0 < ?E w}" using E by simp
    fix w assume "w \<in> {w. 0 < ?E w}"
    then show "?h w = pressure phys (EvaluateReferenceState test phys w x y dState 4)
                       (EvaluateReferenceState test phys w x y dState 2)"
      using pressure_EvaluateReferenceState [OF R Cv P0 T, of w x y dState] by simp
  qed
qed

text \<open>
  Claim C8.  For every height \<open>z\<close> and every horizontal position the reference state of the
  thermal bubble has zero velocities in the entries 0, 1 and 3, \<open>\<theta> = 300\<close> in entry 2 and the
  density \<open>p\<^sub>0 / (R\<^sub>d \<theta>) (1 - g z / (C\<^sub>p \<theta>))\<^sup>C\<^sup>v\<^sup>/\<^sup>R\<^sup>d\<close> in entry 4.  It is in hydrostatic balance,
  the pressure of the equation of state having the derivative \<open>- \<rho> g\<close> in \<open>z\<close>, when the
  constants are those of an ideal gas, \<open>C\<^sub>p = C\<^sub>v + R\<^sub>d\<close>, and positive, at the heights where
  the Exner pressure \<open>1 - g z / (C\<^sub>p \<theta>)\<close> is positive.
\<close>

theorem EvaluateReferenceState_hydrostatic:
  "EvaluateReferenceState new_ThermalBubbleCartesianTest phys z x y dState 0 = 0 \<and>
   EvaluateReferenceState new_ThermalBubbleCartesianTest phys z x y dState 1 = 0 \<and>
   EvaluateReferenceState new_ThermalBubbleCartesianTest phys z x y dState 3 = 0 \<and>
   EvaluateReferenceState new_ThermalBubbleCartesianTest phys z x y dState 2 = 300 \<and>
   EvaluateReferenceState new_ThermalBubbleCartesianTest phys z x y dState 4 =
     GetP0 phys / (GetR phys * 300) *
       pow (1 - GetG phys * z / (GetCp phys * 300)) (GetCv phys / GetR phys) \<and>
   (GetCp phys = GetCv phys + GetR phys \<and>
    0 < GetR phys \<and> 0 < GetCv phys \<and> 0 < GetP0 phys \<and>
    GetG phys * z < GetCp phys * 300
    \<longrightarrow>
    ((\<lambda>z. pressure phys
            (EvaluateReferenceState new_ThermalBubbleCartesianTest phys z x y dState 4)
            (EvaluateReferenceState new_ThermalBubbleCartesianTest phys z x y dState 2))
       has_real_derivative
         - (EvaluateReferenceState new_ThermalBubbleCartesianTest phys z x y dState 4
              * GetG phys)) (at z))"
proof -
  have T: "m_dThetaBar new_ThermalBubbleCartesianTest = 300"
    by (simp add: new_ThermalBubbleCartesianTest_def)
  have c2: "EvaluateReferenceState new_ThermalBubbleCartesianTest phys z x y dState 2 = 300"
    by (simp add: EvaluateReferenceState_components(4) T)
  have c4: "EvaluateReferenceState new_ThermalBubbleCartesianTest phys z x y dState 4 =
           GetP0 phys / (GetR phys * 300) *
             pow (1 - GetG phys * z / (GetCp phys * 300)) (GetCv phys / GetR phys)"
    by (simp add: EvaluateReferenceState_components(5) T)
  have d: "((\<lambda>z. pressure phys
            (EvaluateReferenceState new_ThermalBubbleCartesianTest phys z x y dState 4)
            (EvaluateReferenceState new_ThermalBubbleCartesianTest phys z x y dState 2))
       has_real_derivative
         - (EvaluateReferenceState new_ThermalBubbleCartesianTest phys z x y dState 4
              * GetG phys)) (at z)"
    if h: "GetCp phys = GetCv phys + GetR phys \<and>
           0 < GetR phys \<and> 0 < GetCv phys \<and> 0 < GetP0 phys \<and>
           GetG phys * z < GetCp phys * 300"
  proof -
    have Cp: "0 < GetCp phys" using h by simp
    have E: "0 < 1 - GetG phys * z / (GetCp phys * m_dThetaBar new_ThermalBubbleCartesianTest)"
      using h Cp by (simp add: T field_simps)
    have T0: "0 < m_dThetaBar new_ThermalBubbleCartesianTest" by (simp add: T)
    show ?thesis
      using EvaluateReferenceState_dpdz [OF _ _ _ _ T0 E, of x y dState] h by blast
  qed
  show ?thesis
    using d c2 c4 EvaluateReferenceState_components(1-3) by blast
qed

theorem EvaluateReferenceState_hydrostatic_witness:
  "EvaluateReferenceState new_ThermalBubbleCartesianTest
     \<lparr>GetG = 980616 / 100000, GetCv = 7175 / 10, GetCp = 10045 / 10,
      GetR = 287, GetP0 = 100000\<rparr> 350 500 0 (\<lambda>_. 7) 2 = 300 \<and>
   ((\<lambda>z. pressure \<lparr>GetG = 980616 / 100000, GetCv = 7175 / 10, GetCp = 10045 / 10,
                     GetR = 287, GetP0 = 100000\<rparr>
            (EvaluateReferenceState new_ThermalBubbleCartesianTest
               \<lparr>GetG = 980616 / 100000, GetCv = 7175 / 10, GetCp = 10045 / 10,
                GetR = 287, GetP0 = 100000\<rparr> z 500 0 (\<lambda>_. 7) 4)
            (EvaluateReferenceState new_ThermalBubbleCartesianTest
               \<lparr>GetG = 980616 / 100000, GetCv = 7175 / 10, GetCp = 10045 / 10,
                GetR = 287, GetP0 = 100000\<rparr> z 500 0 (\<lambda>_. 7) 2))
      has_real_derivative
        - (EvaluateReferenceState new_ThermalBubbleCartesianTest
             \<lparr>GetG = 980616 / 100000, GetCv = 7175 / 10, GetCp = 10045 / 10,
              GetR = 287, GetP0 = 100000\<rparr> 350 500 0 (\<lambda>_. 7) 4
           * GetG \<lparr>GetG = 980616 / 100000, GetCv = 7175 / 10, GetCp = 10045 / 10,
                   GetR = 287, GetP0 = 100000\<rparr>)) (at 350)"
  using EvaluateReferenceState_hydrostatic
    [of "\<lparr>GetG = 980616 / 100000, GetCv = 7175 / 10, GetCp = 10045 / 10,
          GetR = 287, GetP0 = 100000\<rparr>" 350 500 0 "\<lambda>_. 7"]
  by simp

text \<open>
  C8 as stated, for every height and whatever the constants, fails: the constants are
  arguments of the function, and with \<open>C\<^sub>p = 3\<close>, \<open>C\<^sub>v = R\<^sub>d = g = p\<^sub>0 = 1\<close>, which are not those of
  an ideal gas, the pressure at \<open>z = 450\<close> has the derivative \<open>- 1/1200\<close> while \<open>- \<rho> g\<close> is
  \<open>- 1/600\<close>.
\<close>

theorem EvaluateReferenceState_not_hydrostatic_counterexample:
  "((\<lambda>z. pressure \<lparr>GetG = 1, GetCv = 1, GetCp = 3, GetR = 1, GetP0 = 1\<rparr>
            (EvaluateReferenceState new_ThermalBubbleCartesianTest
               \<lparr>GetG = 1, GetCv = 1, GetCp = 3, GetR = 1, GetP0 = 1\<rparr> z 500 0 (\<lambda>_. 7) 4)
            (EvaluateReferenceState new_ThermalBubbleCartesianTest
               \<lparr>GetG = 1, GetCv = 1, GetCp = 3, GetR = 1, GetP0 = 1\<rparr> z 500 0 (\<lambda>_. 7) 2))
      has_real_derivative - (1 / 1200)) (at 450) \<and>
   - (EvaluateReferenceState new_ThermalBubbleCartesianTest
        \<lparr>GetG = 1, GetCv = 1, GetCp = 3, GetR = 1, GetP0 = 1\<rparr> 450 500 0 (\<lambda>_. 7) 4
      * GetG \<lparr>GetG = 1, GetCv = 1, GetCp = 3, GetR = 1, GetP0 = 1\<rparr>) = - (1 / 600) \<and>
   \<not> ((\<lambda>z. pressure \<lparr>GetG = 1, GetCv = 1, GetCp = 3, GetR = 1, GetP0 = 1\<rparr>
            (EvaluateReferenceState new_ThermalBubbleCartesianTest
               \<lparr>GetG = 1, GetCv = 1, GetCp = 3, GetR = 1, GetP0 = 1\<rparr> z 500 0 (\<lambda>_. 7) 4)
            (EvaluateReferenceState new_ThermalBubbleCartesianTest
               \<lparr>GetG = 1, GetCv = 1, GetCp = 3, GetR = 1, GetP0 = 1\<rparr> z 500 0 (\<lambda>_. 7) 2))
      has_real_derivative
        - (EvaluateReferenceState new_ThermalBubbleCartesianTest
             \<lparr>GetG = 1, GetCv = 1, GetCp = 3, GetR = 1, GetP0 = 1\<rparr> 450 500 0 (\<lambda>_. 7) 4
           * GetG \<lparr>GetG = 1, GetCv = 1, GetCp = 3, GetR = 1, GetP0 = 1\<rparr>)) (at 450)"
proof -
  let ?phys = "\<lparr>GetG = 1, GetCv = 1, GetCp = 3, GetR = 1, GetP0 = 1\<rparr> :: PhysicalConstants"
  let ?p = "\<lambda>z. pressure ?phys
            (EvaluateReferenceState new_ThermalBubbleCartesianTest ?phys z 500 0 (\<lambda>_. 7) 4)
            (EvaluateReferenceState new_ThermalBubbleCartesianTest ?phys z 500 0 (\<lambda>_. 7) 2)"
  have T: "m_dThetaBar new_ThermalBubbleCartesianTest = 300"
    by (simp add: new_ThermalBubbleCartesianTest_def)
  have "(?p has_real_derivative
        - (GetP0 ?phys * GetG ?phys / (GetR ?phys * m_dThetaBar new_ThermalBubbleCartesianTest) *
           (1 - GetG ?phys * 450 / (GetCp ?phys * m_dThetaBar new_ThermalBubbleCartesianTest))
             powr (GetCp ?phys / GetR ?phys - 1))) (at 450)"
    by (rule EvaluateReferenceState_dpdz_Exner) (simp_all add: T)
  moreover have "(1 / 2 :: real) powr 2 = 1 / 4"
    by (simp add: power2_eq_square)
  ultimately have d: "(?p has_real_derivative - (1 / 1200)) (at 450)"
    by (simp add: T)
  have r: "- (EvaluateReferenceState new_ThermalBubbleCartesianTest ?phys 450 500 0 (\<lambda>_. 7) 4
             * GetG ?phys) = - (1 / 600)"
    by (simp add: EvaluateReferenceState_components(5) T pow_def)
  have "\<not> (?p has_real_derivative - (1 / 600)) (at 450)"
  proof
    assume "(?p has_real_derivative - (1 / 600)) (at 450)"
    then have "- (1 / 1200 :: real) = - (1 / 600)" using d by (rule DERIV_unique [rotated])
    then show False by simp
  qed
  then have n: "\<not> (?p has_real_derivative
        - (EvaluateReferenceState new_ThermalBubbleCartesianTest ?phys 450 500 0 (\<lambda>_. 7) 4
             * GetG ?phys)) (at 450)"
    unfolding r .
  show ?thesis using d r n by (intro conjI)
qed

subsection \<open>A lower bound of \<open>\<pi>\<close>\<close>

text \<open>
  The test case carries its own constant \<open>3.14159265\<close> for \<open>\<pi>\<close>.  It is smaller than
  \<open>\<pi>\<close>: Machin's formula with eight terms of the series of \<open>arctan (1/5)\<close> and three
  terms of that of \<open>arctan (1/239)\<close>.
\<close>

lemma arctan_series_term_decreasing:
  fixes x :: real
  assumes "0 \<le> x" "x \<le> 1"
  shows "1 / real (Suc n * 2 + 1) * x ^ (Suc n * 2 + 1) \<le> 1 / real (n * 2 + 1) * x ^ (n * 2 + 1)"
proof -
  have "x ^ (Suc n * 2 + 1) \<le> x ^ (n * 2 + 1)"
    using assms by (intro power_decreasing) auto
  moreover have "1 / real (Suc n * 2 + 1) \<le> 1 / real (n * 2 + 1)"
    by (simp add: field_simps)
  ultimately show ?thesis
    using assms by (intro mult_mono) auto
qed

lemma arctan_lower:
  fixes x :: real
  assumes "0 \<le> x" "x \<le> 1"
  shows "(\<Sum>i<2*n. (-1)^i * (1 / real (i * 2 + 1) * x ^ (i * 2 + 1))) \<le> arctan x"
proof -
  have ab: "\<bar>x\<bar> \<le> 1" using assms by simp
  show ?thesis
    unfolding arctan_series [OF ab]
  proof (rule summable_Leibniz'(2) [OF zeroseq_arctan_series [OF ab]])
    show "0 \<le> 1 / real (n * 2 + 1) * x ^ (n * 2 + 1)" for n
      using assms by simp
    show "1 / real (Suc n * 2 + 1) * x ^ (Suc n * 2 + 1) \<le> 1 / real (n * 2 + 1) * x ^ (n * 2 + 1)" for n
      by (rule arctan_series_term_decreasing [OF assms])
  qed
qed

lemma arctan_upper:
  fixes x :: real
  assumes "0 \<le> x" "x \<le> 1"
  shows "arctan x \<le> (\<Sum>i<2*n+1. (-1)^i * (1 / real (i * 2 + 1) * x ^ (i * 2 + 1)))"
proof -
  have ab: "\<bar>x\<bar> \<le> 1" using assms by simp
  show ?thesis
    unfolding arctan_series [OF ab]
  proof (rule summable_Leibniz'(4) [OF zeroseq_arctan_series [OF ab]])
    show "0 \<le> 1 / real (n * 2 + 1) * x ^ (n * 2 + 1)" for n
      using assms by simp
    show "1 / real (Suc n * 2 + 1) * x ^ (Suc n * 2 + 1) \<le> 1 / real (n * 2 + 1) * x ^ (n * 2 + 1)" for n
      by (rule arctan_series_term_decreasing [OF assms])
  qed
qed

lemma pi_gt_314159265: "314159265 / 100000000 < pi"
proof -
  have l: "(\<Sum>i<2*4. (-1)^i * (1 / real (i * 2 + 1) * (1/5) ^ (i * 2 + 1))) \<le> arctan (1/5 :: real)"
    by (rule arctan_lower) auto
  have u: "arctan (1/239 :: real) \<le> (\<Sum>i<2*1+1. (-1)^i * (1 / real (i * 2 + 1) * (1/239) ^ (i * 2 + 1)))"
    by (rule arctan_upper) auto
  have "pi = 16 * arctan (1/5) - 4 * arctan (1/239)"
    using machin by simp
  with l u show ?thesis
    by (simp add: lessThan_Suc eval_nat_numeral)
qed

subsection \<open>Pointwise state and perturbation\<close>

lemma EvaluateTPrime_new:
  "EvaluateTPrime new_ThermalBubbleCartesianTest phys dXp dZp =
     (if sqrt ((dXp - 500) * (dXp - 500) + (dZp - 350) * (dZp - 350)) \<le> 250
      then 1 / 4 * (1 + cos (314159265 / 100000000 *
             sqrt ((dXp - 500) * (dXp - 500) + (dZp - 350) * (dZp - 350)) / 250))
      else 0)"
  by (simp add: EvaluateTPrime_def new_ThermalBubbleCartesianTest_def Let_def)

lemma EvaluatePointwiseState_components:
  "EvaluatePointwiseState test phys time z x y dState i =
     (if i = 2 then m_dThetaBar test + EvaluateTPrime test phys x z
      else EvaluateReferenceState test phys z x y dState i)"
  by (simp add: EvaluatePointwiseState_def EvaluateReferenceState_def Let_def)

text \<open>
  The pointwise state agrees with the reference state in every entry but \<open>\<theta>\<close> (entry 2),
  where it adds \<^verbatim>\<open>EvaluateTPrime\<close>; the perturbation lies in \<open>[0, \<theta>\<^sub>c]\<close>, is \<open>\<theta>\<^sub>c\<close> at the
  centre of the bubble and is zero at every point farther than \<open>r\<^sub>c\<close> from the centre.
\<close>

lemma EvaluatePointwiseState_perturbation:
  "(\<forall>i. i \<noteq> 2 \<longrightarrow>
       EvaluatePointwiseState new_ThermalBubbleCartesianTest phys time z x y dState i =
       EvaluateReferenceState new_ThermalBubbleCartesianTest phys z x y dState i) \<and>
   EvaluatePointwiseState new_ThermalBubbleCartesianTest phys time z x y dState 2 =
     EvaluateReferenceState new_ThermalBubbleCartesianTest phys z x y dState 2 +
     EvaluateTPrime new_ThermalBubbleCartesianTest phys x z \<and>
   0 \<le> EvaluateTPrime new_ThermalBubbleCartesianTest phys x z \<and>
   EvaluateTPrime new_ThermalBubbleCartesianTest phys x z
     \<le> m_dThetaC new_ThermalBubbleCartesianTest \<and>
   EvaluateTPrime new_ThermalBubbleCartesianTest phys
     (m_dxC new_ThermalBubbleCartesianTest) (m_dzC new_ThermalBubbleCartesianTest)
     = m_dThetaC new_ThermalBubbleCartesianTest \<and>
   (sqrt ((x - m_dxC new_ThermalBubbleCartesianTest)\<^sup>2 +
          (z - m_dzC new_ThermalBubbleCartesianTest)\<^sup>2) > m_drC new_ThermalBubbleCartesianTest
      \<longrightarrow> EvaluateTPrime new_ThermalBubbleCartesianTest phys x z = 0)"
proof -
  let ?c = "cos (314159265 / 100000000 * sqrt ((x - 500) * (x - 500) + (z - 350) * (z - 350)) / 250)"
  have c: "0 \<le> 1 + cos t" for t :: real
    using cos_ge_minus_one [of t] by linarith
  have b: "0 \<le> EvaluateTPrime new_ThermalBubbleCartesianTest phys x z"
       "EvaluateTPrime new_ThermalBubbleCartesianTest phys x z \<le> 1 / 2"
    using c by (simp_all add: EvaluateTPrime_new)
  have m: "m_dThetaC new_ThermalBubbleCartesianTest = 1 / 2"
       "m_dxC new_ThermalBubbleCartesianTest = 500"
       "m_dzC new_ThermalBubbleCartesianTest = 350"
       "m_drC new_ThermalBubbleCartesianTest = 250"
       "m_dThetaBar new_ThermalBubbleCartesianTest = 300"
    by (simp_all add: new_ThermalBubbleCartesianTest_def)
  have ctr: "EvaluateTPrime new_ThermalBubbleCartesianTest phys 500 350 = 1 / 2"
    by (simp add: EvaluateTPrime_new)
  have out: "sqrt ((x - 500)\<^sup>2 + (z - 350)\<^sup>2) > 250
      \<Longrightarrow> EvaluateTPrime new_ThermalBubbleCartesianTest phys x z = 0"
    by (simp add: EvaluateTPrime_new power2_eq_square)
  show ?thesis
    using b ctr out by (simp add: m EvaluatePointwiseState_components EvaluateReferenceState_def Let_def)
qed

text \<open>
  The value at distance exactly \<open>r\<^sub>c\<close> is outside what reals can decide for the code.
  \<^verbatim>\<open>m_dpiC\<close> is \<open>3.14159265\<close>, below \<open>\<pi>\<close>: over the reals \<open>cos 3.14159265 > - 1\<close>, the
  perturbation at the rim is \<open>(1 + cos 3.14159265) / 4 > 0\<close>, about \<open>1.6 \<times> 10\<^sup>-\<^sup>1\<^sup>8\<close>, and along
  \<open>z = 350\<close> the function of the model is not continuous at \<open>x = 750\<close>.  In double precision
  the cosine of \<open>3.14159265\<close> rounds to \<open>- 1\<close> and the value at the rim is \<open>0\<close>, so the
  continuity of C10 at the rim depends on the rounding, which the model does not have.
\<close>

lemma EvaluateTPrime_rim_real_arithmetic:
  "\<not> isCont (\<lambda>x. EvaluateTPrime new_ThermalBubbleCartesianTest
        \<lparr>GetG = 980616 / 100000, GetCv = 7175 / 10, GetCp = 10045 / 10, GetR = 287, GetP0 = 100000\<rparr>
        x 350) 750"
proof
  let ?phys = "\<lparr>GetG = 980616 / 100000, GetCv = 7175 / 10, GetCp = 10045 / 10, GetR = 287, GetP0 = 100000\<rparr>"
  let ?f = "\<lambda>x. EvaluateTPrime new_ThermalBubbleCartesianTest ?phys x 350"
  assume "isCont ?f 750"
  then have "(?f \<longlongrightarrow> ?f 750) (at_right 750)"
    by (simp add: isCont_def filterlim_at_split)
  moreover have "eventually (\<lambda>x. ?f x = 0) (at_right 750)"
    unfolding eventually_at_right_field
    by (rule exI [of _ 751]) (auto simp: EvaluateTPrime_new)
  then have "(?f \<longlongrightarrow> 0) (at_right 750)"
    by (rule tendsto_eventually)
  ultimately have "?f 750 = 0"
    using tendsto_unique trivial_limit_at_right_real by blast
  moreover have "cos (314159265 / 100000000) > cos pi"
    using pi_gt_314159265 by (intro cos_monotone_0_pi) auto
  then have "?f 750 > 0"
    by (simp add: EvaluateTPrime_new)
  ultimately show False by simp
qed

section \<open>PolynomialInterp\<close>

text \<open>
  Modelled from the spec: \<^verbatim>\<open>PolynomialInterp::LagrangianPolynomialCoeffs\<close> and
  \<^verbatim>\<open>PolynomialInterp::DiffLagrangianPolynomialCoeffs\<close>, which are not part of the sources at
  hand.  The spec describes them as the Lagrangian interpolation coefficients \<open>L\<^sub>i(x)\<close> at an
  arbitrary point given \<open>n\<close> sample points, and their derivative coefficients \<open>L\<^sub>i'(x)\<close>.
  The sample points are the \<open>n\<close> entries of an array starting at a given position, here a
  function from the offset to the value.
\<close>

definition LagrangianPolynomialCoeffs :: "nat \<Rightarrow> (nat \<Rightarrow> real) \<Rightarrow> real \<Rightarrow> nat \<Rightarrow> real" where
  "LagrangianPolynomialCoeffs nPoints dX dXsample i =
     (\<Prod>j\<in>{..<nPoints} - {i}. (dXsample - dX j) / (dX i - dX j))"

definition DiffLagrangianPolynomialCoeffs :: "nat \<Rightarrow> (nat \<Rightarrow> real) \<Rightarrow> real \<Rightarrow> nat \<Rightarrow> real" where
  "DiffLagrangianPolynomialCoeffs nPoints dX dXsample i =
     (\<Sum>m\<in>{..<nPoints} - {i}. 1 / (dX i - dX m) *
        (\<Prod>j\<in>{..<nPoints} - {i} - {m}. (dXsample - dX j) / (dX i - dX j)))"

definition nodal_weight :: "nat \<Rightarrow> (nat \<Rightarrow> real) \<Rightarrow> nat \<Rightarrow> real" where
  "nodal_weight n X i = (\<Prod>j\<in>{..<n} - {i}. X i - X j)"

definition nodal_poly :: "nat \<Rightarrow> (nat \<Rightarrow> real) \<Rightarrow> real \<Rightarrow> real" where
  "nodal_poly n X x = (\<Prod>j<n. x - X j)"

lemma nodal_weight_Suc:
  assumes "i < n"
  shows "nodal_weight (Suc n) X i = nodal_weight n X i * (X i - X n)"
proof -
  have "{..<Suc n} - {i} = insert n ({..<n} - {i})"
    using assms by auto
  then show ?thesis
    by (simp add: nodal_weight_def)
qed

lemma nodal_weight_last: "nodal_weight (Suc n) X n = nodal_poly n X (X n)"
proof -
  have "{..<Suc n} - {n} = {..<n}" by auto
  then show ?thesis by (simp add: nodal_weight_def nodal_poly_def)
qed

lemma nodal_weight_nonzero:
  assumes "inj_on X {..<n}" "i < n"
  shows "nodal_weight n X i \<noteq> 0"
  using assms by (auto simp: nodal_weight_def inj_on_def)

lemma nodal_poly_nonzero:
  assumes "\<forall>j<n. x \<noteq> X j"
  shows "nodal_poly n X x \<noteq> 0"
  using assms by (auto simp: nodal_poly_def)

lemma partial_fractions_split:
  fixes u v w :: real
  assumes "u \<noteq> 0" "v \<noteq> 0" "w \<noteq> 0" "u + v \<noteq> 0"
  shows "1 / (u * (w * v)) = (1 / (u * w) - 1 / ((- v) * w)) / (u + v)"
proof -
  have "1 / (u * w) - 1 / ((- v) * w) = (u + v) / (u * (w * v))"
    using assms(1-3) by (simp add: field_simps)
  then show ?thesis
    using assms(4) by simp
qed

lemma partial_fractions_join:
  fixes A B t :: real
  assumes "A \<noteq> 0" "B \<noteq> 0" "t \<noteq> 0"
  shows "(1 / A - 1 / B) / t + 1 / (t * B) = 1 / (A * t)"
  using assms by (simp add: field_simps)

lemma partial_fractions:
  assumes "inj_on X {..<n}" "\<forall>j<n. x \<noteq> X j" "0 < n"
  shows "(\<Sum>i<n. 1 / ((x - X i) * nodal_weight n X i)) = 1 / nodal_poly n X x"
  using assms
proof (induction n arbitrary: x)
  case 0
  then show ?case by simp
next
  case (Suc n)
  show ?case
  proof (cases "n = 0")
    case True
    then show ?thesis by (simp add: nodal_weight_def nodal_poly_def)
  next
    case False
    then have n: "0 < n" by simp
    have inj: "inj_on X {..<n}"
      using Suc.prems(1) by (rule inj_on_subset) auto
    have xn: "x \<noteq> X n" and xj: "\<forall>j<n. x \<noteq> X j"
      using Suc.prems(2) by auto
    have nj: "\<forall>j<n. X n \<noteq> X j"
      using inj_onD [OF Suc.prems(1), of n] by fastforce
    have ih1: "(\<Sum>i<n. 1 / ((x - X i) * nodal_weight n X i)) = 1 / nodal_poly n X x"
      using Suc.IH [OF inj xj n] .
    have ih2: "(\<Sum>i<n. 1 / ((X n - X i) * nodal_weight n X i)) = 1 / nodal_poly n X (X n)"
      using Suc.IH [OF inj nj n] .
    have split: "1 / ((x - X i) * nodal_weight (Suc n) X i)
        = (1 / ((x - X i) * nodal_weight n X i) - 1 / ((X n - X i) * nodal_weight n X i)) / (x - X n)"
      if "i < n" for i
    proof -
      have "x - X i \<noteq> 0" "X i - X n \<noteq> 0" "nodal_weight n X i \<noteq> 0"
        "(x - X i) + (X i - X n) \<noteq> 0"
        using that xj nj xn nodal_weight_nonzero [OF inj that] by auto
      from partial_fractions_split [OF this]
      show ?thesis
        by (simp add: nodal_weight_Suc [OF that])
    qed
    have "(\<Sum>i<n. 1 / ((x - X i) * nodal_weight (Suc n) X i))
        = (\<Sum>i<n. (1 / ((x - X i) * nodal_weight n X i)
                     - 1 / ((X n - X i) * nodal_weight n X i)) / (x - X n))"
      by (rule sum.cong) (use split in auto)
    also have "\<dots> = (1 / nodal_poly n X x - 1 / nodal_poly n X (X n)) / (x - X n)"
      by (simp only: sum_divide_distrib [symmetric] sum_subtractf ih1 ih2)
    finally have "(\<Sum>i<Suc n. 1 / ((x - X i) * nodal_weight (Suc n) X i))
        = (1 / nodal_poly n X x - 1 / nodal_poly n X (X n)) / (x - X n)
          + 1 / ((x - X n) * nodal_poly n X (X n))"
      by (simp add: nodal_weight_last)
    also have "\<dots> = 1 / (nodal_poly n X x * (x - X n))"
      using xn nodal_poly_nonzero [OF xj] nodal_poly_nonzero [OF nj]
      by (intro partial_fractions_join) auto
    finally show ?thesis
      by (simp add: nodal_poly_def)
  qed
qed

lemma Lagrangian_as_fraction:
  assumes "inj_on X {..<n}" "\<forall>j<n. x \<noteq> X j" "i < n"
  shows "LagrangianPolynomialCoeffs n X x i = nodal_poly n X x / ((x - X i) * nodal_weight n X i)"
proof -
  have fin: "finite ({..<n} - {i})" by simp
  have "nodal_poly n X x = (x - X i) * (\<Prod>j\<in>{..<n} - {i}. x - X j)"
    unfolding nodal_poly_def using assms(3)
    by (subst prod.remove [of _ i]) auto
  moreover have "LagrangianPolynomialCoeffs n X x i
      = (\<Prod>j\<in>{..<n} - {i}. x - X j) / nodal_weight n X i"
    by (simp add: LagrangianPolynomialCoeffs_def nodal_weight_def prod_dividef)
  moreover have "x \<noteq> X i" using assms by auto
  ultimately show ?thesis by simp
qed

lemma Lagrangian_at_node:
  assumes "inj_on X {..<n}" "k < n" "i < n"
  shows "LagrangianPolynomialCoeffs n X (X k) i = (if i = k then 1 else 0)"
proof (cases "i = k")
  case True
  have "(X k - X j) / (X k - X j) = 1" if "j \<in> {..<n} - {k}" for j
    using that assms by (auto simp: inj_on_def)
  then show ?thesis
    using True by (simp add: LagrangianPolynomialCoeffs_def)
next
  case False
  then have "k \<in> {..<n} - {i}" using assms by auto
  then have "(\<Prod>j\<in>{..<n} - {i}. (X k - X j) / (X i - X j)) = 0"
    by (intro prod_zero) auto
  then show ?thesis
    using False by (simp add: LagrangianPolynomialCoeffs_def)
qed

lemma LagrangianPolynomialCoeffs_sum:
  assumes "inj_on X {..<n}" "0 < n"
  shows "(\<Sum>i<n. LagrangianPolynomialCoeffs n X x i) = 1"
proof (cases "\<forall>j<n. x \<noteq> X j")
  case True
  have "(\<Sum>i<n. LagrangianPolynomialCoeffs n X x i)
      = (\<Sum>i<n. nodal_poly n X x * (1 / ((x - X i) * nodal_weight n X i)))"
    by (rule sum.cong) (simp_all add: Lagrangian_as_fraction [OF assms(1) True])
  also have "\<dots> = nodal_poly n X x * (1 / nodal_poly n X x)"
    by (simp only: sum_distrib_left [symmetric] partial_fractions [OF assms(1) True assms(2)])
  finally show ?thesis
    using nodal_poly_nonzero [OF True] by simp
next
  case False
  then obtain k where k: "k < n" "x = X k" by auto
  have "(\<Sum>i<n. LagrangianPolynomialCoeffs n X x i) = (\<Sum>i<n. if i = k then 1 else 0)"
    by (rule sum.cong) (simp_all add: k Lagrangian_at_node [OF assms(1) k(1)])
  also have "\<dots> = 1" using k(1) by simp
  finally show ?thesis .
qed

lemma LagrangianPolynomialCoeffs_has_derivative:
  "((\<lambda>x. LagrangianPolynomialCoeffs n X x i) has_real_derivative
      DiffLagrangianPolynomialCoeffs n X x i) (at x)"
proof -
  let ?S = "{..<n} - {i}"
  have "((\<lambda>x. \<Prod>j\<in>?S. (x - X j) / (X i - X j)) has_derivative
          (\<lambda>y. \<Sum>m\<in>?S. (y / (X i - X m)) * (\<Prod>j\<in>?S - {m}. (x - X j) / (X i - X j)))) (at x)"
    unfolding divide_inverse
    by (rule has_derivative_prod) (auto intro!: derivative_eq_intros)
  moreover have "(\<lambda>y. \<Sum>m\<in>?S. (y / (X i - X m)) * (\<Prod>j\<in>?S - {m}. (x - X j) / (X i - X j)))
      = (*) (DiffLagrangianPolynomialCoeffs n X x i)"
    by (rule ext) (simp add: DiffLagrangianPolynomialCoeffs_def sum_distrib_left mult_ac)
  ultimately have "((\<lambda>x. \<Prod>j\<in>?S. (x - X j) / (X i - X j)) has_derivative
          (*) (DiffLagrangianPolynomialCoeffs n X x i)) (at x)"
    by simp
  then show ?thesis
    by (simp add: has_field_derivative_def LagrangianPolynomialCoeffs_def [abs_def])
qed

lemma DiffLagrangianPolynomialCoeffs_sum:
  assumes "inj_on X {..<n}" "0 < n"
  shows "(\<Sum>i<n. DiffLagrangianPolynomialCoeffs n X x i) = 0"
proof -
  have "((\<lambda>x. \<Sum>i<n. LagrangianPolynomialCoeffs n X x i) has_real_derivative
          (\<Sum>i<n. DiffLagrangianPolynomialCoeffs n X x i)) (at x)"
    by (intro DERIV_sum LagrangianPolynomialCoeffs_has_derivative)
  moreover have "(\<lambda>x. \<Sum>i<n. LagrangianPolynomialCoeffs n X x i) = (\<lambda>x. 1)"
    by (rule ext) (rule LagrangianPolynomialCoeffs_sum [OF assms])
  ultimately have "((\<lambda>x::real. 1::real) has_real_derivative
          (\<Sum>i<n. DiffLagrangianPolynomialCoeffs n X x i)) (at x)"
    by simp
  then show ?thesis
    using DERIV_unique DERIV_const by blast
qed

section \<open>Linear column operators\<close>

text \<open>
  A column operator is a coefficient matrix \<open>m_dCoeff\<close> (output row, input column) with the
  support \<open>[m_iBegin l, m_iEnd l)\<close> of each row.  The arrays are functions of the index.

  Modelled from the spec: \<^verbatim>\<open>LinearColumnOperator::Initialize\<close> and
  \<^verbatim>\<open>LinearColumnOperator::ComposeWith\<close> of the base class, which are not part of the
  sources at hand.  \<open>Initialize\<close> allocates a zero matrix; the spec describes compositions as
  dense matrix products over the union of supports.
\<close>

record LinearColumnOperator =
  m_dCoeff :: "nat \<Rightarrow> nat \<Rightarrow> real"
  m_iBegin :: "nat \<Rightarrow> nat"
  m_iEnd :: "nat \<Rightarrow> nat"
  m_nRElementsIn :: nat
  m_nRElementsOut :: nat

definition LinearColumnOperator_Initialize :: "nat \<Rightarrow> nat \<Rightarrow> LinearColumnOperator" where
  "LinearColumnOperator_Initialize nRElementsIn nRElementsOut =
     \<lparr> m_dCoeff = (\<lambda>l k. 0), m_iBegin = (\<lambda>l. 0), m_iEnd = (\<lambda>l. 0),
       m_nRElementsIn = nRElementsIn, m_nRElementsOut = nRElementsOut \<rparr>"

definition ComposeWith :: "LinearColumnOperator \<Rightarrow> LinearColumnOperator \<Rightarrow> LinearColumnOperator" where
  "ComposeWith op opB =
     \<lparr> m_dCoeff = (\<lambda>l k. \<Sum>e<m_nRElementsIn op. m_dCoeff op l e * m_dCoeff opB e k),
       m_iBegin = (\<lambda>l. fold min (map (m_iBegin opB) [m_iBegin op l ..< m_iEnd op l])
                          (m_nRElementsIn opB)),
       m_iEnd = (\<lambda>l. fold max (map (m_iEnd opB) [m_iBegin op l ..< m_iEnd op l]) 0),
       m_nRElementsIn = m_nRElementsIn opB,
       m_nRElementsOut = m_nRElementsOut op \<rparr>"

datatype InterpSource = InterpSource_Levels | InterpSource_Interfaces

definition ParamEpsilon :: real where
  "ParamEpsilon = 1 / 10 ^ 12"

primrec FindElement :: "real list \<Rightarrow> nat \<Rightarrow> real \<Rightarrow> nat \<Rightarrow> nat \<Rightarrow> nat \<times> bool" where
  "FindElement dREta stride dREtaOut 0 a = (a, False)"
| "FindElement dREta stride dREtaOut (Suc n) a =
     (let dNextREtaREdgeIn = dREta ! ((a + 1) * stride) - ParamEpsilon in
      if dREtaOut < dNextREtaREdgeIn then (a, False)
      else if dREtaOut < dNextREtaREdgeIn + 2 * ParamEpsilon then (a, True)
      else FindElement dREta stride dREtaOut n (Suc a))"

definition subvector :: "real list \<Rightarrow> nat \<Rightarrow> nat \<Rightarrow> real" where
  "subvector v off j = v ! (off + j)"

definition put :: "(nat \<Rightarrow> real) \<Rightarrow> nat \<Rightarrow> nat \<Rightarrow> (nat \<Rightarrow> real) \<Rightarrow> nat \<Rightarrow> real" where
  "put row off n c = (\<lambda>k. if off \<le> k \<and> k < off + n then c (k - off) else row k)"

definition scale :: "(nat \<Rightarrow> real) \<Rightarrow> nat \<Rightarrow> nat \<Rightarrow> real \<Rightarrow> nat \<Rightarrow> real" where
  "scale row iBegin iEnd s = (\<lambda>k. if iBegin \<le> k \<and> k < iEnd then row k * s else row k)"

definition add :: "(nat \<Rightarrow> real) \<Rightarrow> nat \<Rightarrow> nat \<Rightarrow> real \<Rightarrow> (nat \<Rightarrow> real) \<Rightarrow> nat \<Rightarrow> real" where
  "add row off n s c = (\<lambda>k. if off \<le> k \<and> k < off + n then row k + s * c (k - off) else row k)"

definition InterpWeights :: "real list \<Rightarrow> nat \<Rightarrow> nat \<Rightarrow> nat \<Rightarrow> real \<times> real" where
  "InterpWeights dREta stride a nExponent =
     (let dDeltaREtaL = dREta ! ((a + 1) * stride) - dREta ! (a * stride);
          dDeltaREtaR = dREta ! ((a + 2) * stride) - dREta ! ((a + 1) * stride);
          dErrorL = dDeltaREtaL ^ nExponent;
          dErrorR = dDeltaREtaR ^ nExponent;
          dWeightL = dErrorR / (dErrorL + dErrorR);
          dWeightR = dErrorL / (dErrorL + dErrorR)
      in (dWeightL, dWeightR))"

definition LinearColumnInterpFEM_Row ::
  "InterpSource \<Rightarrow> nat \<Rightarrow> real list \<Rightarrow> real list \<Rightarrow> real list \<Rightarrow> nat \<Rightarrow>
     LinearColumnOperator \<Rightarrow> LinearColumnOperator" where
  "LinearColumnInterpFEM_Row eInterpSource nVerticalOrder dREtaNode dREtaREdge dREtaOut l op =
     (let nRElementsIn = length dREtaNode;
          nRElementsOut = length dREtaOut;
          nFiniteElementsIn = nRElementsIn div nVerticalOrder;
          (a, fOnREdge) =
             FindElement dREtaREdge nVerticalOrder (dREtaOut ! l) (nFiniteElementsIn - 1) 0
      in if eInterpSource = InterpSource_Interfaces then
           (if fOnREdge
            then op\<lparr>m_dCoeff := set2 (m_dCoeff op) l ((a + 1) * nVerticalOrder) 1\<rparr>
            else op\<lparr>m_dCoeff := (m_dCoeff op)(l :=
                        put (m_dCoeff op l) (a * nVerticalOrder) (nVerticalOrder + 1)
                          (LagrangianPolynomialCoeffs (nVerticalOrder + 1)
                             (subvector dREtaREdge (a * nVerticalOrder)) (dREtaOut ! l))),
                    m_iBegin := (m_iBegin op)(l := a * nVerticalOrder),
                    m_iEnd := (m_iEnd op)(l := (a + 1) * nVerticalOrder + 1)\<rparr>)
         else
           (let op =
              (if nVerticalOrder = 1 \<and> l = 0
               then op\<lparr>m_dCoeff := (m_dCoeff op)(l :=
                        put (m_dCoeff op l) (a * nVerticalOrder) (nVerticalOrder + 1)
                          (LagrangianPolynomialCoeffs (nVerticalOrder + 1)
                             (subvector dREtaNode (a * nVerticalOrder)) (dREtaOut ! l))),
                    m_iBegin := (m_iBegin op)(l := a * nVerticalOrder),
                    m_iEnd := (m_iEnd op)(l := (a + 2) * nVerticalOrder)\<rparr>
               else if nVerticalOrder = 1 \<and> l = nRElementsOut - 1
               then op\<lparr>m_dCoeff := (m_dCoeff op)(l :=
                        put (m_dCoeff op l) ((a - 1) * nVerticalOrder) (nVerticalOrder + 1)
                          (LagrangianPolynomialCoeffs (nVerticalOrder + 1)
                             (subvector dREtaNode ((a - 1) * nVerticalOrder)) (dREtaOut ! l))),
                    m_iBegin := (m_iBegin op)(l := (a - 1) * nVerticalOrder),
                    m_iEnd := (m_iEnd op)(l := (a + 1) * nVerticalOrder)\<rparr>
               else op\<lparr>m_dCoeff := (m_dCoeff op)(l :=
                        put (m_dCoeff op l) (a * nVerticalOrder) nVerticalOrder
                          (LagrangianPolynomialCoeffs nVerticalOrder
                             (subvector dREtaNode (a * nVerticalOrder)) (dREtaOut ! l))),
                    m_iBegin := (m_iBegin op)(l := a * nVerticalOrder),
                    m_iEnd := (m_iEnd op)(l := (a + 1) * nVerticalOrder)\<rparr>)
            in if fOnREdge then
                 (let (dWeightL, dWeightR) =
                        InterpWeights dREtaREdge nVerticalOrder a nVerticalOrder;
                      row = put (m_dCoeff op l) (m_iEnd op l) nVerticalOrder
                              (LagrangianPolynomialCoeffs nVerticalOrder
                                 (subvector dREtaNode ((a + 1) * nVerticalOrder)) (dREtaOut ! l));
                      row = scale row (m_iBegin op l) (m_iEnd op l) dWeightL;
                      iNewEnd = m_iEnd op l + nVerticalOrder;
                      row = scale row (m_iEnd op l) iNewEnd dWeightR
                  in op\<lparr>m_dCoeff := (m_dCoeff op)(l := row),
                        m_iEnd := (m_iEnd op)(l := iNewEnd)\<rparr>)
               else op))"

definition LinearColumnInterpFEM_Initialize ::
  "InterpSource \<Rightarrow> nat \<Rightarrow> real list \<Rightarrow> real list \<Rightarrow> real list \<Rightarrow> bool \<Rightarrow>
     exception + LinearColumnOperator" where
  "LinearColumnInterpFEM_Initialize eInterpSource nVerticalOrder dREtaNode dREtaREdge dREtaOut
       fZeroBoundaries =
     (let nRElementsIn = length dREtaNode;
          nRElementsOut = length dREtaOut
      in if nRElementsIn = 0
         then Inl (ExceptionT ''At least one row required for dREtaNode'')
         else if length dREtaREdge \<noteq> nRElementsIn + 1
         then Inl (ExceptionT ''REtaNode / REtaREdge mismatch'')
         else if nRElementsIn mod nVerticalOrder \<noteq> 0
         then Inl (ExceptionT ''Column RElements / VerticalOrder mismatch'')
         else
           (let op = (if eInterpSource = InterpSource_Interfaces
                      then LinearColumnOperator_Initialize (nRElementsIn + 1) nRElementsOut
                      else LinearColumnOperator_Initialize nRElementsIn nRElementsOut);
                lBegin = (if fZeroBoundaries \<and> \<bar>dREtaOut ! 0\<bar> < ParamEpsilon then 1 else 0);
                lEnd = (if fZeroBoundaries \<and>
                           \<bar>dREtaOut ! (length dREtaOut - 1) - 1\<bar> < ParamEpsilon
                        then nRElementsOut - 1 else nRElementsOut)
            in Inr (fold (LinearColumnInterpFEM_Row eInterpSource nVerticalOrder
                            dREtaNode dREtaREdge dREtaOut) [lBegin ..< lEnd] op)))"

definition InitializeInterfaceMethod_Row ::
  "nat \<Rightarrow> real list \<Rightarrow> real list \<Rightarrow> real list \<Rightarrow> nat \<Rightarrow>
     LinearColumnOperator \<Rightarrow> LinearColumnOperator" where
  "InitializeInterfaceMethod_Row nVerticalOrder dREtaNode dREtaREdge dREtaOut l op =
     (let nRElementsIn = length dREtaNode;
          nFiniteElements = nRElementsIn div nVerticalOrder;
          (a, fOnREdge) =
             FindElement dREtaREdge nVerticalOrder (dREtaOut ! l) (nFiniteElements - 1) 0;
          op = op\<lparr>m_dCoeff := (m_dCoeff op)(l :=
                 put (m_dCoeff op l) (a * nVerticalOrder) (nVerticalOrder + 1)
                   (DiffLagrangianPolynomialCoeffs (nVerticalOrder + 1)
                      (subvector dREtaREdge (a * nVerticalOrder)) (dREtaOut ! l)))\<rparr>;
          op = (if \<not> fOnREdge
                then op\<lparr>m_iBegin := (m_iBegin op)(l := a * nVerticalOrder),
                         m_iEnd := (m_iEnd op)(l := (a + 1) * nVerticalOrder + 1)\<rparr>
                else op)
      in if fOnREdge then
           (let (dWeightL, dWeightR) = InterpWeights dREtaREdge nVerticalOrder a nVerticalOrder;
                dTempCoeff = DiffLagrangianPolynomialCoeffs (nVerticalOrder + 1)
                               (subvector dREtaREdge ((a + 1) * nVerticalOrder)) (dREtaOut ! l);
                row = scale (m_dCoeff op l) (a * nVerticalOrder)
                        (a * nVerticalOrder + nVerticalOrder + 1) dWeightL;
                row = add row ((a + 1) * nVerticalOrder) (nVerticalOrder + 1) dWeightR dTempCoeff
            in op\<lparr>m_dCoeff := (m_dCoeff op)(l := row),
                  m_iBegin := (m_iBegin op)(l := a * nVerticalOrder),
                  m_iEnd := (m_iEnd op)(l := (a + 2) * nVerticalOrder + 1)\<rparr>)
         else op)"

definition InitializeInterfaceMethod ::
  "InterpSource \<Rightarrow> nat \<Rightarrow> real list \<Rightarrow> real list \<Rightarrow> real list \<Rightarrow> bool \<Rightarrow>
     exception + LinearColumnOperator" where
  "InitializeInterfaceMethod eInterpSource nVerticalOrder dREtaNode dREtaREdge dREtaOut
       fZeroBoundaries =
     (let nRElementsIn = length dREtaNode;
          nRElementsOut = length dREtaOut
      in if nRElementsIn = 0
         then Inl (ExceptionT ''At least one row required for dREtaNode'')
         else if length dREtaREdge \<noteq> nRElementsIn + 1
         then Inl (ExceptionT ''REtaNode / REtaREdge mismatch'')
         else if nRElementsIn mod nVerticalOrder \<noteq> 0
         then Inl (ExceptionT ''Column RElements / VerticalOrder mismatch'')
         else
           (let op = LinearColumnOperator_Initialize (nRElementsIn + 1) nRElementsOut;
                op = fold (InitializeInterfaceMethod_Row nVerticalOrder
                             dREtaNode dREtaREdge dREtaOut) [0 ..< nRElementsOut] op
            in if eInterpSource = InterpSource_Levels
               then (case LinearColumnInterpFEM_Initialize InterpSource_Levels nVerticalOrder
                            dREtaNode dREtaREdge dREtaREdge fZeroBoundaries of
                       Inl e \<Rightarrow> Inl e
                     | Inr opInterp \<Rightarrow> Inr (ComposeWith op opInterp))
               else Inr op))"

text \<open>
  The row the spec describes at an internal finite-element interface: the two one-sided
  coefficient vectors, each placed at the columns of its element, averaged with the weights
  \<open>w\<^sub>L = \<Delta>R\<^sup>p / (\<Delta>L\<^sup>p + \<Delta>R\<^sup>p)\<close> and \<open>w\<^sub>R = \<Delta>L\<^sup>p / (\<Delta>L\<^sup>p + \<Delta>R\<^sup>p)\<close>.
\<close>

definition window :: "nat \<Rightarrow> nat \<Rightarrow> (nat \<Rightarrow> real) \<Rightarrow> nat \<Rightarrow> real" where
  "window off n c = put (\<lambda>k. 0) off n c"

definition WeightedOneSidedRow ::
  "(nat \<Rightarrow> (nat \<Rightarrow> real) \<Rightarrow> real \<Rightarrow> nat \<Rightarrow> real) \<Rightarrow> nat \<Rightarrow> real list \<Rightarrow>
     nat \<Rightarrow> real list \<Rightarrow> nat \<Rightarrow> real \<Rightarrow> nat \<Rightarrow> real" where
  "WeightedOneSidedRow coeffs nPoints dREtaIn nVerticalOrder dREtaREdge a dREtaOut =
     (let dDeltaL = dREtaREdge ! ((a + 1) * nVerticalOrder) - dREtaREdge ! (a * nVerticalOrder);
          dDeltaR = dREtaREdge ! ((a + 2) * nVerticalOrder)
                      - dREtaREdge ! ((a + 1) * nVerticalOrder);
          wL = dDeltaR ^ nVerticalOrder / (dDeltaL ^ nVerticalOrder + dDeltaR ^ nVerticalOrder);
          wR = dDeltaL ^ nVerticalOrder / (dDeltaL ^ nVerticalOrder + dDeltaR ^ nVerticalOrder)
      in (\<lambda>k. wL * window (a * nVerticalOrder) nPoints
                       (coeffs nPoints (subvector dREtaIn (a * nVerticalOrder)) dREtaOut) k
             + wR * window ((a + 1) * nVerticalOrder) nPoints
                       (coeffs nPoints (subvector dREtaIn ((a + 1) * nVerticalOrder)) dREtaOut) k))"

subsection \<open>LinearColumnDiffFEM::InitializeFluxCorrectionMethod\<close>

text \<open>
  \<^verbatim>\<open>FluxCorrectionFunction::GetDerivatives\<close> is not part of the sources at hand.  The operator
  takes it as a parameter: a function of the type of the flux-correction function, its order
  and the point in \<open>[0, 1]\<close>, returning the derivative there.  The exception raised inside
  the loop over the rows ends the loop.
\<close>

definition divide_row :: "(nat \<Rightarrow> real) \<Rightarrow> nat \<Rightarrow> nat \<Rightarrow> real \<Rightarrow> nat \<Rightarrow> real" where
  "divide_row row iBegin iEnd s = (\<lambda>k. if iBegin \<le> k \<and> k < iEnd then row k / s else row k)"

primrec for_rows ::
  "(nat \<Rightarrow> 'a \<Rightarrow> exception + 'a) \<Rightarrow> nat list \<Rightarrow> 'a \<Rightarrow> exception + 'a" where
  "for_rows f [] s = Inr s"
| "for_rows f (l # ls) s = (case f l s of Inl e \<Rightarrow> Inl e | Inr s' \<Rightarrow> for_rows f ls s')"

definition ParamFluxCorrectionType :: nat where
  "ParamFluxCorrectionType = 2"

definition InitializeFluxCorrectionMethod_Row ::
  "(nat \<Rightarrow> nat \<Rightarrow> real \<Rightarrow> real) \<Rightarrow> nat \<Rightarrow> real list \<Rightarrow> real list \<Rightarrow> real list \<Rightarrow> bool \<Rightarrow>
     nat \<Rightarrow> LinearColumnOperator \<Rightarrow> exception + LinearColumnOperator" where
  "InitializeFluxCorrectionMethod_Row GetDerivatives nVerticalOrder dREtaNode dREtaREdge dREtaOut
       fZeroBoundaries l op =
     (let nRElementsIn = length dREtaNode;
          nFiniteElements = nRElementsIn div nVerticalOrder;
          (a, fOnREdge) =
             FindElement dREtaREdge nVerticalOrder (dREtaOut ! l) (nFiniteElements - 1) 0
      in if dREtaOut ! l < dREtaREdge ! 0 \<or> dREtaOut ! l > dREtaREdge ! nRElementsIn
         then Inl (ExceptionT ''REta out of range'')
         else
           (let dDeltaREta = dREtaREdge ! ((a + 1) * nVerticalOrder)
                               - dREtaREdge ! (a * nVerticalOrder);
                row = put (m_dCoeff op l) (a * nVerticalOrder) nVerticalOrder
                        (DiffLagrangianPolynomialCoeffs nVerticalOrder
                           (subvector dREtaNode (a * nVerticalOrder)) (dREtaOut ! l));
                row = (if fOnREdge
                       then scale
                              (put row ((a + 1) * nVerticalOrder) nVerticalOrder
                                 (DiffLagrangianPolynomialCoeffs nVerticalOrder
                                    (subvector dREtaNode ((a + 1) * nVerticalOrder)) (dREtaOut ! l)))
                              0 nRElementsIn (0.5 * dDeltaREta)
                       else scale row 0 nRElementsIn dDeltaREta);
                dNodesR = (dREtaOut ! l - dREtaREdge ! (a * nVerticalOrder)) / dDeltaREta;
                dNodesL = 1 - dNodesR;
                dDerivR = GetDerivatives ParamFluxCorrectionType (nVerticalOrder + 1) dNodesR;
                dDerivL = GetDerivatives ParamFluxCorrectionType (nVerticalOrder + 1) dNodesL;
                dDerivL = dDerivL * (- 1);
                dTempCoeffLR = LagrangianPolynomialCoeffs nVerticalOrder
                                 (subvector dREtaNode (a * nVerticalOrder))
                                 (dREtaREdge ! (a * nVerticalOrder));
                dTempCoeffRL = LagrangianPolynomialCoeffs nVerticalOrder
                                 (subvector dREtaNode (a * nVerticalOrder))
                                 (dREtaREdge ! ((a + 1) * nVerticalOrder));
                dTempCoeffLL = (if a \<noteq> 0
                                then LagrangianPolynomialCoeffs nVerticalOrder
                                       (subvector dREtaNode ((a - 1) * nVerticalOrder))
                                       (dREtaREdge ! (a * nVerticalOrder))
                                else (\<lambda>k. 0));
                dTempCoeffRR = (if a \<noteq> nFiniteElements - 1
                                then LagrangianPolynomialCoeffs nVerticalOrder
                                       (subvector dREtaNode ((a + 1) * nVerticalOrder))
                                       (dREtaREdge ! ((a + 1) * nVerticalOrder))
                                else (\<lambda>k. 0));
                row = (if a \<noteq> 0 then
                         (let row = (if \<not> fOnREdge
                                     then add row ((a - 1) * nVerticalOrder) nVerticalOrder
                                            (0.5 * dDerivL) dTempCoeffLL
                                     else row)
                          in add row (a * nVerticalOrder) nVerticalOrder
                               (- (0.5 * dDerivL)) dTempCoeffLR)
                       else if \<not> fZeroBoundaries \<and> nFiniteElements \<noteq> 1 then
                         add (add row (a * nVerticalOrder) nVerticalOrder
                                (0.5 * dDerivL) dTempCoeffRL)
                           ((a + 1) * nVerticalOrder) nVerticalOrder
                           (- (0.5 * dDerivL)) dTempCoeffRR
                       else row);
                row = (if a \<noteq> nFiniteElements - 1 then
                         add (add row ((a + 1) * nVerticalOrder) nVerticalOrder
                                (0.5 * dDerivR) dTempCoeffRR)
                           (a * nVerticalOrder) nVerticalOrder
                           (- (0.5 * dDerivR)) dTempCoeffRL
                       else if \<not> fZeroBoundaries \<and> nFiniteElements \<noteq> 1 then
                         add (add row (a * nVerticalOrder) nVerticalOrder
                                (0.5 * dDerivR) dTempCoeffLR)
                           ((a - 1) * nVerticalOrder) nVerticalOrder
                           (- (0.5 * dDerivR)) dTempCoeffLL
                       else row);
                row = divide_row row 0 nRElementsIn dDeltaREta
            in Inr (op\<lparr>m_dCoeff := (m_dCoeff op)(l := row),
                       m_iBegin := (m_iBegin op)(l :=
                          (if a \<noteq> 0 then (a - 1) * nVerticalOrder else a * nVerticalOrder)),
                       m_iEnd := (m_iEnd op)(l :=
                          (if a \<noteq> nFiniteElements - 1 then (a + 2) * nVerticalOrder
                           else (a + 1) * nVerticalOrder))\<rparr>)))"

definition InitializeFluxCorrectionMethod ::
  "(nat \<Rightarrow> nat \<Rightarrow> real \<Rightarrow> real) \<Rightarrow> InterpSource \<Rightarrow> nat \<Rightarrow> real list \<Rightarrow> real list \<Rightarrow> real list \<Rightarrow>
     bool \<Rightarrow> exception + LinearColumnOperator" where
  "InitializeFluxCorrectionMethod GetDerivatives eInterpSource nVerticalOrder dREtaNode dREtaREdge
       dREtaOut fZeroBoundaries =
     (let nRElementsIn = length dREtaNode;
          nRElementsOut = length dREtaOut
      in if nRElementsIn = 0
         then Inl (ExceptionT ''At least one row required for dREtaNode'')
         else if length dREtaREdge \<noteq> nRElementsIn + 1
         then Inl (ExceptionT ''REtaNode / REtaREdge mismatch'')
         else if nRElementsIn mod nVerticalOrder \<noteq> 0
         then Inl (ExceptionT ''Column RElements / VerticalOrder mismatch'')
         else
           (let op = (if eInterpSource = InterpSource_Interfaces
                      then LinearColumnOperator_Initialize (nRElementsIn + 1) nRElementsOut
                      else LinearColumnOperator_Initialize nRElementsIn nRElementsOut)
            in for_rows (InitializeFluxCorrectionMethod_Row GetDerivatives nVerticalOrder
                           dREtaNode dREtaREdge dREtaOut fZeroBoundaries)
                 [0 ..< nRElementsOut] op))"

text \<open>
  The row of the flux-correction operator in closed form, following the spec: the local
  derivative times the element width, plus the corrections at the left and right edge of the
  element, divided by the element width.  \<open>U b e\<close> is the interpolant of element \<open>b\<close> to the
  interface \<open>e\<close>.  The flag says whether the one-sided correction is added in an element that
  touches the boundary of the domain.
\<close>

definition FluxCorrectionRow ::
  "(nat \<Rightarrow> nat \<Rightarrow> real \<Rightarrow> real) \<Rightarrow> nat \<Rightarrow> real list \<Rightarrow> real list \<Rightarrow> bool \<Rightarrow> nat \<Rightarrow> bool \<Rightarrow>
     real \<Rightarrow> nat \<Rightarrow> real" where
  "FluxCorrectionRow GetDerivatives p dREtaNode dREtaREdge fBoundaryCorrection a fOnREdge x =
     (let nFiniteElements = length dREtaNode div p;
          dDelta = dREtaREdge ! ((a + 1) * p) - dREtaREdge ! (a * p);
          dXiR = (x - dREtaREdge ! (a * p)) / dDelta;
          dXiL = 1 - dXiR;
          gR = GetDerivatives 2 (p + 1) dXiR;
          gL = - GetDerivatives 2 (p + 1) dXiL;
          D = (\<lambda>b. window (b * p) p
                 (DiffLagrangianPolynomialCoeffs p (subvector dREtaNode (b * p)) x));
          U = (\<lambda>b e. window (b * p) p
                 (LagrangianPolynomialCoeffs p (subvector dREtaNode (b * p)) (dREtaREdge ! (e * p))));
          local = (\<lambda>k. if fOnREdge then (D a k + D (a + 1) k) * (0.5 * dDelta)
                       else D a k * dDelta);
          left = (\<lambda>k. if a \<noteq> 0
                        then (if fOnREdge then 0 else 0.5 * gL * U (a - 1) a k) - 0.5 * gL * U a a k
                      else if fBoundaryCorrection
                        then 0.5 * gL * U a (a + 1) k - 0.5 * gL * U (a + 1) (a + 1) k
                      else 0);
          right = (\<lambda>k. if a \<noteq> nFiniteElements - 1
                         then 0.5 * gR * U (a + 1) (a + 1) k - 0.5 * gR * U a (a + 1) k
                       else if fBoundaryCorrection
                         then 0.5 * gR * U a a k - 0.5 * gR * U (a - 1) a k
                       else 0)
      in (\<lambda>k. (local k + left k + right k) / dDelta))"

subsection \<open>LinearColumnDiffDiffFEM::InitializeGLLNodes\<close>

text \<open>
  \<^verbatim>\<open>GaussLobattoQuadrature::GetPoints\<close> is not part of the sources at hand.  The operator
  takes it as a parameter: a function of the order and the two ends of the interval, returning
  the quadrature points and weights.
\<close>

definition sub2 :: "LinearColumnOperator \<Rightarrow> nat \<Rightarrow> nat \<Rightarrow> real \<Rightarrow> LinearColumnOperator" where
  "sub2 op l k x = op\<lparr>m_dCoeff := set2 (m_dCoeff op) l k (m_dCoeff op l k - x)\<rparr>"

definition LinearColumnDiffDiffFEM_InitializeGLLNodes_Node ::
  "nat \<Rightarrow> nat \<Rightarrow> nat \<Rightarrow> (nat \<Rightarrow> nat \<Rightarrow> real) \<Rightarrow> (nat \<Rightarrow> real) \<Rightarrow> nat \<Rightarrow>
     LinearColumnOperator \<Rightarrow> LinearColumnOperator" where
  "LinearColumnDiffDiffFEM_InitializeGLLNodes_Node nVerticalOrder nFiniteElements a
       dLocalDiffCoeff dW j op =
     (let jx = j + a * (nVerticalOrder - 1);
          dWlocal = dW j;
          dWlocal = (if j = 0 \<and> a \<noteq> 0 then dWlocal * 2 else dWlocal);
          dWlocal = (if j = nVerticalOrder - 1 \<and> a \<noteq> nFiniteElements - 1
                     then dWlocal * 2 else dWlocal)
      in fold (\<lambda>i. let ix = i + a * (nVerticalOrder - 1)
                   in fold (\<lambda>s op. sub2 op jx ix
                              (dLocalDiffCoeff s j * dLocalDiffCoeff s i * dW s / dWlocal))
                        [0 ..< nVerticalOrder])
           [0 ..< nVerticalOrder] op)"

definition LinearColumnDiffDiffFEM_InitializeGLLNodes_Element ::
  "(nat \<Rightarrow> real \<Rightarrow> real \<Rightarrow> (nat \<Rightarrow> real) \<times> (nat \<Rightarrow> real)) \<Rightarrow> nat \<Rightarrow> real list \<Rightarrow> nat \<Rightarrow>
     LinearColumnOperator \<Rightarrow> LinearColumnOperator" where
  "LinearColumnDiffDiffFEM_InitializeGLLNodes_Element GetPoints nVerticalOrder dREtaNode a op =
     (let nRElementsIn = length dREtaNode;
          nRElementsOut = length dREtaNode;
          nFiniteElements = (nRElementsIn - 1) div (nVerticalOrder - 1);
          (dG, dW) = GetPoints nVerticalOrder
                       (dREtaNode ! (a * (nVerticalOrder - 1)))
                       (dREtaNode ! ((a + 1) * (nVerticalOrder - 1)));
          dLocalDiffCoeff = (\<lambda>i. DiffLagrangianPolynomialCoeffs nVerticalOrder
                                   (subvector dREtaNode (a * (nVerticalOrder - 1))) (dG i));
          op = fold (LinearColumnDiffDiffFEM_InitializeGLLNodes_Node nVerticalOrder
                       nFiniteElements a dLocalDiffCoeff dW) [0 ..< nVerticalOrder] op;
          op = (if a = 0
                then fold (\<lambda>i op. sub2 op 0 i (dLocalDiffCoeff 0 i / dW 0))
                       [0 ..< nVerticalOrder] op
                else op);
          op = (if a = nFiniteElements - 1
                then fold (\<lambda>i op. sub2 op (nRElementsOut - 1) (a * (nVerticalOrder - 1) + i)
                                     (- (dLocalDiffCoeff (nVerticalOrder - 1) i
                                           / dW (nVerticalOrder - 1))))
                       [0 ..< nVerticalOrder] op
                else op)
      in op)"

definition LinearColumnDiffDiffFEM_InitializeGLLNodes ::
  "(nat \<Rightarrow> real \<Rightarrow> real \<Rightarrow> (nat \<Rightarrow> real) \<times> (nat \<Rightarrow> real)) \<Rightarrow> nat \<Rightarrow> real list \<Rightarrow>
     exception + LinearColumnOperator" where
  "LinearColumnDiffDiffFEM_InitializeGLLNodes GetPoints nVerticalOrder dREtaNode =
     (let nRElementsIn = length dREtaNode;
          nRElementsOut = length dREtaNode;
          nFiniteElements = (nRElementsIn - 1) div (nVerticalOrder - 1)
      in if nRElementsIn = 0
         then Inl (ExceptionT ''At least one row required for dREtaNode'')
         else if (nRElementsIn - 1) mod (nVerticalOrder - 1) \<noteq> 0
         then Inl (ExceptionT ''Column (RElements-1) / (VerticalOrder-1) mismatch'')
         else Inr (fold (LinearColumnDiffDiffFEM_InitializeGLLNodes_Element GetPoints
                           nVerticalOrder dREtaNode)
                     [0 ..< nFiniteElements]
                     (LinearColumnOperator_Initialize nRElementsIn nRElementsOut)))"


subsection \<open>Applying an operator to a constant column\<close>

text \<open>
  The value of an operator on the column that is 1 everywhere is, in each output row, the sum
  of the coefficients of the row over the input columns.
\<close>

definition RowSum :: "LinearColumnOperator \<Rightarrow> nat \<Rightarrow> real" where
  "RowSum op l = (\<Sum>k<m_nRElementsIn op. m_dCoeff op l k)"


subsection \<open>Rows of the assembled operators\<close>

lemma fold_rows_other:
  assumes "\<And>l op l'. l' \<noteq> l \<Longrightarrow> m_dCoeff (f l op) l' = m_dCoeff op l'"
    and "l \<notin> set ls"
  shows "m_dCoeff (fold f ls op) l = m_dCoeff op l"
  using assms(2)
proof (induction ls arbitrary: op)
  case Nil
  then show ?case by simp
next
  case (Cons y ys)
  then show ?case using assms(1) [of l y] by simp
qed

lemma fold_rows:
  assumes other: "\<And>l op l'. l' \<noteq> l \<Longrightarrow> m_dCoeff (f l op) l' = m_dCoeff op l'"
    and row: "\<And>op. m_dCoeff (f l op) l = R (m_dCoeff op l)"
    and "distinct ls" and "l \<in> set ls"
  shows "m_dCoeff (fold f ls op) l = R (m_dCoeff op l)"
  using assms(3,4)
proof (induction ls arbitrary: op)
  case Nil
  then show ?case by simp
next
  case (Cons y ys)
  show ?case
  proof (cases "y = l")
    case True
    then have "l \<notin> set ys" using Cons.prems by simp
    then have "m_dCoeff (fold f ys (f l op)) l = m_dCoeff (f l op) l"
      using fold_rows_other [where f = f and l = l and ls = ys and op = "f l op"] other
      by blast
    then show ?thesis using True row by simp
  next
    case False
    then have "m_dCoeff (fold f ys (f y op)) l = R (m_dCoeff (f y op) l)"
      using Cons by simp
    then show ?thesis using other [of l y op] False by simp
  qed
qed

lemma Interp_Row_other:
  "l' \<noteq> l \<Longrightarrow>
   m_dCoeff (LinearColumnInterpFEM_Row src p dREtaNode dREtaREdge dREtaOut l op) l' = m_dCoeff op l'"
  by (simp add: LinearColumnInterpFEM_Row_def Let_def split_beta set2_def)

lemma Interface_Row_other:
  "l' \<noteq> l \<Longrightarrow>
   m_dCoeff (InitializeInterfaceMethod_Row p dREtaNode dREtaREdge dREtaOut l op) l' = m_dCoeff op l'"
  by (simp add: InitializeInterfaceMethod_Row_def Let_def split_beta)

lemma Interp_Row_on_edge:
  assumes "FindElement dREtaREdge p (dREtaOut ! l) (length dREtaNode div p - 1) 0 = (a, True)"
    and "\<not> (p = 1 \<and> (l = 0 \<or> l = length dREtaOut - 1))"
    and "m_dCoeff op l = (\<lambda>k. 0)"
  shows "m_dCoeff (LinearColumnInterpFEM_Row InterpSource_Levels p dREtaNode dREtaREdge dREtaOut l op) l
     = WeightedOneSidedRow LagrangianPolynomialCoeffs p dREtaNode p dREtaREdge a (dREtaOut ! l)"
  using assms
  by (auto simp: LinearColumnInterpFEM_Row_def Let_def WeightedOneSidedRow_def InterpWeights_def
        window_def put_def scale_def fun_eq_iff)

lemma Interface_Row_on_edge:
  assumes "FindElement dREtaREdge p (dREtaOut ! l) (length dREtaNode div p - 1) 0 = (a, True)"
    and "m_dCoeff op l = (\<lambda>k. 0)"
  shows "m_dCoeff (InitializeInterfaceMethod_Row p dREtaNode dREtaREdge dREtaOut l op) l
     = WeightedOneSidedRow DiffLagrangianPolynomialCoeffs (p + 1) dREtaREdge p dREtaREdge a
         (dREtaOut ! l)"
  using assms
  by (auto simp: InitializeInterfaceMethod_Row_def Let_def WeightedOneSidedRow_def InterpWeights_def
        window_def put_def scale_def add_def fun_eq_iff algebra_simps)

lemma FindElement_on_edge_iff:
  "FindElement dREta stride x n a0 = (a, True) \<longleftrightarrow>
     a0 \<le> a \<and> a < a0 + n \<and>
     dREta ! ((a + 1) * stride) - ParamEpsilon \<le> x \<and>
     x < dREta ! ((a + 1) * stride) + ParamEpsilon \<and>
     (\<forall>a'. a0 \<le> a' \<and> a' < a \<longrightarrow> dREta ! ((a' + 1) * stride) + ParamEpsilon \<le> x)"
  (is "?L n a0 \<longleftrightarrow> ?R n a0")
proof (induction n arbitrary: a0)
  case 0
  then show ?case by auto
next
  case (Suc n)
  let ?e = "\<lambda>a. dREta ! ((a + 1) * stride)"
  show ?case
  proof (cases "x < ?e a0 + ParamEpsilon")
    case True
    have L: "?L (Suc n) a0 \<longleftrightarrow> a = a0 \<and> ?e a0 - ParamEpsilon \<le> x"
      using True by (auto simp: Let_def)
    have R: "?R (Suc n) a0 \<longleftrightarrow> a = a0 \<and> ?e a0 - ParamEpsilon \<le> x"
    proof
      assume r: "?R (Suc n) a0"
      have "a = a0"
      proof (rule ccontr)
        assume "a \<noteq> a0"
        then have "a0 < a" using r by simp
        then have "?e a0 + ParamEpsilon \<le> x" using r by blast
        then show False using True by simp
      qed
      then show "a = a0 \<and> ?e a0 - ParamEpsilon \<le> x" using r by simp
    next
      assume "a = a0 \<and> ?e a0 - ParamEpsilon \<le> x"
      then show "?R (Suc n) a0" using True by simp
    qed
    show ?thesis unfolding L R ..
  next
    case False
    then have ge: "?e a0 + ParamEpsilon \<le> x" by simp
    have eps: "0 < ParamEpsilon" by (simp add: ParamEpsilon_def)
    have L: "?L (Suc n) a0 \<longleftrightarrow> ?L n (Suc a0)"
      using ge eps by (simp add: Let_def)
    have R: "?R (Suc n) a0 \<longleftrightarrow> ?R n (Suc a0)"
    proof
      assume r: "?R (Suc n) a0"
      have "a \<noteq> a0" using r ge by auto
      then have "Suc a0 \<le> a" using r by simp
      then show "?R n (Suc a0)" using r by auto
    next
      assume r: "?R n (Suc a0)"
      have "?e a' + ParamEpsilon \<le> x" if "a0 \<le> a' \<and> a' < a" for a'
      proof (cases "a' = a0")
        case True
        then show ?thesis using ge by simp
      next
        case False
        then have "Suc a0 \<le> a'" using that by simp
        then show ?thesis using r that by blast
      qed
      then show "?R (Suc n) a0" using r by simp
    qed
    show ?thesis unfolding L R by (rule Suc.IH)
  qed
qed

lemma fold_row_once:
  assumes other: "\<And>l op l'. l' \<noteq> l \<Longrightarrow> m_dCoeff (f l op) l' = m_dCoeff op l'"
    and row: "\<And>op'. m_dCoeff op' l = m_dCoeff op l \<Longrightarrow> m_dCoeff (f l op') l = r"
    and "distinct ls" and "l \<in> set ls"
  shows "m_dCoeff (fold f ls op) l = r"
proof -
  obtain xs ys where ls: "ls = xs @ l # ys" and "l \<notin> set xs" "l \<notin> set ys"
    using assms(3,4) by (metis distinct_append distinct.simps(2) in_set_conv_decomp not_distinct_conv_prefix)
  have a: "m_dCoeff (fold f xs op) l = m_dCoeff op l"
    using fold_rows_other [where f = f and l = l and ls = xs and op = op] other \<open>l \<notin> set xs\<close>
    by blast
  have b: "m_dCoeff (fold f ys (f l (fold f xs op))) l = m_dCoeff (f l (fold f xs op)) l"
    using fold_rows_other [where f = f and l = l and ls = ys and op = "f l (fold f xs op)"] other
      \<open>l \<notin> set ys\<close>
    by blast
  show ?thesis
    unfolding ls using a b row by simp
qed

lemma Interp_Initialize_row:
  assumes "LinearColumnInterpFEM_Initialize src p dREtaNode dREtaREdge dREtaOut fZB = Inr op"
    and "l < length dREtaOut"
    and "\<not> (fZB \<and> l = 0 \<and> \<bar>dREtaOut ! 0\<bar> < ParamEpsilon)"
    and "\<not> (fZB \<and> l = length dREtaOut - 1 \<and> \<bar>dREtaOut ! (length dREtaOut - 1) - 1\<bar> < ParamEpsilon)"
    and row: "\<And>op'. m_dCoeff op' l = (\<lambda>k. 0) \<Longrightarrow>
            m_dCoeff (LinearColumnInterpFEM_Row src p dREtaNode dREtaREdge dREtaOut l op') l = r"
  shows "m_dCoeff op l = r"
proof -
  let ?lBegin = "if fZB \<and> \<bar>dREtaOut ! 0\<bar> < ParamEpsilon then 1 else 0 :: nat"
  let ?lEnd = "if fZB \<and> \<bar>dREtaOut ! (length dREtaOut - 1) - 1\<bar> < ParamEpsilon
               then length dREtaOut - 1 else length dREtaOut"
  let ?op0 = "if src = InterpSource_Interfaces
              then LinearColumnOperator_Initialize (length dREtaNode + 1) (length dREtaOut)
              else LinearColumnOperator_Initialize (length dREtaNode) (length dREtaOut)"
  let ?f = "LinearColumnInterpFEM_Row src p dREtaNode dREtaREdge dREtaOut"
  have op: "op = fold ?f [?lBegin ..< ?lEnd] ?op0"
    using assms(1)
    by (auto simp: LinearColumnInterpFEM_Initialize_def Let_def split: if_splits)
  have l: "l \<in> set [?lBegin ..< ?lEnd]"
    using assms(2-4) by auto
  have z: "m_dCoeff ?op0 l = (\<lambda>k. 0)"
    by (simp add: LinearColumnOperator_Initialize_def)
  have "m_dCoeff (fold ?f [?lBegin ..< ?lEnd] ?op0) l = r"
  proof (rule fold_row_once [where f = ?f])
    show "m_dCoeff (?f l op) l' = m_dCoeff op l'" if "l' \<noteq> l" for l op l'
      using that by (rule Interp_Row_other)
    show "m_dCoeff (?f l op') l = r" if "m_dCoeff op' l = m_dCoeff ?op0 l" for op'
      using that z row by simp
    show "distinct [?lBegin ..< ?lEnd]" by simp
    show "l \<in> set [?lBegin ..< ?lEnd]" by (rule l)
  qed
  then show ?thesis using op by simp
qed

lemma Interface_fold_row:
  assumes "l < length dREtaOut"
    and row: "\<And>op'. m_dCoeff op' l = (\<lambda>k. 0) \<Longrightarrow>
            m_dCoeff (InitializeInterfaceMethod_Row p dREtaNode dREtaREdge dREtaOut l op') l = r"
  shows "m_dCoeff (fold (InitializeInterfaceMethod_Row p dREtaNode dREtaREdge dREtaOut)
                     [0 ..< length dREtaOut]
                     (LinearColumnOperator_Initialize (length dREtaNode + 1) (length dREtaOut))) l = r"
proof (rule fold_row_once [where f = "InitializeInterfaceMethod_Row p dREtaNode dREtaREdge dREtaOut"])
  show "m_dCoeff (InitializeInterfaceMethod_Row p dREtaNode dREtaREdge dREtaOut l op) l'
          = m_dCoeff op l'" if "l' \<noteq> l" for l op l'
    using that by (rule Interface_Row_other)
  show "m_dCoeff (InitializeInterfaceMethod_Row p dREtaNode dREtaREdge dREtaOut l op') l = r"
    if "m_dCoeff op' l =
        m_dCoeff (LinearColumnOperator_Initialize (length dREtaNode + 1) (length dREtaOut)) l" for op'
    using that row by (simp add: LinearColumnOperator_Initialize_def)
  show "distinct [0 ..< length dREtaOut]" by simp
  show "l \<in> set [0 ..< length dREtaOut]" using assms(1) by simp
qed

lemma Interface_Initialize_Interfaces:
  assumes "InitializeInterfaceMethod InterpSource_Interfaces p dREtaNode dREtaREdge dREtaOut fZB = Inr op"
  shows "op = fold (InitializeInterfaceMethod_Row p dREtaNode dREtaREdge dREtaOut)
                [0 ..< length dREtaOut]
                (LinearColumnOperator_Initialize (length dREtaNode + 1) (length dREtaOut))"
  using assms by (auto simp: InitializeInterfaceMethod_def Let_def split: if_splits)

subsection \<open>Rows of the flux-correction operator\<close>

lemma FindElement_bound: "fst (FindElement dREta stride x n a0) \<le> a0 + n"
proof (induction n arbitrary: a0)
  case 0
  then show ?case by simp
next
  case (Suc n)
  then show ?case using Suc.IH [of "Suc a0"] by (simp add: Let_def)
qed

lemma add_window: "add row off n s c = (\<lambda>k. row k + s * window off n c k)"
  by (auto simp: add_def window_def put_def fun_eq_iff)

lemma put_zero_window: "put (\<lambda>k. 0) off n c = window off n c"
  by (simp add: window_def)

lemma put_window_disjoint:
  "off' + n' \<le> off \<Longrightarrow> put (window off' n' c') off n c = (\<lambda>k. window off' n' c' k + window off n c k)"
  by (auto simp: window_def put_def fun_eq_iff)

lemma window_outside: "off + n \<le> N \<Longrightarrow> N \<le> k \<Longrightarrow> window off n c k = 0"
  by (simp add: window_def put_def)

lemma block_bound:
  fixes n p a :: nat
  assumes "n mod p = 0" "n \<noteq> 0" "a \<le> n div p - 1"
  shows "0 < p" and "0 < n div p" and "(a + 1) * p \<le> n"
    and "a \<noteq> n div p - 1 \<Longrightarrow> (a + 2) * p \<le> n"
proof -
  have "p \<noteq> 0"
  proof
    assume "p = 0"
    then have "n mod p = n" by simp
    then show False using assms(1,2) by simp
  qed
  then show p: "0 < p" by simp
  have n: "n = (n div p) * p" using assms(1) by (metis add.right_neutral div_mult_mod_eq)
  show "0 < n div p" using n assms(2) by (cases "n div p = 0") auto
  then have "a + 1 \<le> n div p" using assms(3) by simp
  then have "(a + 1) * p \<le> (n div p) * p" by (rule mult_le_mono1)
  then show "(a + 1) * p \<le> n" using n by simp
  assume "a \<noteq> n div p - 1"
  then have "a + 2 \<le> n div p" using assms(3) \<open>0 < n div p\<close> by simp
  then have "(a + 2) * p \<le> (n div p) * p" by (rule mult_le_mono1)
  then show "(a + 2) * p \<le> n" using n by simp
qed

lemma FluxCorrection_Row_row:
  assumes fe: "FindElement dREtaREdge p (dREtaOut ! l) (length dREtaNode div p - 1) 0 = (a, f)"
    and row: "InitializeFluxCorrectionMethod_Row G p dREtaNode dREtaREdge dREtaOut fZB l op = Inr op'"
    and zero: "m_dCoeff op l = (\<lambda>k. 0)"
    and n: "length dREtaNode mod p = 0" "length dREtaNode \<noteq> 0"
  shows "m_dCoeff op' l =
           FluxCorrectionRow G p dREtaNode dREtaREdge (\<not> fZB \<and> length dREtaNode div p \<noteq> 1) a f
             (dREtaOut ! l)"
proof -
  let ?n = "length dREtaNode"
  have a: "a \<le> ?n div p - 1"
    using FindElement_bound [of dREtaREdge p "dREtaOut ! l" "?n div p - 1" 0] fe by simp
  have f: "a \<noteq> ?n div p - 1" if f
    using FindElement_on_edge_iff [of dREtaREdge p "dREtaOut ! l" "?n div p - 1" 0 a] fe that
    by auto
  note b = block_bound [OF n a]
  have nfe: "0 < ?n div p" by (rule b(2))
  have a1: "(a - 1) * p + p \<le> a * p" if "a \<noteq> 0"
    using that by (cases a) auto
  have out: "window off p c k = 0" if "off + p \<le> ?n" "\<not> k < ?n" for off c k
    using that by (simp add: window_def put_def)
  have w1: "window (a * p) p c k = 0" if "\<not> k < ?n" for c k
    using out [of "a * p" k c] b(3) that by simp
  have w2: "window ((a + 1) * p) p c k = 0" if "\<not> k < ?n" "a \<noteq> ?n div p - 1" for c k
    using out [of "(a + 1) * p" k c] b(4) that by simp
  have w0: "window ((a - 1) * p) p c k = 0" if "\<not> k < ?n" "a \<noteq> 0" for c k
    using out [of "(a - 1) * p" k c] a1 b(3) that by simp
  show ?thesis
  proof
    fix k
    show "m_dCoeff op' l k =
           FluxCorrectionRow G p dREtaNode dREtaREdge (\<not> fZB \<and> ?n div p \<noteq> 1) a f (dREtaOut ! l) k"
    proof (cases "k < ?n")
      case True
      then show ?thesis
        using row fe zero f nfe
        by (auto simp: InitializeFluxCorrectionMethod_Row_def FluxCorrectionRow_def Let_def
              add_window put_zero_window put_window_disjoint scale_def divide_row_def
              ParamFluxCorrectionType_def algebra_simps
              split: if_splits)
    next
      case False
      then show ?thesis
        using row fe zero f nfe w1 [of k] w2 [of k] w0 [of k]
        by (auto simp: InitializeFluxCorrectionMethod_Row_def FluxCorrectionRow_def Let_def
              add_window put_zero_window put_window_disjoint scale_def divide_row_def
              ParamFluxCorrectionType_def
              split: if_splits)
    qed
  qed
qed

lemma for_rows_other:
  assumes other: "\<And>l op op' l'. f l op = Inr op' \<Longrightarrow> l' \<noteq> l \<Longrightarrow> m_dCoeff op' l' = m_dCoeff op l'"
    and "for_rows f ls op = Inr op'" and "l \<notin> set ls"
  shows "m_dCoeff op' l = m_dCoeff op l"
  using assms(2,3)
proof (induction ls arbitrary: op)
  case Nil
  then show ?case by simp
next
  case (Cons y ys)
  from Cons.prems(1) obtain op1 where y: "f y op = Inr op1" and r: "for_rows f ys op1 = Inr op'"
    by (auto split: sum.splits)
  have "m_dCoeff op' l = m_dCoeff op1 l" using Cons.IH [OF r] Cons.prems(2) by simp
  moreover have "m_dCoeff op1 l = m_dCoeff op l" using other [OF y, of l] Cons.prems(2) by simp
  ultimately show ?case by simp
qed

lemma for_rows_row_once:
  assumes other: "\<And>l op op' l'. f l op = Inr op' \<Longrightarrow> l' \<noteq> l \<Longrightarrow> m_dCoeff op' l' = m_dCoeff op l'"
    and "for_rows f ls op = Inr op'" and "distinct ls" and "l \<in> set ls"
  shows "\<exists>op1 op2. m_dCoeff op1 l = m_dCoeff op l \<and> f l op1 = Inr op2 \<and>
           m_dCoeff op' l = m_dCoeff op2 l"
  using assms(2,3,4)
proof (induction ls arbitrary: op)
  case Nil
  then show ?case by simp
next
  case (Cons y ys)
  from Cons.prems(1) obtain op1 where y: "f y op = Inr op1" and r: "for_rows f ys op1 = Inr op'"
    by (auto split: sum.splits)
  show ?case
  proof (cases "y = l")
    case True
    then have "l \<notin> set ys" using Cons.prems(2) by simp
    then have "m_dCoeff op' l = m_dCoeff op1 l"
      using for_rows_other [where f = f, OF other r] by simp
    then show ?thesis using y True by blast
  next
    case False
    then have "l \<in> set ys" "distinct ys" using Cons.prems by auto
    from Cons.IH [OF r this(2) this(1)]
    obtain op2 op3 where "m_dCoeff op2 l = m_dCoeff op1 l" "f l op2 = Inr op3"
      "m_dCoeff op' l = m_dCoeff op3 l" by blast
    moreover have "m_dCoeff op1 l = m_dCoeff op l" using other [OF y, of l] False by simp
    ultimately show ?thesis by (metis (no_types))
  qed
qed

lemma FluxCorrection_Row_other:
  "InitializeFluxCorrectionMethod_Row G p dREtaNode dREtaREdge dREtaOut fZB l op = Inr op' \<Longrightarrow>
   l' \<noteq> l \<Longrightarrow> m_dCoeff op' l' = m_dCoeff op l'"
  by (auto simp: InitializeFluxCorrectionMethod_Row_def Let_def split_beta split: if_splits)

lemma FluxCorrection_Initialize_row:
  assumes init: "InitializeFluxCorrectionMethod G src p dREtaNode dREtaREdge dREtaOut fZB = Inr op"
    and l: "l < length dREtaOut"
    and fe: "FindElement dREtaREdge p (dREtaOut ! l) (length dREtaNode div p - 1) 0 = (a, f)"
  shows "m_dCoeff op l =
           FluxCorrectionRow G p dREtaNode dREtaREdge (\<not> fZB \<and> length dREtaNode div p \<noteq> 1) a f
             (dREtaOut ! l)"
proof -
  let ?f = "InitializeFluxCorrectionMethod_Row G p dREtaNode dREtaREdge dREtaOut fZB"
  let ?op0 = "if src = InterpSource_Interfaces
              then LinearColumnOperator_Initialize (length dREtaNode + 1) (length dREtaOut)
              else LinearColumnOperator_Initialize (length dREtaNode) (length dREtaOut)"
  have n: "length dREtaNode mod p = 0" "length dREtaNode \<noteq> 0"
    using init by (auto simp: InitializeFluxCorrectionMethod_def Let_def split: if_splits)
  have rows: "for_rows ?f [0 ..< length dREtaOut] ?op0 = Inr op"
    using init by (auto simp: InitializeFluxCorrectionMethod_def Let_def split: if_splits)
  have "\<exists>op1 op2. m_dCoeff op1 l = m_dCoeff ?op0 l \<and> ?f l op1 = Inr op2 \<and>
           m_dCoeff op l = m_dCoeff op2 l"
  proof (rule for_rows_row_once [where f = ?f, OF _ rows])
    show "m_dCoeff op' l' = m_dCoeff op l'" if "?f l op = Inr op'" "l' \<noteq> l" for l op op' l'
      using that by (rule FluxCorrection_Row_other)
    show "distinct [0 ..< length dREtaOut]" by simp
    show "l \<in> set [0 ..< length dREtaOut]" using l by simp
  qed
  then obtain op1 op2 where o: "m_dCoeff op1 l = m_dCoeff ?op0 l" "?f l op1 = Inr op2"
    "m_dCoeff op l = m_dCoeff op2 l" by blast
  have "m_dCoeff op1 l = (\<lambda>k. 0)"
    using o(1) by (simp add: LinearColumnOperator_Initialize_def)
  from FluxCorrection_Row_row [OF fe o(2) this n] show ?thesis
    using o(3) by simp
qed


subsection \<open>Output points on an internal finite-element interface\<close>

definition two_element_nodes :: "real list" where
  "two_element_nodes = [1 / 4, 3 / 4]"

definition two_element_edges :: "real list" where
  "two_element_edges = [0, 1 / 2, 1]"

lemma lessThan_1_minus: "{..<Suc 0} - {0} = ({} :: nat set)"
  by auto

lemma two_element_Interface:
  "InitializeInterfaceMethod InterpSource_Interfaces 1 two_element_nodes two_element_edges
     two_element_edges False
   = Inr (fold (InitializeInterfaceMethod_Row 1 two_element_nodes two_element_edges
                  two_element_edges) [0 ..< 3] (LinearColumnOperator_Initialize 3 3))"
  by (simp add: InitializeInterfaceMethod_def two_element_nodes_def two_element_edges_def
        Let_def numeral_2_eq_2 numeral_3_eq_3 del: upt_Suc)

text \<open>
  When an output point of the interpolation from levels, or of the interface-method
  derivative from interfaces, lies on an internal finite-element interface
  (the element search returns \<open>(a, True)\<close>, that is
  \<open>dREtaREdge[(a+1) p] - \<epsilon> \<le> dREtaOut[l] < dREtaREdge[(a+1) p] + \<epsilon>\<close> with \<open>\<epsilon> = 10\<^sup>-\<^sup>1\<^sup>2\<close>), the row of
  the operator is the average of the two one-sided interpolants (derivatives) with the weights
  \<open>w\<^sub>L = \<Delta>R\<^sup>p / (\<Delta>L\<^sup>p + \<Delta>R\<^sup>p)\<close> and \<open>w\<^sub>R = \<Delta>L\<^sup>p / (\<Delta>L\<^sup>p + \<Delta>R\<^sup>p)\<close>, in every row that
  the loop of the interpolation visits but the first and the last one at vertical order 1.
\<close>

lemma on_edge_rows_weighted:
  "(LinearColumnInterpFEM_Initialize InterpSource_Levels p dREtaNode dREtaREdge dREtaOut fZB = Inr op \<and>
    l < length dREtaOut \<and>
    \<not> (fZB \<and> l = 0 \<and> \<bar>dREtaOut ! 0\<bar> < ParamEpsilon) \<and>
    \<not> (fZB \<and> l = length dREtaOut - 1 \<and> \<bar>dREtaOut ! (length dREtaOut - 1) - 1\<bar> < ParamEpsilon) \<and>
    \<not> (p = 1 \<and> (l = 0 \<or> l = length dREtaOut - 1)) \<and>
    FindElement dREtaREdge p (dREtaOut ! l) (length dREtaNode div p - 1) 0 = (a, True)
    \<longrightarrow> m_dCoeff op l =
          WeightedOneSidedRow LagrangianPolynomialCoeffs p dREtaNode p dREtaREdge a (dREtaOut ! l)) \<and>
   (InitializeInterfaceMethod InterpSource_Interfaces p dREtaNode dREtaREdge dREtaOut fZB = Inr op' \<and>
    l < length dREtaOut \<and>
    FindElement dREtaREdge p (dREtaOut ! l) (length dREtaNode div p - 1) 0 = (a, True)
    \<longrightarrow> m_dCoeff op' l =
          WeightedOneSidedRow DiffLagrangianPolynomialCoeffs (p + 1) dREtaREdge p dREtaREdge a
            (dREtaOut ! l))"
proof (intro conjI impI)
  assume h: "LinearColumnInterpFEM_Initialize InterpSource_Levels p dREtaNode dREtaREdge dREtaOut fZB = Inr op \<and>
    l < length dREtaOut \<and>
    \<not> (fZB \<and> l = 0 \<and> \<bar>dREtaOut ! 0\<bar> < ParamEpsilon) \<and>
    \<not> (fZB \<and> l = length dREtaOut - 1 \<and> \<bar>dREtaOut ! (length dREtaOut - 1) - 1\<bar> < ParamEpsilon) \<and>
    \<not> (p = 1 \<and> (l = 0 \<or> l = length dREtaOut - 1)) \<and>
    FindElement dREtaREdge p (dREtaOut ! l) (length dREtaNode div p - 1) 0 = (a, True)"
  show "m_dCoeff op l =
          WeightedOneSidedRow LagrangianPolynomialCoeffs p dREtaNode p dREtaREdge a (dREtaOut ! l)"
  proof (rule Interp_Initialize_row [where src = InterpSource_Levels and fZB = fZB])
    show "LinearColumnInterpFEM_Initialize InterpSource_Levels p dREtaNode dREtaREdge dREtaOut fZB = Inr op"
      using h by simp
    show "l < length dREtaOut" using h by simp
    show "\<not> (fZB \<and> l = 0 \<and> \<bar>dREtaOut ! 0\<bar> < ParamEpsilon)" using h by simp
    show "\<not> (fZB \<and> l = length dREtaOut - 1 \<and> \<bar>dREtaOut ! (length dREtaOut - 1) - 1\<bar> < ParamEpsilon)"
      using h by simp
    show "m_dCoeff (LinearColumnInterpFEM_Row InterpSource_Levels p dREtaNode dREtaREdge dREtaOut l op') l
            = WeightedOneSidedRow LagrangianPolynomialCoeffs p dREtaNode p dREtaREdge a (dREtaOut ! l)"
      if "m_dCoeff op' l = (\<lambda>k. 0)" for op'
      using h that by (intro Interp_Row_on_edge) simp_all
  qed
next
  assume h: "InitializeInterfaceMethod InterpSource_Interfaces p dREtaNode dREtaREdge dREtaOut fZB = Inr op' \<and>
    l < length dREtaOut \<and>
    FindElement dREtaREdge p (dREtaOut ! l) (length dREtaNode div p - 1) 0 = (a, True)"
  have "m_dCoeff (fold (InitializeInterfaceMethod_Row p dREtaNode dREtaREdge dREtaOut)
                     [0 ..< length dREtaOut]
                     (LinearColumnOperator_Initialize (length dREtaNode + 1) (length dREtaOut))) l
        = WeightedOneSidedRow DiffLagrangianPolynomialCoeffs (p + 1) dREtaREdge p dREtaREdge a
            (dREtaOut ! l)"
    using h by (intro Interface_fold_row Interface_Row_on_edge) simp_all
  then show "m_dCoeff op' l =
          WeightedOneSidedRow DiffLagrangianPolynomialCoeffs (p + 1) dREtaREdge p dREtaREdge a
            (dREtaOut ! l)"
    using Interface_Initialize_Interfaces [of p dREtaNode dREtaREdge dREtaOut fZB op'] h by simp
qed

definition four_element_nodes :: "real list" where
  "four_element_nodes = [1 / 8, 3 / 8, 5 / 8, 7 / 8]"

definition four_element_edges :: "real list" where
  "four_element_edges = [0, 1 / 4, 1 / 2, 3 / 4, 1]"

lemma lessThan_Suc_Suc_minus:
  "{..<Suc (Suc 0)} - {0} = {Suc 0}" "{..<Suc (Suc 0)} - {Suc 0} = {0}"
  by auto

lemma four_element_Interp:
  "LinearColumnInterpFEM_Initialize InterpSource_Levels 1 four_element_nodes four_element_edges
     [1 / 4, 1 / 2, 3 / 4] False
   = Inr (fold (LinearColumnInterpFEM_Row InterpSource_Levels 1 four_element_nodes
                  four_element_edges [1 / 4, 1 / 2, 3 / 4]) [0 ..< 3]
            (LinearColumnOperator_Initialize 4 3))"
  by (simp add: LinearColumnInterpFEM_Initialize_def four_element_nodes_def four_element_edges_def
        Let_def numeral_3_eq_3 eval_nat_numeral del: upt_Suc)

lemma four_element_first_row:
  "m_dCoeff (fold (LinearColumnInterpFEM_Row InterpSource_Levels 1 four_element_nodes
                     four_element_edges [1 / 4, 1 / 2, 3 / 4]) [0 ..< 3]
               (LinearColumnOperator_Initialize 4 3)) 0
     = m_dCoeff (LinearColumnInterpFEM_Row InterpSource_Levels 1 four_element_nodes
                   four_element_edges [1 / 4, 1 / 2, 3 / 4] 0
                   (LinearColumnOperator_Initialize 4 3)) 0"
  by (rule fold_row_once [where f = "LinearColumnInterpFEM_Row InterpSource_Levels 1
          four_element_nodes four_element_edges [1 / 4, 1 / 2, 3 / 4]"])
     (simp_all add: Interp_Row_other LinearColumnInterpFEM_Row_def Let_def split_beta)

text \<open>
  Claim C7.  When an output point of the interpolation coincides with an internal
  finite-element interface, the row of the operator is to be the average of the two
  one-sided interpolants with the weights \<open>w\<^sub>L\<close> and \<open>w\<^sub>R\<close>.  At vertical order 1 the first
  output row is not: with four elements and the output points \<open>1/4, 1/2, 3/4\<close>, all on
  internal interfaces, the first row is \<open>(1/4, 1/4, 1/2, 0)\<close> while the weighted average of the
  interpolants of the elements left and right of \<open>1/4\<close> is \<open>(1/2, 1/2, 0, 0)\<close>.  The two-point
  interpolant that the source takes in this row moves \<^verbatim>\<open>m_iEnd\<close> to \<open>a + 2\<close>, and the
  coefficient of the right interpolant, which belongs to the node \<open>a + 1\<close>, is written at the
  column \<^verbatim>\<open>m_iEnd\<close>.
\<close>

theorem Interp_order_1_first_row_on_edge:
  "LinearColumnInterpFEM_Initialize InterpSource_Levels 1 four_element_nodes four_element_edges
     [1 / 4, 1 / 2, 3 / 4] False
   = Inr (fold (LinearColumnInterpFEM_Row InterpSource_Levels 1 four_element_nodes
                  four_element_edges [1 / 4, 1 / 2, 3 / 4]) [0 ..< 3]
            (LinearColumnOperator_Initialize 4 3)) \<and>
   FindElement four_element_edges 1 ([1 / 4, 1 / 2, 3 / 4] ! 0)
     (length four_element_nodes div 1 - 1) 0 = (0, True) \<and>
   map (m_dCoeff (fold (LinearColumnInterpFEM_Row InterpSource_Levels 1 four_element_nodes
                          four_element_edges [1 / 4, 1 / 2, 3 / 4]) [0 ..< 3]
                    (LinearColumnOperator_Initialize 4 3)) 0) [0, 1, 2, 3]
     = [1 / 4, 1 / 4, 1 / 2, 0] \<and>
   map (WeightedOneSidedRow LagrangianPolynomialCoeffs 1 four_element_nodes 1 four_element_edges 0
          ([1 / 4, 1 / 2, 3 / 4] ! 0)) [0, 1, 2, 3]
     = [1 / 2, 1 / 2, 0, 0]"
proof (intro conjI)
  show "LinearColumnInterpFEM_Initialize InterpSource_Levels 1 four_element_nodes four_element_edges
     [1 / 4, 1 / 2, 3 / 4] False
   = Inr (fold (LinearColumnInterpFEM_Row InterpSource_Levels 1 four_element_nodes
                  four_element_edges [1 / 4, 1 / 2, 3 / 4]) [0 ..< 3]
            (LinearColumnOperator_Initialize 4 3))"
    by (rule four_element_Interp)
  show "FindElement four_element_edges 1 ([1 / 4, 1 / 2, 3 / 4] ! 0)
     (length four_element_nodes div 1 - 1) 0 = (0, True)"
    by (simp add: four_element_nodes_def four_element_edges_def ParamEpsilon_def Let_def)
  show "map (m_dCoeff (fold (LinearColumnInterpFEM_Row InterpSource_Levels 1 four_element_nodes
                          four_element_edges [1 / 4, 1 / 2, 3 / 4]) [0 ..< 3]
                    (LinearColumnOperator_Initialize 4 3)) 0) [0, 1, 2, 3]
     = [1 / 4, 1 / 4, 1 / 2, 0]"
    unfolding four_element_first_row
    by (simp add: LinearColumnInterpFEM_Row_def LinearColumnOperator_Initialize_def
          LagrangianPolynomialCoeffs_def InterpWeights_def put_def scale_def subvector_def
          four_element_nodes_def four_element_edges_def ParamEpsilon_def Let_def
          lessThan_1_minus lessThan_Suc_Suc_minus)
  show "map (WeightedOneSidedRow LagrangianPolynomialCoeffs 1 four_element_nodes 1 four_element_edges 0
          ([1 / 4, 1 / 2, 3 / 4] ! 0)) [0, 1, 2, 3]
     = [1 / 2, 1 / 2, 0, 0]"
    by (simp add: WeightedOneSidedRow_def window_def put_def subvector_def
          LagrangianPolynomialCoeffs_def four_element_nodes_def four_element_edges_def Let_def
          lessThan_1_minus)
qed

subsection \<open>Boundary elements of the flux-correction operator\<close>

text \<open>
  The concrete rows below take for \<^verbatim>\<open>GetDerivatives\<close> the function with derivative 1.  The rows
  evaluate it at the midpoint \<open>1/2\<close> of an element only, where every quadratic \<open>g\<close> with
  \<open>g(0) = 0\<close> and \<open>g(1) = 1\<close> has derivative 1.
\<close>

definition coefficient :: "exception + LinearColumnOperator \<Rightarrow> nat \<Rightarrow> nat \<Rightarrow> real option" where
  "coefficient r l k = (case r of Inl e \<Rightarrow> None | Inr op \<Rightarrow> Some (m_dCoeff op l k))"

definition unit_derivative :: "nat \<Rightarrow> nat \<Rightarrow> real \<Rightarrow> real" where
  "unit_derivative nType nOrder x = 1"


lemma two_element_FluxCorrection:
  "coefficient (InitializeFluxCorrectionMethod unit_derivative InterpSource_Levels 1
                  two_element_nodes two_element_edges [1 / 4] fZB) 0 0
     = Some (if fZB then - 1 else - 2) \<and>
   coefficient (InitializeFluxCorrectionMethod unit_derivative InterpSource_Levels 1
                  two_element_nodes two_element_edges [1 / 4] fZB) 0 1
     = Some (if fZB then 1 else 2)"
  by (simp add: coefficient_def InitializeFluxCorrectionMethod_def
        InitializeFluxCorrectionMethod_Row_def LinearColumnOperator_Initialize_def
        LagrangianPolynomialCoeffs_def DiffLagrangianPolynomialCoeffs_def
        unit_derivative_def ParamFluxCorrectionType_def ParamEpsilon_def
        put_def add_def scale_def divide_row_def subvector_def
        two_element_nodes_def two_element_edges_def Let_def lessThan_1_minus)

lemma two_element_FluxCorrectionRow:
  "FluxCorrectionRow unit_derivative 1 two_element_nodes two_element_edges fB 0 False (1 / 4) 0
     = (if fB then - 2 else - 1) \<and>
   FluxCorrectionRow unit_derivative 1 two_element_nodes two_element_edges fB 0 False (1 / 4) 1
     = (if fB then 2 else 1)"
  by (simp add: FluxCorrectionRow_def window_def put_def subvector_def
        LagrangianPolynomialCoeffs_def DiffLagrangianPolynomialCoeffs_def
        unit_derivative_def two_element_nodes_def two_element_edges_def Let_def lessThan_1_minus)

lemma coefficient_Some_Inr: "coefficient r l k = Some x \<Longrightarrow> r = Inr (projr r)"
  by (cases r) (simp_all add: coefficient_def)

lemma two_element_FindElement_node:
  "FindElement two_element_edges 1 ([1 / 4] ! 0) (length two_element_nodes div 1 - 1) 0 = (0, False)"
  by (simp add: two_element_nodes_def two_element_edges_def ParamEpsilon_def Let_def)


text \<open>
  Claim C4.  In the flux-correction derivative operator, for every output row whose element
  touches the boundary of the domain (\<open>a = 0\<close> or \<open>a = nFiniteElements - 1\<close>), the one-sided
  correction on the boundary side (a term made of the element's own and its neighbour's
  interpolants to the interface they share) is added exactly when \<open>fZeroBoundaries\<close> is not set and
  \<open>nFiniteElements \<noteq> 1\<close>; otherwise no boundary correction is added.
\<close>

theorem FluxCorrection_boundary_rows:
  "InitializeFluxCorrectionMethod G src p dREtaNode dREtaREdge dREtaOut fZB = Inr op \<and>
   l < length dREtaOut \<and>
   FindElement dREtaREdge p (dREtaOut ! l) (length dREtaNode div p - 1) 0 = (a, f) \<and>
   (a = 0 \<or> a = length dREtaNode div p - 1)
   \<longrightarrow> m_dCoeff op l =
         FluxCorrectionRow G p dREtaNode dREtaREdge (\<not> fZB \<and> length dREtaNode div p \<noteq> 1) a f
           (dREtaOut ! l)"
  using FluxCorrection_Initialize_row by blast


theorem FluxCorrection_boundary_rows_witness:
  "m_dCoeff (projr (InitializeFluxCorrectionMethod unit_derivative InterpSource_Levels 1
                      two_element_nodes two_element_edges [1 / 4] False)) 0
     = FluxCorrectionRow unit_derivative 1 two_element_nodes two_element_edges True 0 False (1 / 4) \<and>
   m_dCoeff (projr (InitializeFluxCorrectionMethod unit_derivative InterpSource_Levels 1
                      two_element_nodes two_element_edges [1 / 4] True)) 0
     = FluxCorrectionRow unit_derivative 1 two_element_nodes two_element_edges False 0 False (1 / 4)"
  using FluxCorrection_boundary_rows
    [of unit_derivative InterpSource_Levels 1 two_element_nodes two_element_edges "[1 / 4]" False
        "projr (InitializeFluxCorrectionMethod unit_derivative InterpSource_Levels 1
                  two_element_nodes two_element_edges [1 / 4] False)" 0 0 False]
    FluxCorrection_boundary_rows
    [of unit_derivative InterpSource_Levels 1 two_element_nodes two_element_edges "[1 / 4]" True
        "projr (InitializeFluxCorrectionMethod unit_derivative InterpSource_Levels 1
                  two_element_nodes two_element_edges [1 / 4] True)" 0 0 False]
    coefficient_Some_Inr [OF conjunct1 [OF two_element_FluxCorrection [of False]]]
    coefficient_Some_Inr [OF conjunct1 [OF two_element_FluxCorrection [of True]]]
    two_element_FindElement_node
  by (simp add: two_element_nodes_def)

theorem FluxCorrection_zero_boundaries_counterexample:
  "FindElement two_element_edges 1 ([1 / 4] ! 0) (length two_element_nodes div 1 - 1) 0 = (0, False) \<and>
   length two_element_nodes div 1 = 2 \<and>
   coefficient (InitializeFluxCorrectionMethod unit_derivative InterpSource_Levels 1
                  two_element_nodes two_element_edges [1 / 4] True) 0 0 = Some (- 1) \<and>
   FluxCorrectionRow unit_derivative 1 two_element_nodes two_element_edges True 0 False (1 / 4) 0
     = - 2 \<and>
   FluxCorrectionRow unit_derivative 1 two_element_nodes two_element_edges False 0 False (1 / 4) 0
     = - 1"
  using two_element_FluxCorrection [of True] two_element_FluxCorrectionRow [of True]
    two_element_FluxCorrectionRow [of False] two_element_FindElement_node
  by (simp add: two_element_nodes_def)

subsection \<open>Row sums\<close>

lemma window_sum:
  assumes "off + n \<le> N"
  shows "(\<Sum>k<N. window off n c k) = (\<Sum>j<n. c j)"
proof -
  have "(\<Sum>k<N. window off n c k) = (\<Sum>k\<in>{off..<off + n}. window off n c k)"
    using assms by (intro sum.mono_neutral_right) (auto simp: window_def put_def)
  also have "\<dots> = (\<Sum>k\<in>{off..<off + n}. c (k - off))"
    by (intro sum.cong) (auto simp: window_def put_def)
  also have "\<dots> = (\<Sum>j\<in>{0..<n}. c j)"
    by (rule sum.reindex_bij_witness [where i = "\<lambda>j. j + off" and j = "\<lambda>k. k - off"]) auto
  finally show ?thesis by (simp add: lessThan_atLeast0)
qed

lemma subvector_inj_on:
  assumes "distinct v" "off + n \<le> length v"
  shows "inj_on (subvector v off) {..<n}"
  using assms by (auto simp: inj_on_def subvector_def nth_eq_iff_index_eq)

lemma window_Diff_sum:
  assumes "distinct v" "off + n \<le> length v" "0 < n" "off + n \<le> N"
  shows "(\<Sum>k<N. window off n (DiffLagrangianPolynomialCoeffs n (subvector v off) x) k) = 0"
  using window_sum [OF assms(4)] DiffLagrangianPolynomialCoeffs_sum [OF subvector_inj_on [OF assms(1,2)] assms(3)]
  by simp

lemma window_Lagrangian_sum:
  assumes "distinct v" "off + n \<le> length v" "0 < n" "off + n \<le> N"
  shows "(\<Sum>k<N. window off n (LagrangianPolynomialCoeffs n (subvector v off) x) k) = 1"
  using window_sum [OF assms(4)] LagrangianPolynomialCoeffs_sum [OF subvector_inj_on [OF assms(1,2)] assms(3)]
  by simp

lemma Interface_Row_off_edge:
  assumes "FindElement dREtaREdge p (dREtaOut ! l) (length dREtaNode div p - 1) 0 = (a, False)"
    and "m_dCoeff op l = (\<lambda>k. 0)"
  shows "m_dCoeff (InitializeInterfaceMethod_Row p dREtaNode dREtaREdge dREtaOut l op) l
     = window (a * p) (p + 1)
         (DiffLagrangianPolynomialCoeffs (p + 1) (subvector dREtaREdge (a * p)) (dREtaOut ! l))"
  using assms
  by (simp add: InitializeInterfaceMethod_Row_def Let_def window_def)

lemma Interface_Initialize_n:
  assumes "InitializeInterfaceMethod src p dREtaNode dREtaREdge dREtaOut fZB = Inr op"
  shows "length dREtaNode mod p = 0" "length dREtaNode \<noteq> 0"
    "length dREtaREdge = length dREtaNode + 1"
  using assms by (auto simp: InitializeInterfaceMethod_def Let_def split: if_splits)

lemma Interface_fold_m_nRElementsIn:
  "m_nRElementsIn (fold (InitializeInterfaceMethod_Row p dREtaNode dREtaREdge dREtaOut) ls op)
     = m_nRElementsIn op"
  by (induction ls arbitrary: op)
     (simp_all add: InitializeInterfaceMethod_Row_def Let_def split_beta)

lemma ComposeWith_RowSum:
  "RowSum (ComposeWith A B) l
     = (\<Sum>k<m_nRElementsIn B. \<Sum>e<m_nRElementsIn A. m_dCoeff A l e * m_dCoeff B e k)"
  by (simp add: RowSum_def ComposeWith_def)

lemma weighted_sum:
  fixes A B :: "nat \<Rightarrow> real"
  shows "(\<Sum>k<N. wL * A k + wR * B k) = wL * sum A {..<N} + wR * sum B {..<N}"
  by (simp add: sum.distrib sum_distrib_left)

lemma Interface_Interfaces_RowSum:
  assumes init: "InitializeInterfaceMethod InterpSource_Interfaces p dREtaNode dREtaREdge dREtaOut fZB = Inr op"
    and l: "l < length dREtaOut"
    and d: "distinct dREtaREdge"
  shows "RowSum op l = 0"
proof -
  let ?n = "length dREtaNode"
  let ?f = "InitializeInterfaceMethod_Row p dREtaNode dREtaREdge dREtaOut"
  let ?op0 = "LinearColumnOperator_Initialize (?n + 1) (length dREtaOut)"
  note n = Interface_Initialize_n [OF init]
  have op: "op = fold ?f [0 ..< length dREtaOut] ?op0"
    using init by (rule Interface_Initialize_Interfaces)
  have N: "m_nRElementsIn op = ?n + 1"
    unfolding op Interface_fold_m_nRElementsIn by (simp add: LinearColumnOperator_Initialize_def)
  obtain a f where fe: "FindElement dREtaREdge p (dREtaOut ! l) (?n div p - 1) 0 = (a, f)"
    by (cases "FindElement dREtaREdge p (dREtaOut ! l) (?n div p - 1) 0") auto
  have a: "a \<le> ?n div p - 1"
    using FindElement_bound [of dREtaREdge p "dREtaOut ! l" "?n div p - 1" 0] fe by simp
  note b = block_bound [OF n(1,2) a]
  have b1: "a * p + (p + 1) \<le> ?n + 1" using b(3) by simp
  have s1: "(\<Sum>k<?n + 1. window (a * p) (p + 1)
               (DiffLagrangianPolynomialCoeffs (p + 1) (subvector dREtaREdge (a * p)) x) k) = 0" for x
    using b1 n(3) by (intro window_Diff_sum [OF d]) simp_all
  show ?thesis
  proof (cases f)
    case False
    have "m_dCoeff op l = window (a * p) (p + 1)
         (DiffLagrangianPolynomialCoeffs (p + 1) (subvector dREtaREdge (a * p)) (dREtaOut ! l))"
      unfolding op using fe False l by (intro Interface_fold_row Interface_Row_off_edge) simp_all
    then show ?thesis using s1 by (simp add: RowSum_def N)
  next
    case True
    have ne: "a \<noteq> ?n div p - 1"
      using FindElement_on_edge_iff [of dREtaREdge p "dREtaOut ! l" "?n div p - 1" 0 a] fe True
      by auto
    have b2: "(a + 1) * p + (p + 1) \<le> ?n + 1" using b(4) [OF ne] by simp
    have s2: "(\<Sum>k<?n + 1. window ((a + 1) * p) (p + 1)
               (DiffLagrangianPolynomialCoeffs (p + 1) (subvector dREtaREdge ((a + 1) * p)) x) k) = 0"
      for x
      using b2 n(3) by (intro window_Diff_sum [OF d]) simp_all
    have row: "m_dCoeff op l = WeightedOneSidedRow DiffLagrangianPolynomialCoeffs (p + 1) dREtaREdge p
             dREtaREdge a (dREtaOut ! l)"
      unfolding op using fe True l by (intro Interface_fold_row Interface_Row_on_edge) simp_all
    show ?thesis
      unfolding RowSum_def N row WeightedOneSidedRow_def Let_def weighted_sum s1 s2 by simp
  qed
qed

lemma sub2_m_nRElementsIn [simp]: "m_nRElementsIn (sub2 op l k x) = m_nRElementsIn op"
  by (simp add: sub2_def)

lemma sub2_RowSum:
  "k < m_nRElementsIn op \<Longrightarrow>
   RowSum (sub2 op l k x) r = RowSum op r - (if r = l then x else 0)"
proof -
  assume k: "k < m_nRElementsIn op"
  have "(\<Sum>j<m_nRElementsIn op. if j = k then m_dCoeff op l k - x else m_dCoeff op l j)
      = (\<Sum>j<m_nRElementsIn op. m_dCoeff op l j - (if j = k then x else 0))"
    by (intro sum.cong) auto
  also have "\<dots> = (\<Sum>j<m_nRElementsIn op. m_dCoeff op l j) - x"
    using k by (simp add: sum_subtractf)
  finally show ?thesis
    by (auto simp: RowSum_def sub2_def)
qed

lemma fold_measure:
  assumes "\<And>x s. x \<in> set xs \<Longrightarrow> I s \<Longrightarrow> I (f x s) \<and> g (f x s) = g s - d x"
    and "I s"
  shows "I (fold f xs s) \<and> g (fold f xs s) = g s - (\<Sum>x\<leftarrow>xs. d x :: real)"
  using assms
proof (induction xs arbitrary: s)
  case Nil
  then show ?case by simp
next
  case (Cons x xs)
  have 1: "I (f x s) \<and> g (f x s) = g s - d x" using Cons.prems by simp
  have 2: "I (fold f xs (f x s)) \<and> g (fold f xs (f x s)) = g (f x s) - (\<Sum>x\<leftarrow>xs. d x)"
    using Cons.prems 1 by (intro Cons.IH) auto
  show ?case using 1 2 by simp
qed

lemma sum_list_upt: "(\<Sum>x\<leftarrow>[0 ..< n]. f x) = (\<Sum>x<n. f x :: real)"
  by (simp add: interv_sum_list_conv_sum_set_nat lessThan_atLeast0)

lemma fold_sub2_RowSum:
  assumes N: "m_nRElementsIn op = N"
    and k: "\<And>i. i < n \<Longrightarrow> c i < N"
  shows "m_nRElementsIn (fold (\<lambda>i op. sub2 op l (c i) (t i)) [0 ..< n] op) = N \<and>
         RowSum (fold (\<lambda>i op. sub2 op l (c i) (t i)) [0 ..< n] op) r
           = RowSum op r - (\<Sum>i<n. if r = l then t i else 0)"
proof -
  have "m_nRElementsIn (fold (\<lambda>i op. sub2 op l (c i) (t i)) [0 ..< n] op) = N \<and>
         RowSum (fold (\<lambda>i op. sub2 op l (c i) (t i)) [0 ..< n] op) r
           = RowSum op r - (\<Sum>i\<leftarrow>[0 ..< n]. if r = l then t i else 0)"
  proof (rule fold_measure [where I = "\<lambda>op. m_nRElementsIn op = N"
          and g = "\<lambda>op. RowSum op r" and d = "\<lambda>i. if r = l then t i else 0"])
    show "m_nRElementsIn op = N" by (rule N)
    show "m_nRElementsIn (sub2 s l (c x) (t x)) = N \<and>
          RowSum (sub2 s l (c x) (t x)) r = RowSum s r - (if r = l then t x else 0)"
      if "x \<in> set [0 ..< n]" "m_nRElementsIn s = N" for x s
      using that k [of x] by (simp add: sub2_RowSum)
  qed
  then show ?thesis by (simp only: sum_list_upt)
qed

lemma Node_RowSum:
  assumes N: "m_nRElementsIn op = N"
    and b: "a * (p - 1) + p \<le> N"
    and zero: "\<And>s. s < p \<Longrightarrow> (\<Sum>i<p. D s i) = 0"
  shows "m_nRElementsIn (LinearColumnDiffDiffFEM_InitializeGLLNodes_Node p nFE a D W j op) = N \<and>
         RowSum (LinearColumnDiffDiffFEM_InitializeGLLNodes_Node p nFE a D W j op) r = RowSum op r"
proof -
  define Wl where "Wl = (let dWlocal = W j;
          dWlocal = (if j = 0 \<and> a \<noteq> 0 then dWlocal * 2 else dWlocal);
          dWlocal = (if j = p - 1 \<and> a \<noteq> nFE - 1 then dWlocal * 2 else dWlocal)
      in dWlocal)"
  let ?jx = "j + a * (p - 1)"
  let ?t = "\<lambda>i s. D s j * D s i * W s / Wl"
  let ?inner = "\<lambda>i. fold (\<lambda>s op. sub2 op ?jx (i + a * (p - 1)) (?t i s)) [0 ..< p]"
  have node: "LinearColumnDiffDiffFEM_InitializeGLLNodes_Node p nFE a D W j op
                = fold ?inner [0 ..< p] op"
    by (simp add: LinearColumnDiffDiffFEM_InitializeGLLNodes_Node_def Wl_def Let_def)
  have "m_nRElementsIn (fold ?inner [0 ..< p] op) = N \<and>
        RowSum (fold ?inner [0 ..< p] op) r
          = RowSum op r - (\<Sum>i\<leftarrow>[0 ..< p]. \<Sum>s<p. if r = ?jx then ?t i s else 0)"
  proof (rule fold_measure [where I = "\<lambda>op. m_nRElementsIn op = N"
          and g = "\<lambda>op. RowSum op r"])
    show "m_nRElementsIn op = N" by (rule N)
    show "m_nRElementsIn (?inner x s) = N \<and>
          RowSum (?inner x s) r = RowSum s r - (\<Sum>s<p. if r = ?jx then ?t x s else 0)"
      if "x \<in> set [0 ..< p]" "m_nRElementsIn s = N" for x s
    proof (rule fold_sub2_RowSum [OF that(2)])
      show "x + a * (p - 1) < N" if "i < p" for i
        using \<open>x \<in> set [0 ..< p]\<close> b by simp
    qed
  qed
  moreover have "(\<Sum>i\<leftarrow>[0 ..< p]. \<Sum>s<p. if r = ?jx then ?t i s else 0) = 0"
  proof (cases "r = ?jx")
    case False
    then show ?thesis by simp
  next
    case True
    have "(\<Sum>i<p. \<Sum>s<p. ?t i s) = (\<Sum>s<p. \<Sum>i<p. ?t i s)"
      by (rule sum.swap)
    also have "\<dots> = (\<Sum>s<p. D s j * W s / Wl * (\<Sum>i<p. D s i))"
    proof (rule sum.cong [OF refl])
      fix s
      have "(\<Sum>i<p. D s j * D s i * W s / Wl) = (\<Sum>i<p. D s j * W s / Wl * D s i)"
        by (intro sum.cong) simp_all
      then show "(\<Sum>i<p. D s j * D s i * W s / Wl) = D s j * W s / Wl * (\<Sum>i<p. D s i)"
        by (simp only: sum_distrib_left)
    qed
    also have "\<dots> = 0" using zero by simp
    finally show ?thesis using True by (simp add: sum_list_upt)
  qed
  ultimately show ?thesis unfolding node by simp
qed

lemma fold_keeps:
  assumes "\<And>x s. x \<in> set xs \<Longrightarrow> I s \<Longrightarrow> I (f x s) \<and> g (f x s) = (g s :: real)"
    and "I s"
  shows "I (fold f xs s) \<and> g (fold f xs s) = g s"
  using fold_measure [where I = I and g = g and f = f and xs = xs and s = s and d = "\<lambda>_. 0"] assms
  by simp

lemma element_bound:
  fixes n p a :: nat
  assumes "(n - 1) mod (p - 1) = 0" "n \<noteq> 0" "2 \<le> p" "a < (n - 1) div (p - 1)"
  shows "a * (p - 1) + p \<le> n"
proof -
  have "n - 1 = ((n - 1) div (p - 1)) * (p - 1)"
    using assms(1) by (metis add.right_neutral div_mult_mod_eq)
  moreover have "(a + 1) * (p - 1) \<le> ((n - 1) div (p - 1)) * (p - 1)"
    using assms(4) by (intro mult_le_mono1) simp
  ultimately have "(a + 1) * (p - 1) \<le> n - 1" by simp
  then show ?thesis using assms(2,3) by (simp add: algebra_simps)
qed

lemma Element_RowSum:
  assumes N: "m_nRElementsIn op = length dREtaNode"
    and d: "distinct dREtaNode"
    and p: "2 \<le> p"
    and n: "(length dREtaNode - 1) mod (p - 1) = 0" "length dREtaNode \<noteq> 0"
    and a: "a < (length dREtaNode - 1) div (p - 1)"
  shows "m_nRElementsIn (LinearColumnDiffDiffFEM_InitializeGLLNodes_Element GetPoints p dREtaNode a op)
           = length dREtaNode \<and>
         RowSum (LinearColumnDiffDiffFEM_InitializeGLLNodes_Element GetPoints p dREtaNode a op) r
           = RowSum op r"
proof -
  let ?n = "length dREtaNode"
  let ?nFE = "(?n - 1) div (p - 1)"
  obtain dG dW where gp: "GetPoints p (dREtaNode ! (a * (p - 1))) (dREtaNode ! ((a + 1) * (p - 1)))
                             = (dG, dW)"
    by (cases "GetPoints p (dREtaNode ! (a * (p - 1))) (dREtaNode ! ((a + 1) * (p - 1)))") auto
  define D where "D = (\<lambda>i. DiffLagrangianPolynomialCoeffs p
                              (subvector dREtaNode (a * (p - 1))) (dG i))"
  have b: "a * (p - 1) + p \<le> ?n" using element_bound [OF n p a] .
  have zero: "(\<Sum>i<p. D s i) = 0" for s
    unfolding D_def
    using p by (intro DiffLagrangianPolynomialCoeffs_sum subvector_inj_on [OF d b]) simp
  define op1 where "op1 = fold (LinearColumnDiffDiffFEM_InitializeGLLNodes_Node p ?nFE a D dW)
                            [0 ..< p] op"
  define op2 where "op2 = (if a = 0
                then fold (\<lambda>i op. sub2 op 0 i (D 0 i / dW 0)) [0 ..< p] op1 else op1)"
  define op3 where "op3 = (if a = ?nFE - 1
                then fold (\<lambda>i op. sub2 op (?n - 1) (a * (p - 1) + i)
                                     (- (D (p - 1) i / dW (p - 1)))) [0 ..< p] op2
                else op2)"
  have el: "LinearColumnDiffDiffFEM_InitializeGLLNodes_Element GetPoints p dREtaNode a op = op3"
    by (simp only: LinearColumnDiffDiffFEM_InitializeGLLNodes_Element_def Let_def gp prod.case
          op3_def op2_def op1_def D_def)
  have 1: "m_nRElementsIn op1 = ?n \<and> RowSum op1 r = RowSum op r"
    unfolding op1_def
  proof (rule fold_keeps [where I = "\<lambda>op. m_nRElementsIn op = ?n" and g = "\<lambda>op. RowSum op r"])
    show "m_nRElementsIn op = ?n" by (rule N)
    show "m_nRElementsIn (LinearColumnDiffDiffFEM_InitializeGLLNodes_Node p ?nFE a D dW x s) = ?n \<and>
          RowSum (LinearColumnDiffDiffFEM_InitializeGLLNodes_Node p ?nFE a D dW x s) r = RowSum s r"
      if "x \<in> set [0 ..< p]" "m_nRElementsIn s = ?n" for x s
      using that(2) b zero by (rule Node_RowSum)
  qed
  have s0: "(\<Sum>i<p. if r = l then D s i / w else 0) = 0" for l s w
  proof -
    have "(\<Sum>i<p. D s i / w) = (\<Sum>i<p. D s i) / w" by (simp add: sum_divide_distrib)
    then show ?thesis using zero [of s] by (cases "r = l") simp_all
  qed
  have s1: "(\<Sum>i<p. if r = l then - (D s i / w) else 0) = 0" for l s w
  proof -
    have "(\<Sum>i<p. - (D s i / w)) = - ((\<Sum>i<p. D s i) / w)"
      by (simp add: sum_divide_distrib sum_negf)
    then show ?thesis using zero [of s] by (cases "r = l") simp_all
  qed
  have 2: "m_nRElementsIn op2 = ?n \<and> RowSum op2 r = RowSum op r"
  proof (cases "a = 0")
    case True
    have "m_nRElementsIn (fold (\<lambda>i op. sub2 op 0 i (D 0 i / dW 0)) [0 ..< p] op1) = ?n \<and>
          RowSum (fold (\<lambda>i op. sub2 op 0 i (D 0 i / dW 0)) [0 ..< p] op1) r
            = RowSum op1 r - (\<Sum>i<p. if r = 0 then D 0 i / dW 0 else 0)"
      using 1 b by (intro fold_sub2_RowSum) simp_all
    then show ?thesis using True 1 s0 [of 0 0 "dW 0"] by (simp add: op2_def)
  next
    case False
    then show ?thesis using 1 by (simp add: op2_def)
  qed
  have 3: "m_nRElementsIn op3 = ?n \<and> RowSum op3 r = RowSum op r"
  proof (cases "a = ?nFE - 1")
    case True
    have "m_nRElementsIn (fold (\<lambda>i op. sub2 op (?n - 1) (a * (p - 1) + i)
                                     (- (D (p - 1) i / dW (p - 1)))) [0 ..< p] op2) = ?n \<and>
          RowSum (fold (\<lambda>i op. sub2 op (?n - 1) (a * (p - 1) + i)
                                     (- (D (p - 1) i / dW (p - 1)))) [0 ..< p] op2) r
            = RowSum op2 r - (\<Sum>i<p. if r = ?n - 1 then - (D (p - 1) i / dW (p - 1)) else 0)"
      using 2 b by (intro fold_sub2_RowSum) simp_all
    then show ?thesis using True 2 s1 [of "?n - 1" "p - 1" "dW (p - 1)"] by (simp add: op3_def)
  next
    case False
    then show ?thesis using 2 by (simp add: op3_def)
  qed
  show ?thesis unfolding el by (rule 3)
qed

lemma GLLNodes_RowSum:
  assumes init: "LinearColumnDiffDiffFEM_InitializeGLLNodes GetPoints p dREtaNode = Inr op"
    and d: "distinct dREtaNode"
    and p: "2 \<le> p"
  shows "RowSum op l = 0"
proof -
  let ?n = "length dREtaNode"
  let ?op0 = "LinearColumnOperator_Initialize ?n ?n"
  have n: "(?n - 1) mod (p - 1) = 0" "?n \<noteq> 0"
    using init by (auto simp: LinearColumnDiffDiffFEM_InitializeGLLNodes_def Let_def split: if_splits)
  have op: "op = fold (LinearColumnDiffDiffFEM_InitializeGLLNodes_Element GetPoints p dREtaNode)
                   [0 ..< (?n - 1) div (p - 1)] ?op0"
    using init by (auto simp: LinearColumnDiffDiffFEM_InitializeGLLNodes_def Let_def split: if_splits)
  have "m_nRElementsIn op = ?n \<and> RowSum op l = RowSum ?op0 l"
    unfolding op
  proof (rule fold_keeps [where I = "\<lambda>op. m_nRElementsIn op = ?n" and g = "\<lambda>op. RowSum op l"])
    show "m_nRElementsIn ?op0 = ?n" by (simp add: LinearColumnOperator_Initialize_def)
    show "m_nRElementsIn (LinearColumnDiffDiffFEM_InitializeGLLNodes_Element GetPoints p dREtaNode x s)
            = ?n \<and>
          RowSum (LinearColumnDiffDiffFEM_InitializeGLLNodes_Element GetPoints p dREtaNode x s) l
            = RowSum s l"
      if "x \<in> set [0 ..< (?n - 1) div (p - 1)]" "m_nRElementsIn s = ?n" for x s
      using that by (intro Element_RowSum d p n) simp_all
  qed
  moreover have "RowSum ?op0 l = 0"
    by (simp add: RowSum_def LinearColumnOperator_Initialize_def)
  ultimately show ?thesis by simp
qed

lemma for_rows_m_nRElementsIn:
  assumes "\<And>l op op'. f l op = Inr op' \<Longrightarrow> m_nRElementsIn op' = m_nRElementsIn op"
    and "for_rows f ls op = Inr op'"
  shows "m_nRElementsIn op' = m_nRElementsIn op"
  using assms(2)
proof (induction ls arbitrary: op)
  case Nil
  then show ?case by simp
next
  case (Cons y ys)
  from Cons.prems obtain op1 where y: "f y op = Inr op1" and r: "for_rows f ys op1 = Inr op'"
    by (auto split: sum.splits)
  show ?case using Cons.IH [OF r] assms(1) [OF y] by simp
qed

lemma FluxCorrection_Row_m_nRElementsIn:
  "InitializeFluxCorrectionMethod_Row G p dREtaNode dREtaREdge dREtaOut fZB l op = Inr op' \<Longrightarrow>
   m_nRElementsIn op' = m_nRElementsIn op"
  by (auto simp: InitializeFluxCorrectionMethod_Row_def Let_def split_beta split: if_splits)

lemma sum_scaled:
  fixes A B :: "nat \<Rightarrow> real"
  shows "(\<Sum>k<N. (A k + B k) * c) = (sum A {..<N} + sum B {..<N}) * c"
  by (simp add: sum_distrib_right sum.distrib distrib_right)

lemma FluxCorrectionRow_sum:
  fixes dREtaNode :: "real list"
  assumes d: "distinct dREtaNode"
    and n: "length dREtaNode mod p = 0" "length dREtaNode \<noteq> 0"
    and a: "a \<le> length dREtaNode div p - 1"
    and f: "f \<Longrightarrow> a \<noteq> length dREtaNode div p - 1"
    and N: "length dREtaNode \<le> N"
  shows "(\<Sum>k<N. FluxCorrectionRow G p dREtaNode dREtaREdge
                    (\<not> fZB \<and> length dREtaNode div p \<noteq> 1) a f x k)
     = (if f \<and> a \<noteq> 0
        then 0.5 * G 2 (p + 1)
               (1 - (x - dREtaREdge ! (a * p)) / (dREtaREdge ! ((a + 1) * p) - dREtaREdge ! (a * p)))
             / (dREtaREdge ! ((a + 1) * p) - dREtaREdge ! (a * p))
        else 0)"
proof -
  let ?n = "length dREtaNode"
  note b = block_bound [OF n a]
  have sD: "(\<Sum>k<N. window off p (DiffLagrangianPolynomialCoeffs p (subvector dREtaNode off) y) k) = 0"
    if "off + p \<le> ?n" for off y
    using that N b(1) by (intro window_Diff_sum [OF d]) simp_all
  have sU: "(\<Sum>k<N. window off p (LagrangianPolynomialCoeffs p (subvector dREtaNode off) y) k) = 1"
    if "off + p \<le> ?n" for off y
    using that N b(1) by (intro window_Lagrangian_sum [OF d]) simp_all
  have b0: "a * p + p \<le> ?n" using b(3) by simp
  have b1: "(a + 1) * p + p \<le> ?n" if "a \<noteq> ?n div p - 1" using b(4) [OF that] by simp
  have bm: "(a - 1) * p + p \<le> ?n" if "a \<noteq> 0"
  proof -
    have "(a - 1) * p + p = a * p" using that by (cases a) simp_all
    then show ?thesis using b0 by simp
  qed
  define dDelta where "dDelta = dREtaREdge ! ((a + 1) * p) - dREtaREdge ! (a * p)"
  define gR where "gR = G 2 (p + 1) ((x - dREtaREdge ! (a * p)) / dDelta)"
  define gL where "gL = - G 2 (p + 1) (1 - (x - dREtaREdge ! (a * p)) / dDelta)"
  define D where "D = (\<lambda>b. window (b * p) p
                 (DiffLagrangianPolynomialCoeffs p (subvector dREtaNode (b * p)) x))"
  define U where "U = (\<lambda>b e. window (b * p) p
                 (LagrangianPolynomialCoeffs p (subvector dREtaNode (b * p)) (dREtaREdge ! (e * p))))"
  define local where "local = (\<lambda>k. if f then (D a k + D (a + 1) k) * (0.5 * dDelta)
                       else D a k * dDelta)"
  define left where "left = (\<lambda>k. if a \<noteq> 0
                        then (if f then 0 else 0.5 * gL * U (a - 1) a k) - 0.5 * gL * U a a k
                      else if \<not> fZB \<and> ?n div p \<noteq> 1
                        then 0.5 * gL * U a (a + 1) k - 0.5 * gL * U (a + 1) (a + 1) k
                      else 0)"
  define right where "right = (\<lambda>k. if a \<noteq> ?n div p - 1
                         then 0.5 * gR * U (a + 1) (a + 1) k - 0.5 * gR * U a (a + 1) k
                       else if \<not> fZB \<and> ?n div p \<noteq> 1
                         then 0.5 * gR * U a a k - 0.5 * gR * U (a - 1) a k
                       else 0)"
  have row: "FluxCorrectionRow G p dREtaNode dREtaREdge (\<not> fZB \<and> ?n div p \<noteq> 1) a f x
               = (\<lambda>k. (local k + left k + right k) / dDelta)"
    by (simp only: FluxCorrectionRow_def Let_def dDelta_def gR_def gL_def D_def U_def local_def
          left_def right_def)
  have D0: "sum (D a) {..<N} = 0" unfolding D_def using b0 by (rule sD)
  have D1: "sum (D (a + 1)) {..<N} = 0" if "a \<noteq> ?n div p - 1"
    unfolding D_def using b1 [OF that] by (rule sD)
  have U0: "sum (U a e) {..<N} = 1" for e unfolding U_def using b0 by (rule sU)
  have U1: "sum (U (a + 1) e) {..<N} = 1" if "a \<noteq> ?n div p - 1" for e
    unfolding U_def using b1 [OF that] by (rule sU)
  have Um: "sum (U (a - 1) e) {..<N} = 1" if "a \<noteq> 0" for e
    unfolding U_def using bm [OF that] by (rule sU)
  have sl: "sum local {..<N} = 0"
  proof (cases f)
    case True
    have "sum local {..<N} = (sum (D a) {..<N} + sum (D (a + 1)) {..<N}) * (0.5 * dDelta)"
      using True by (simp only: local_def if_True sum_scaled)
    then show ?thesis using D0 D1 [OF f [OF True]] by simp
  next
    case False
    have "sum local {..<N} = sum (D a) {..<N} * dDelta"
      using False by (simp add: local_def sum_distrib_right)
    then show ?thesis using D0 by simp
  qed
  have nfe1: "a \<noteq> ?n div p - 1" if "a = 0" "?n div p \<noteq> 1"
    using that b(2) by auto
  have a0: "a \<noteq> 0" if "a = ?n div p - 1" "?n div p \<noteq> 1"
    using that b(2) by auto
  have sleft: "sum left {..<N} = (if a \<noteq> 0 \<and> f then - (0.5 * gL) else 0)"
  proof (cases "a = 0")
    case False
    have "sum left {..<N} = (if f then 0 else 0.5 * gL * sum (U (a - 1) a) {..<N})
                              - 0.5 * gL * sum (U a a) {..<N}"
      using False by (simp add: left_def sum_subtractf sum_distrib_left)
    then show ?thesis using False U0 Um [OF False] by simp
  next
    case True
    show ?thesis
    proof (cases "\<not> fZB \<and> ?n div p \<noteq> 1")
      case False
      then show ?thesis using True by (auto simp: left_def)
    next
      case fb: True
      have "sum left {..<N} = 0.5 * gL * sum (U a (a + 1)) {..<N}
                                - 0.5 * gL * sum (U (a + 1) (a + 1)) {..<N}"
        using True fb by (simp add: left_def sum_subtractf sum_distrib_left)
      then show ?thesis using True U0 U1 [OF nfe1] fb by simp
    qed
  qed
  have sright: "sum right {..<N} = 0"
  proof (cases "a = ?n div p - 1")
    case False
    have "sum right {..<N} = 0.5 * gR * sum (U (a + 1) (a + 1)) {..<N}
                               - 0.5 * gR * sum (U a (a + 1)) {..<N}"
      using False by (simp add: right_def sum_subtractf sum_distrib_left)
    then show ?thesis using U0 U1 [OF False] by simp
  next
    case True
    show ?thesis
    proof (cases "\<not> fZB \<and> ?n div p \<noteq> 1")
      case False
      then show ?thesis using True by (auto simp: right_def)
    next
      case fb: True
      have "sum right {..<N} = 0.5 * gR * sum (U a a) {..<N}
                                - 0.5 * gR * sum (U (a - 1) a) {..<N}"
        using True fb by (simp add: right_def sum_subtractf sum_distrib_left)
      then show ?thesis using U0 Um [OF a0] True fb by simp
    qed
  qed
  have "(\<Sum>k<N. (local k + left k + right k) / dDelta)
      = (sum local {..<N} + sum left {..<N} + sum right {..<N}) / dDelta"
    by (simp only: sum_divide_distrib [symmetric] sum.distrib)
  then show ?thesis
    unfolding row using sl sleft sright
    by (simp add: gL_def dDelta_def)
qed

lemma FluxCorrection_RowSum:
  assumes init: "InitializeFluxCorrectionMethod G src p dREtaNode dREtaREdge dREtaOut fZB = Inr op"
    and l: "l < length dREtaOut"
    and d: "distinct dREtaNode"
    and fe: "FindElement dREtaREdge p (dREtaOut ! l) (length dREtaNode div p - 1) 0 = (a, f)"
  shows "RowSum op l
     = (if f \<and> a \<noteq> 0
        then 0.5 * G 2 (p + 1)
               (1 - (dREtaOut ! l - dREtaREdge ! (a * p))
                      / (dREtaREdge ! ((a + 1) * p) - dREtaREdge ! (a * p)))
             / (dREtaREdge ! ((a + 1) * p) - dREtaREdge ! (a * p))
        else 0)"
proof -
  let ?n = "length dREtaNode"
  let ?f = "InitializeFluxCorrectionMethod_Row G p dREtaNode dREtaREdge dREtaOut fZB"
  let ?op0 = "if src = InterpSource_Interfaces
              then LinearColumnOperator_Initialize (?n + 1) (length dREtaOut)
              else LinearColumnOperator_Initialize ?n (length dREtaOut)"
  have n: "?n mod p = 0" "?n \<noteq> 0"
    using init by (auto simp: InitializeFluxCorrectionMethod_def Let_def split: if_splits)
  have rows: "for_rows ?f [0 ..< length dREtaOut] ?op0 = Inr op"
    using init by (auto simp: InitializeFluxCorrectionMethod_def Let_def split: if_splits)
  have "m_nRElementsIn op = m_nRElementsIn ?op0"
    using for_rows_m_nRElementsIn [where f = ?f, OF FluxCorrection_Row_m_nRElementsIn rows] .
  then have N: "?n \<le> m_nRElementsIn op"
    by (simp add: LinearColumnOperator_Initialize_def)
  have a: "a \<le> ?n div p - 1"
    using FindElement_bound [of dREtaREdge p "dREtaOut ! l" "?n div p - 1" 0] fe by simp
  have f: "a \<noteq> ?n div p - 1" if f
    using FindElement_on_edge_iff [of dREtaREdge p "dREtaOut ! l" "?n div p - 1" 0 a] fe that
    by auto
  show ?thesis
    unfolding RowSum_def FluxCorrection_Initialize_row [OF init l fe]
    using d n a f N by (rule FluxCorrectionRow_sum)
qed

lemma Interp_Row_off_edge:
  assumes "FindElement dREtaREdge p (dREtaOut ! l) (length dREtaNode div p - 1) 0 = (a, False)"
    and "\<not> (p = 1 \<and> (l = 0 \<or> l = length dREtaOut - 1))"
    and "m_dCoeff op l = (\<lambda>k. 0)"
  shows "m_dCoeff (LinearColumnInterpFEM_Row InterpSource_Levels p dREtaNode dREtaREdge dREtaOut l op) l
     = window (a * p) p
         (LagrangianPolynomialCoeffs p (subvector dREtaNode (a * p)) (dREtaOut ! l))"
  using assms
  by (auto simp: LinearColumnInterpFEM_Row_def Let_def window_def)

lemma Interp_Row_first:
  assumes "FindElement dREtaREdge 1 (dREtaOut ! 0) (length dREtaNode div 1 - 1) 0 = (a, False)"
    and "m_dCoeff op 0 = (\<lambda>k. 0)"
  shows "m_dCoeff (LinearColumnInterpFEM_Row InterpSource_Levels 1 dREtaNode dREtaREdge dREtaOut 0 op) 0
     = window a 2 (LagrangianPolynomialCoeffs 2 (subvector dREtaNode a) (dREtaOut ! 0))"
  using assms
  by (simp add: LinearColumnInterpFEM_Row_def Let_def window_def numeral_2_eq_2)

lemma Interp_Row_last:
  assumes "FindElement dREtaREdge 1 (dREtaOut ! l) (length dREtaNode div 1 - 1) 0 = (a, False)"
    and "l = length dREtaOut - 1" and "l \<noteq> 0"
    and "m_dCoeff op l = (\<lambda>k. 0)"
  shows "m_dCoeff (LinearColumnInterpFEM_Row InterpSource_Levels 1 dREtaNode dREtaREdge dREtaOut l op) l
     = window (a - 1) 2 (LagrangianPolynomialCoeffs 2 (subvector dREtaNode (a - 1)) (dREtaOut ! l))"
  using assms
  by (simp add: LinearColumnInterpFEM_Row_def Let_def window_def numeral_2_eq_2)

lemma FindElement_past:
  assumes "\<And>a'. a0 \<le> a' \<Longrightarrow> a' < a0 + n \<Longrightarrow> dREta ! ((a' + 1) * stride) + ParamEpsilon \<le> x"
  shows "FindElement dREta stride x n a0 = (a0 + n, False)"
  using assms
proof (induction n arbitrary: a0)
  case 0
  then show ?case by simp
next
  case (Suc n)
  have eps: "0 < ParamEpsilon" by (simp add: ParamEpsilon_def)
  have 1: "dREta ! ((a0 + 1) * stride) + ParamEpsilon \<le> x" using Suc.prems [of a0] by simp
  have 2: "FindElement dREta stride x n (Suc a0) = (Suc a0 + n, False)"
    by (rule Suc.IH) (use Suc.prems in auto)
  show ?case using 1 2 eps by (simp add: Let_def)
qed

lemma Interp_fold_m_nRElementsIn:
  "m_nRElementsIn (fold (LinearColumnInterpFEM_Row src p dREtaNode dREtaREdge dREtaOut) ls op)
     = m_nRElementsIn op"
  by (induction ls arbitrary: op)
     (simp_all add: LinearColumnInterpFEM_Row_def Let_def split_beta)

lemma weights_sum:
  fixes dL dR :: real
  assumes "0 < dL" "0 < dR"
  shows "dR ^ p / (dL ^ p + dR ^ p) + dL ^ p / (dL ^ p + dR ^ p) = 1"
proof -
  have "0 < dL ^ p + dR ^ p" using assms by (simp add: add_pos_pos)
  then show ?thesis by (simp add: add_divide_distrib [symmetric] add.commute)
qed

lemma Interp_Levels_RowSum:
  assumes init: "LinearColumnInterpFEM_Initialize InterpSource_Levels p dREtaNode dREtaREdge dREtaREdge
                   False = Inr op"
    and d: "distinct dREtaNode"
    and s: "sorted_wrt (<) dREtaREdge"
    and p1: "p = 1 \<Longrightarrow> 2 \<le> length dREtaNode \<and>
               dREtaREdge ! 0 < dREtaREdge ! 1 - ParamEpsilon \<and>
               dREtaREdge ! (length dREtaNode - 1) + ParamEpsilon \<le> dREtaREdge ! length dREtaNode"
    and l: "l < length dREtaREdge"
  shows "RowSum op l = 1"
proof -
  let ?n = "length dREtaNode"
  let ?f = "LinearColumnInterpFEM_Row InterpSource_Levels p dREtaNode dREtaREdge dREtaREdge"
  have n: "?n mod p = 0" "?n \<noteq> 0" "length dREtaREdge = ?n + 1"
    using init by (auto simp: LinearColumnInterpFEM_Initialize_def Let_def split: if_splits)
  have op: "op = fold ?f [0 ..< length dREtaREdge] (LinearColumnOperator_Initialize ?n (length dREtaREdge))"
    using init by (auto simp: LinearColumnInterpFEM_Initialize_def Let_def split: if_splits)
  have N: "m_nRElementsIn op = ?n"
    unfolding op Interp_fold_m_nRElementsIn by (simp add: LinearColumnOperator_Initialize_def)
  have row: "m_dCoeff op l = r"
    if "\<And>op'. m_dCoeff op' l = (\<lambda>k. 0) \<Longrightarrow> m_dCoeff (?f l op') l = r" for r
  proof (rule Interp_Initialize_row [where src = InterpSource_Levels and fZB = False, OF init l])
    show "\<not> (False \<and> l = 0 \<and> \<bar>dREtaREdge ! 0\<bar> < ParamEpsilon)" by simp
    show "\<not> (False \<and> l = length dREtaREdge - 1 \<and>
             \<bar>dREtaREdge ! (length dREtaREdge - 1) - 1\<bar> < ParamEpsilon)" by simp
    show "m_dCoeff (?f l op') l = r" if "m_dCoeff op' l = (\<lambda>k. 0)" for op'
      using that by (rule \<open>\<And>op'. m_dCoeff op' l = (\<lambda>k. 0) \<Longrightarrow> m_dCoeff (?f l op') l = r\<close>)
  qed
  obtain a f where fe: "FindElement dREtaREdge p (dREtaREdge ! l) (?n div p - 1) 0 = (a, f)"
    by (cases "FindElement dREtaREdge p (dREtaREdge ! l) (?n div p - 1) 0") auto
  have a: "a \<le> ?n div p - 1"
    using FindElement_bound [of dREtaREdge p "dREtaREdge ! l" "?n div p - 1" 0] fe by simp
  note b = block_bound [OF n(1,2) a]
  have b0: "a * p + p \<le> ?n" using b(3) by simp
  have sU: "(\<Sum>k<?n. window off m (LagrangianPolynomialCoeffs m (subvector dREtaNode off) y) k) = 1"
    if "off + m \<le> ?n" "0 < m" for off m y
    using that by (intro window_Lagrangian_sum [OF d]) simp_all
  show ?thesis
  proof (cases "p = 1 \<and> (l = 0 \<or> l = length dREtaREdge - 1)")
    case False
    show ?thesis
    proof (cases f)
      case off: False
      have "m_dCoeff op l = window (a * p) p
         (LagrangianPolynomialCoeffs p (subvector dREtaNode (a * p)) (dREtaREdge ! l))"
        using fe off False by (intro row Interp_Row_off_edge) simp_all
      then show ?thesis using sU [OF b0 b(1)] by (simp add: RowSum_def N)
    next
      case on: True
      have ne: "a \<noteq> ?n div p - 1"
        using FindElement_on_edge_iff [of dREtaREdge p "dREtaREdge ! l" "?n div p - 1" 0 a] fe on
        by auto
      have b1: "(a + 1) * p + p \<le> ?n" using b(4) [OF ne] by simp
      have r: "m_dCoeff op l = WeightedOneSidedRow LagrangianPolynomialCoeffs p dREtaNode p dREtaREdge a
                 (dREtaREdge ! l)"
        using fe on False by (intro row Interp_Row_on_edge) simp_all
      have "a * p < (a + 1) * p" "(a + 1) * p < (a + 2) * p" using b(1) by simp_all
      moreover have "(a + 2) * p < length dREtaREdge" using b(4) [OF ne] n(3) by simp
      ultimately have "dREtaREdge ! (a * p) < dREtaREdge ! ((a + 1) * p)"
        "dREtaREdge ! ((a + 1) * p) < dREtaREdge ! ((a + 2) * p)"
        using s by (auto intro: sorted_wrt_nth_less)
      then have w: "0 < dREtaREdge ! ((a + 1) * p) - dREtaREdge ! (a * p)"
        "0 < dREtaREdge ! ((a + 2) * p) - dREtaREdge ! ((a + 1) * p)" by simp_all
      show ?thesis
        unfolding RowSum_def N r WeightedOneSidedRow_def Let_def weighted_sum
          sU [OF b0 b(1)] sU [OF b1 b(1)]
        using weights_sum [OF w] by simp
    qed
  next
    case True
    then have p: "p = 1" by simp
    note h = p1 [OF p]
    have eps: "0 < ParamEpsilon" by (simp add: ParamEpsilon_def)
    show ?thesis
    proof (cases "l = 0")
      case l0: True
      have "2 \<le> ?n" using h by simp
      then have "?n div 1 - 1 = Suc (?n - 2)" by (simp add: numeral_2_eq_2)
      then have fe0: "FindElement dREtaREdge 1 (dREtaREdge ! 0) (?n div 1 - 1) 0 = (0, False)"
        using h by (simp add: Let_def)
      have "m_dCoeff op 0 = window 0 2 (LagrangianPolynomialCoeffs 2 (subvector dREtaNode 0)
                                           (dREtaREdge ! 0))"
        using row [of "window 0 2 (LagrangianPolynomialCoeffs 2 (subvector dREtaNode 0)
                                           (dREtaREdge ! 0))"]
          Interp_Row_first [OF fe0] l0 p by simp
      moreover have "0 + 2 \<le> ?n" using h by simp
      ultimately show ?thesis using sU [of 0 2] l0 by (simp add: RowSum_def N)
    next
      case l1: False
      then have ln: "l = ?n" using True n(3) by simp
      have past: "dREtaREdge ! ((a' + 1) * 1) + ParamEpsilon \<le> dREtaREdge ! ?n"
        if "a' < 0 + (?n - 1)" for a'
      proof -
        have "dREtaREdge ! (a' + 1) \<le> dREtaREdge ! (?n - 1)"
        proof (cases "a' + 1 = ?n - 1")
          case True
          then show ?thesis by simp
        next
          case False
          then have "a' + 1 < ?n - 1" using that by simp
          then have "dREtaREdge ! (a' + 1) < dREtaREdge ! (?n - 1)"
            using sorted_wrt_nth_less [OF s, of "a' + 1" "?n - 1"] n(3) by simp
          then show ?thesis by simp
        qed
        then show ?thesis using h by simp
      qed
      have fen: "FindElement dREtaREdge 1 (dREtaREdge ! l) (?n div 1 - 1) 0 = (?n - 1, False)"
        using FindElement_past [of 0 "?n - 1" dREtaREdge 1 "dREtaREdge ! ?n"] past ln by simp
      have "m_dCoeff op l = window (?n - 1 - 1) 2
              (LagrangianPolynomialCoeffs 2 (subvector dREtaNode (?n - 1 - 1)) (dREtaREdge ! l))"
        using row [of "window (?n - 1 - 1) 2
              (LagrangianPolynomialCoeffs 2 (subvector dREtaNode (?n - 1 - 1)) (dREtaREdge ! l))"]
          Interp_Row_last [OF fen] ln n(3) l1 p by simp
      moreover have "?n - 1 - 1 + 2 \<le> ?n" using h by arith
      ultimately show ?thesis using sU [of "?n - 1 - 1" 2] by (simp add: RowSum_def N)
    qed
  qed
qed

lemma Interface_Levels_RowSum:
  assumes init: "InitializeInterfaceMethod InterpSource_Levels p dREtaNode dREtaREdge dREtaOut False
                   = Inr op"
    and l: "l < length dREtaOut"
    and d: "distinct dREtaNode"
    and s: "sorted_wrt (<) dREtaREdge"
    and p1: "p = 1 \<Longrightarrow> 2 \<le> length dREtaNode \<and>
               dREtaREdge ! 0 < dREtaREdge ! 1 - ParamEpsilon \<and>
               dREtaREdge ! (length dREtaNode - 1) + ParamEpsilon \<le> dREtaREdge ! length dREtaNode"
  shows "RowSum op l = 0"
proof -
  let ?n = "length dREtaNode"
  let ?D = "fold (InitializeInterfaceMethod_Row p dREtaNode dREtaREdge dREtaOut)
              [0 ..< length dREtaOut] (LinearColumnOperator_Initialize (?n + 1) (length dREtaOut))"
  note n = Interface_Initialize_n [OF init]
  have D: "InitializeInterfaceMethod InterpSource_Interfaces p dREtaNode dREtaREdge dREtaOut False
             = Inr ?D"
    using n by (simp add: InitializeInterfaceMethod_def Let_def)
  obtain opInterp where I: "LinearColumnInterpFEM_Initialize InterpSource_Levels p dREtaNode
                               dREtaREdge dREtaREdge False = Inr opInterp"
    and op: "op = ComposeWith ?D opInterp"
    using init n by (auto simp: InitializeInterfaceMethod_def Let_def split: sum.splits)
  have de: "distinct dREtaREdge" using s by (simp add: strict_sorted_iff)
  have D0: "RowSum ?D l = 0" using D l de by (rule Interface_Interfaces_RowSum)
  have nD: "m_nRElementsIn ?D = ?n + 1"
    by (simp add: Interface_fold_m_nRElementsIn LinearColumnOperator_Initialize_def)
  have I1: "RowSum opInterp e = 1" if "e < ?n + 1" for e
  proof -
    have el: "e < length dREtaREdge" using that n(3) by simp
    show ?thesis by (rule Interp_Levels_RowSum [OF I d s _ el]) (rule p1)
  qed
  have "RowSum op l = (\<Sum>k<m_nRElementsIn opInterp. \<Sum>e<?n + 1. m_dCoeff ?D l e * m_dCoeff opInterp e k)"
    unfolding op ComposeWith_RowSum nD ..
  also have "\<dots> = (\<Sum>e<?n + 1. \<Sum>k<m_nRElementsIn opInterp. m_dCoeff ?D l e * m_dCoeff opInterp e k)"
    by (rule sum.swap)
  also have "\<dots> = (\<Sum>e<?n + 1. m_dCoeff ?D l e * RowSum opInterp e)"
    by (simp only: RowSum_def sum_distrib_left)
  also have "\<dots> = (\<Sum>e<?n + 1. m_dCoeff ?D l e)"
    using I1 by (intro sum.cong) simp_all
  also have "\<dots> = RowSum ?D l"
    by (simp only: RowSum_def nD)
  finally show ?thesis using D0 by simp
qed

subsection \<open>Derivative operators on a constant column\<close>

text \<open>
  For the concrete second-derivative operator below, the quadrature of order 2 on an interval:
  the two ends, each with half the length of the interval as weight.
\<close>

definition endpoint_points :: "nat \<Rightarrow> real \<Rightarrow> real \<Rightarrow> (nat \<Rightarrow> real) \<times> (nat \<Rightarrow> real)" where
  "endpoint_points nOrder x0 x1 = ((\<lambda>i. if i = 0 then x0 else x1), (\<lambda>i. (x1 - x0) / 2))"


lemma two_element_Interface_Levels:
  "InitializeInterfaceMethod InterpSource_Levels 1 two_element_nodes two_element_edges
     two_element_nodes True
   = Inr (ComposeWith
            (fold (InitializeInterfaceMethod_Row 1 two_element_nodes two_element_edges
                     two_element_nodes) [0 ..< 2] (LinearColumnOperator_Initialize 3 2))
            (fold (LinearColumnInterpFEM_Row InterpSource_Levels 1 two_element_nodes
                     two_element_edges two_element_edges) [1 ..< 2]
               (LinearColumnOperator_Initialize 2 3)))"
  by (simp add: InitializeInterfaceMethod_def LinearColumnInterpFEM_Initialize_def
        two_element_nodes_def two_element_edges_def ParamEpsilon_def
        Let_def numeral_2_eq_2 numeral_3_eq_3 del: upt_Suc)

lemma two_element_derivative_rows:
  "m_dCoeff (fold (InitializeInterfaceMethod_Row 1 two_element_nodes two_element_edges
                     two_element_nodes) [0 ..< 2] (LinearColumnOperator_Initialize 3 2)) 0
     = (\<lambda>k. if k = 0 then - 2 else if k = 1 then 2 else 0)"
  by (simp add: InitializeInterfaceMethod_Row_def LinearColumnOperator_Initialize_def
        DiffLagrangianPolynomialCoeffs_def put_def subvector_def
        two_element_nodes_def two_element_edges_def ParamEpsilon_def
        Let_def numeral_2_eq_2 lessThan_1_minus lessThan_Suc_Suc_minus fun_eq_iff)

lemma two_element_interpolation_rows:
  "m_dCoeff (fold (LinearColumnInterpFEM_Row InterpSource_Levels 1 two_element_nodes
                     two_element_edges two_element_edges) [1 ..< 2]
               (LinearColumnOperator_Initialize 2 3))
     = (\<lambda>l k. if l = 1 \<and> (k = 0 \<or> k = 1) then 1 / 2 else 0)"
  by (simp add: LinearColumnInterpFEM_Row_def LinearColumnOperator_Initialize_def
        LagrangianPolynomialCoeffs_def InterpWeights_def put_def scale_def subvector_def
        two_element_nodes_def two_element_edges_def ParamEpsilon_def
        Let_def numeral_2_eq_2 lessThan_1_minus fun_eq_iff)

lemma two_element_Interface_Levels_free:
  "InitializeInterfaceMethod InterpSource_Levels 1 two_element_nodes two_element_edges
     two_element_nodes False
   = Inr (ComposeWith
            (fold (InitializeInterfaceMethod_Row 1 two_element_nodes two_element_edges
                     two_element_nodes) [0 ..< 2] (LinearColumnOperator_Initialize 3 2))
            (fold (LinearColumnInterpFEM_Row InterpSource_Levels 1 two_element_nodes
                     two_element_edges two_element_edges) [0 ..< 3]
               (LinearColumnOperator_Initialize 2 3)))"
  by (simp add: InitializeInterfaceMethod_def LinearColumnInterpFEM_Initialize_def
        two_element_nodes_def two_element_edges_def ParamEpsilon_def
        Let_def numeral_2_eq_2 numeral_3_eq_3 del: upt_Suc)

lemma two_element_GLLNodes:
  "LinearColumnDiffDiffFEM_InitializeGLLNodes endpoint_points 2 two_element_edges
   = Inr (fold (LinearColumnDiffDiffFEM_InitializeGLLNodes_Element endpoint_points 2
                  two_element_edges) [0 ..< 2] (LinearColumnOperator_Initialize 3 3))"
  by (simp add: LinearColumnDiffDiffFEM_InitializeGLLNodes_def two_element_edges_def Let_def
        numeral_2_eq_2 numeral_3_eq_3 del: upt_Suc)


text \<open>
  Claim C6.  Applied to a constant column, the derivative operators yield the zero column, that
  is, each coefficient row sums to zero: the interface method from interfaces; the interface
  method from levels when \<open>fZeroBoundaries\<close> is not set; the second-derivative operator on GLL
  nodes; and the flux-correction method in every row but those whose output point lies on
  an internal finite-element interface of an element other than the first, where the sum is
  \<open>g'(\<xi>\<^sub>L) / (2 \<Delta>)\<close>, with \<open>g'\<close> the derivative of the flux-correction function at the left
  coordinate \<open>\<xi>\<^sub>L\<close> of the output point and \<open>\<Delta>\<close> the width of the element.  The sample points
  are distinct, the interfaces increase, and at vertical order 1 there are at least two
  elements, the first and the last wider than \<open>\<epsilon>\<close>.
\<close>

theorem derivative_operators_RowSum:
  "(InitializeInterfaceMethod InterpSource_Interfaces p dREtaNode dREtaREdge dREtaOut fZB = Inr op \<and>
    l < length dREtaOut \<and> distinct dREtaREdge
    \<longrightarrow> RowSum op l = 0) \<and>
   (InitializeInterfaceMethod InterpSource_Levels p dREtaNode dREtaREdge dREtaOut False = Inr op \<and>
    l < length dREtaOut \<and> distinct dREtaNode \<and> sorted_wrt (<) dREtaREdge \<and>
    (p = 1 \<longrightarrow> 2 \<le> length dREtaNode \<and>
               dREtaREdge ! 0 < dREtaREdge ! 1 - ParamEpsilon \<and>
               dREtaREdge ! (length dREtaNode - 1) + ParamEpsilon \<le> dREtaREdge ! length dREtaNode)
    \<longrightarrow> RowSum op l = 0) \<and>
   (InitializeFluxCorrectionMethod G src p dREtaNode dREtaREdge dREtaOut fZB = Inr op \<and>
    l < length dREtaOut \<and> distinct dREtaNode \<and>
    FindElement dREtaREdge p (dREtaOut ! l) (length dREtaNode div p - 1) 0 = (a, f)
    \<longrightarrow> RowSum op l
          = (if f \<and> a \<noteq> 0
             then 0.5 * G 2 (p + 1)
                    (1 - (dREtaOut ! l - dREtaREdge ! (a * p))
                           / (dREtaREdge ! ((a + 1) * p) - dREtaREdge ! (a * p)))
                  / (dREtaREdge ! ((a + 1) * p) - dREtaREdge ! (a * p))
             else 0)) \<and>
   (LinearColumnDiffDiffFEM_InitializeGLLNodes GetPoints p dREtaNode = Inr op \<and>
    distinct dREtaNode \<and> 2 \<le> p
    \<longrightarrow> RowSum op l = 0)"
proof (intro conjI impI)
  assume "InitializeInterfaceMethod InterpSource_Interfaces p dREtaNode dREtaREdge dREtaOut fZB = Inr op \<and>
    l < length dREtaOut \<and> distinct dREtaREdge"
  then show "RowSum op l = 0"
    using Interface_Interfaces_RowSum [of p dREtaNode dREtaREdge dREtaOut fZB op l] by simp
next
  assume h: "InitializeInterfaceMethod InterpSource_Levels p dREtaNode dREtaREdge dREtaOut False = Inr op \<and>
    l < length dREtaOut \<and> distinct dREtaNode \<and> sorted_wrt (<) dREtaREdge \<and>
    (p = 1 \<longrightarrow> 2 \<le> length dREtaNode \<and>
               dREtaREdge ! 0 < dREtaREdge ! 1 - ParamEpsilon \<and>
               dREtaREdge ! (length dREtaNode - 1) + ParamEpsilon \<le> dREtaREdge ! length dREtaNode)"
  show "RowSum op l = 0"
  proof (rule Interface_Levels_RowSum [where p = p and dREtaNode = dREtaNode
            and dREtaREdge = dREtaREdge and dREtaOut = dREtaOut])
    show "InitializeInterfaceMethod InterpSource_Levels p dREtaNode dREtaREdge dREtaOut False = Inr op"
      using h by simp
    show "l < length dREtaOut" using h by simp
    show "distinct dREtaNode" using h by simp
    show "sorted_wrt (<) dREtaREdge" using h by simp
    show "2 \<le> length dREtaNode \<and>
               dREtaREdge ! 0 < dREtaREdge ! 1 - ParamEpsilon \<and>
               dREtaREdge ! (length dREtaNode - 1) + ParamEpsilon \<le> dREtaREdge ! length dREtaNode"
      if "p = 1"
      using h that by blast
  qed
next
  assume "InitializeFluxCorrectionMethod G src p dREtaNode dREtaREdge dREtaOut fZB = Inr op \<and>
    l < length dREtaOut \<and> distinct dREtaNode \<and>
    FindElement dREtaREdge p (dREtaOut ! l) (length dREtaNode div p - 1) 0 = (a, f)"
  then show "RowSum op l
          = (if f \<and> a \<noteq> 0
             then 0.5 * G 2 (p + 1)
                    (1 - (dREtaOut ! l - dREtaREdge ! (a * p))
                           / (dREtaREdge ! ((a + 1) * p) - dREtaREdge ! (a * p)))
                  / (dREtaREdge ! ((a + 1) * p) - dREtaREdge ! (a * p))
             else 0)"
    using FluxCorrection_RowSum [of G src p dREtaNode dREtaREdge dREtaOut fZB op l a f] by blast
next
  assume "LinearColumnDiffDiffFEM_InitializeGLLNodes GetPoints p dREtaNode = Inr op \<and>
    distinct dREtaNode \<and> 2 \<le> p"
  then show "RowSum op l = 0"
    using GLLNodes_RowSum [of GetPoints p dREtaNode op l] by simp
qed


theorem derivative_operators_RowSum_witness:
  "RowSum (fold (InitializeInterfaceMethod_Row 1 two_element_nodes two_element_edges
                   two_element_edges) [0 ..< 3] (LinearColumnOperator_Initialize 3 3)) 1 = 0 \<and>
   RowSum (ComposeWith
            (fold (InitializeInterfaceMethod_Row 1 two_element_nodes two_element_edges
                     two_element_nodes) [0 ..< 2] (LinearColumnOperator_Initialize 3 2))
            (fold (LinearColumnInterpFEM_Row InterpSource_Levels 1 two_element_nodes
                     two_element_edges two_element_edges) [0 ..< 3]
               (LinearColumnOperator_Initialize 2 3))) 0 = 0 \<and>
   RowSum (projr (InitializeFluxCorrectionMethod unit_derivative InterpSource_Levels 1
                    two_element_nodes two_element_edges [1 / 4] False)) 0 = 0 \<and>
   RowSum (fold (LinearColumnDiffDiffFEM_InitializeGLLNodes_Element endpoint_points 2
                   two_element_edges) [0 ..< 2] (LinearColumnOperator_Initialize 3 3)) 1 = 0"
proof (intro conjI)
  show "RowSum (fold (InitializeInterfaceMethod_Row 1 two_element_nodes two_element_edges
                   two_element_edges) [0 ..< 3] (LinearColumnOperator_Initialize 3 3)) 1 = 0"
    using conjunct1 [OF derivative_operators_RowSum
        [of 1 two_element_nodes two_element_edges two_element_edges False _ 1]]
      two_element_Interface
    by (simp add: two_element_edges_def)
  show "RowSum (ComposeWith
            (fold (InitializeInterfaceMethod_Row 1 two_element_nodes two_element_edges
                     two_element_nodes) [0 ..< 2] (LinearColumnOperator_Initialize 3 2))
            (fold (LinearColumnInterpFEM_Row InterpSource_Levels 1 two_element_nodes
                     two_element_edges two_element_edges) [0 ..< 3]
               (LinearColumnOperator_Initialize 2 3))) 0 = 0"
    using conjunct1 [OF conjunct2 [OF derivative_operators_RowSum
        [of 1 two_element_nodes two_element_edges two_element_nodes _ _ 0]]]
      two_element_Interface_Levels_free
    by (simp add: two_element_edges_def two_element_nodes_def ParamEpsilon_def)
  show "RowSum (projr (InitializeFluxCorrectionMethod unit_derivative InterpSource_Levels 1
                    two_element_nodes two_element_edges [1 / 4] False)) 0 = 0"
    using conjunct1 [OF conjunct2 [OF conjunct2 [OF derivative_operators_RowSum
        [of 1 two_element_nodes two_element_edges "[1 / 4]" False
            "projr (InitializeFluxCorrectionMethod unit_derivative InterpSource_Levels 1
                    two_element_nodes two_element_edges [1 / 4] False)" 0
            unit_derivative InterpSource_Levels 0 False]]]]
      coefficient_Some_Inr [OF conjunct1 [OF two_element_FluxCorrection [of False]]]
      two_element_FindElement_node
    by (simp add: two_element_nodes_def)
  show "RowSum (fold (LinearColumnDiffDiffFEM_InitializeGLLNodes_Element endpoint_points 2
                   two_element_edges) [0 ..< 2] (LinearColumnOperator_Initialize 3 3)) 1 = 0"
    using conjunct2 [OF conjunct2 [OF conjunct2 [OF derivative_operators_RowSum
        [of 2 two_element_edges _ _ _ _ 1 _ _ _ _ endpoint_points]]]]
      two_element_GLLNodes
    by (simp add: two_element_edges_def)
qed

theorem zero_boundaries_RowSum_counterexample:
  "InitializeInterfaceMethod InterpSource_Levels 1 two_element_nodes two_element_edges
     two_element_nodes True
   = Inr (ComposeWith
            (fold (InitializeInterfaceMethod_Row 1 two_element_nodes two_element_edges
                     two_element_nodes) [0 ..< 2] (LinearColumnOperator_Initialize 3 2))
            (fold (LinearColumnInterpFEM_Row InterpSource_Levels 1 two_element_nodes
                     two_element_edges two_element_edges) [1 ..< 2]
               (LinearColumnOperator_Initialize 2 3))) \<and>
   RowSum (ComposeWith
            (fold (InitializeInterfaceMethod_Row 1 two_element_nodes two_element_edges
                     two_element_nodes) [0 ..< 2] (LinearColumnOperator_Initialize 3 2))
            (fold (LinearColumnInterpFEM_Row InterpSource_Levels 1 two_element_nodes
                     two_element_edges two_element_edges) [1 ..< 2]
               (LinearColumnOperator_Initialize 2 3))) 0 = 2"
proof -
  let ?A = "fold (InitializeInterfaceMethod_Row 1 two_element_nodes two_element_edges
                     two_element_nodes) [0 ..< 2] (LinearColumnOperator_Initialize 3 2)"
  let ?B = "fold (LinearColumnInterpFEM_Row InterpSource_Levels 1 two_element_nodes
                     two_element_edges two_element_edges) [1 ..< 2]
               (LinearColumnOperator_Initialize 2 3)"
  have nB: "m_nRElementsIn ?B = 2"
    by (simp add: LinearColumnInterpFEM_Row_def LinearColumnOperator_Initialize_def
          Let_def split_beta numeral_2_eq_2)
  have nA: "m_nRElementsIn ?A = 3"
    by (simp add: Interface_fold_m_nRElementsIn LinearColumnOperator_Initialize_def)
  have "RowSum (ComposeWith ?A ?B) 0 = 2"
    unfolding ComposeWith_RowSum nA nB two_element_derivative_rows two_element_interpolation_rows
    by (simp add: numeral_2_eq_2 numeral_3_eq_3)
  then show ?thesis
    using two_element_Interface_Levels by blast
qed

end
